theory Spec2Isabelle
  imports Main "HOL-Library.Word" "HOL-Library.Signed_Division"
begin

section \<open>Machine types\<close>

text \<open>
  The C sources use the Windows integer types. Unsigned types are words of their width,
  where \<open>+\<close>, \<open>-\<close> and \<open>*\<close> wrap around and \<open>div\<close> is unsigned division. A
  \<open>LONGLONG\<close> is kept as its 64-bit pattern and read with \<open>sint\<close>; a C \<open>int\<close> that
  is converted to or from an unsigned type is kept as its 32-bit pattern and read with
  \<open>sint\<close>. Return codes and the orchestrator's local \<open>int\<close> counters are \<open>int\<close>.
  A pointer that the code tests against \<open>NULL\<close> is an \<open>option\<close>.
\<close>

type_synonym BYTE = "8 word"
type_synonym DWORD = "32 word"
type_synonym UINT32 = "32 word"
type_synonym UINT64 = "64 word"
type_synonym LONGLONG = "64 word"
type_synonym INT32 = "32 word"

text \<open>
  An integer division by zero stops the process (a hardware trap); HOL's \<open>div\<close> would
  return 0 instead. So does an access through a null pointer, and a copy that leaves its
  block has no defined result. Every function that divides by a run-time value, follows a
  pointer it has not tested or copies between blocks returns a sum whose left side is the
  trap.
\<close>

datatype fault = DivideByZero | NullPointer | OutOfBounds

section \<open>The muxer (encoder.c)\<close>

subsection \<open>The sink writer as the muxer sees it\<close>

text \<open>
  The sink writer is an object of the operating system. The model keeps what the muxer
  hands to it: the streams declared with \<open>AddStream\<close> (the index that \<open>AddStream\<close>
  returns is the position in this list) together with the input type set on them, the
  samples passed to \<open>WriteSample\<close>, the ticks passed to \<open>SendStreamTick\<close>, and
  whether \<open>BeginWriting\<close>, \<open>Flush\<close> and \<open>Finalize\<close> have succeeded. Payload bytes
  are not kept, only the length of each buffer.
\<close>

datatype media_type =
    Video_H264 UINT32 UINT64 UINT64
  | Video_ARGB32 UINT64 UINT64
  | Audio_AAC UINT32 UINT32 UINT32 UINT32
  | Audio_Float UINT32 UINT32 UINT32 UINT32 UINT32
  | Audio_PCM UINT32 UINT32 UINT32 UINT32 UINT32

record mf_sample =
  sample_time :: LONGLONG
  sample_duration :: LONGLONG
  buffer_length :: DWORD

record sink_writer =
  streams :: "(media_type \<times> media_type option) list"
  written :: "(DWORD \<times> mf_sample) list"
  ticks :: "(DWORD \<times> LONGLONG) list"
  began_writing :: bool
  flushed :: bool
  finalized :: bool

definition write_sample :: "sink_writer \<Rightarrow> DWORD \<Rightarrow> mf_sample \<Rightarrow> sink_writer" where
  "write_sample sw idx s = sw\<lparr>written := written sw @ [(idx, s)]\<rparr>"

definition send_stream_tick :: "sink_writer \<Rightarrow> DWORD \<Rightarrow> LONGLONG \<Rightarrow> sink_writer" where
  "send_stream_tick sw idx t = sw\<lparr>ticks := ticks sw @ [(idx, t)]\<rparr>"

text \<open>The samples written to one stream, in submission order.\<close>

definition stream_samples :: "DWORD \<Rightarrow> sink_writer \<Rightarrow> mf_sample list" where
  "stream_samples idx sw = map snd (filter (\<lambda>p. fst p = idx) (written sw))"

subsection \<open>Module-level state and the encoder context\<close>

text \<open>The file-scope statics of encoder.c, with their initialisers.\<close>

record encoder_globals =
  g_sink_writer :: "sink_writer option"
  g_video_stream_index :: DWORD
  g_audio_stream_index :: DWORD
  g_system_audio_stream_index :: DWORD
  g_mic_audio_stream_index :: DWORD
  g_dual_track_mode :: bool
  g_video_frame_count :: UINT64
  g_audio_sample_count :: UINT64
  g_system_audio_sample_count :: UINT64
  g_mic_audio_sample_count :: UINT64
  g_video_width :: UINT32
  g_video_height :: UINT32
  g_video_fps :: UINT32
  g_audio_sample_rate :: UINT32
  g_recording_start_time :: DWORD
  g_last_video_timestamp :: LONGLONG
  g_container_timescale :: UINT32

definition encoder_globals_initial :: encoder_globals where
  "encoder_globals_initial =
     \<lparr>g_sink_writer = None,
      g_video_stream_index = 0,
      g_audio_stream_index = 0,
      g_system_audio_stream_index = 0,
      g_mic_audio_stream_index = 0,
      g_dual_track_mode = False,
      g_video_frame_count = 0,
      g_audio_sample_count = 0,
      g_system_audio_sample_count = 0,
      g_mic_audio_sample_count = 0,
      g_video_width = 0,
      g_video_height = 0,
      g_video_fps = 30,
      g_audio_sample_rate = 44100,
      g_recording_start_time = 0,
      g_last_video_timestamp = 0,
      g_container_timescale = 30000\<rparr>"

text \<open>\<open>encoder_context_t\<close> of encoder.h; \<open>memset\<close> to zero gives \<open>encoder_context_zero\<close>.\<close>

record encoder_context =
  output_filename :: "string option"
  dual_track_mode :: bool
  audio_only_mode :: bool
  is_recording :: bool
  input_sample_rate :: INT32
  input_channels :: INT32
  input_bits_per_sample :: INT32
  video_width :: INT32
  video_height :: INT32
  video_fps :: INT32

definition encoder_context_zero :: encoder_context where
  "encoder_context_zero =
     \<lparr>output_filename = None, dual_track_mode = False, audio_only_mode = False,
      is_recording = False, input_sample_rate = 0, input_channels = 0,
      input_bits_per_sample = 0, video_width = 0, video_height = 0, video_fps = 0\<rparr>"

subsection \<open>Submitting samples\<close>

text \<open>
  Each of the four submission functions makes the same nine calls into Media Foundation,
  and each call can fail. The outcome of the calls is an input of the model: one flag per
  call, true when the call succeeds.
\<close>

record sample_calls =
  create_sample_ok :: bool
  create_buffer_ok :: bool
  lock_ok :: bool
  unlock_ok :: bool
  set_length_ok :: bool
  add_buffer_ok :: bool
  set_time_ok :: bool
  set_duration_ok :: bool
  write_ok :: bool

definition all_calls_ok :: sample_calls where
  "all_calls_ok =
     \<lparr>create_sample_ok = True, create_buffer_ok = True, lock_ok = True, unlock_ok = True,
      set_length_ok = True, add_buffer_ok = True, set_time_ok = True,
      set_duration_ok = True, write_ok = True\<rparr>"

text \<open>
  The calls from \<open>MFCreateSample\<close> to \<open>IMFSample_AddBuffer\<close>: true when all six succeed.
  The functions return \<open>-1\<close> at the first failure, with no change of state.
\<close>

definition buffer_prepared :: "sample_calls \<Rightarrow> bool" where
  "buffer_prepared hr \<longleftrightarrow>
     create_sample_ok hr \<and> create_buffer_ok hr \<and> lock_ok hr \<and> unlock_ok hr \<and>
     set_length_ok hr \<and> add_buffer_ok hr"

text \<open>
  \<open>encoder_add_video_frame\<close>. The arguments \<open>frame_size\<close> and \<open>elapsed_ms\<close> are
  received and not used. The copy of the frame into the media buffer is not modelled: the
  sink writer keeps the length of the buffer, not its bytes. \<open>g_video_frame_count * 10000000LL / g_video_fps\<close> is computed
  in unsigned 64-bit arithmetic (the counter is a \<open>UINT64\<close>) and then converted to
  \<open>LONGLONG\<close>; \<open>10000000LL / g_video_fps\<close> divides two non-negative 64-bit values.
\<close>

definition encoder_add_video_frame ::
  "encoder_globals \<Rightarrow> encoder_context option \<Rightarrow> BYTE list option \<Rightarrow> nat \<Rightarrow> DWORD \<Rightarrow>
   sample_calls \<Rightarrow> fault + (int \<times> encoder_globals)" where
  "encoder_add_video_frame g context frame_data frame_size elapsed_ms hr =
     (case (context, frame_data, g_sink_writer g) of
        (Some ctx, Some data, Some sw) \<Rightarrow>
          if \<not> is_recording ctx then Inr (-1, g)
          else
            let buffer_length = g_video_width g * g_video_height g * 4 in
            if \<not> buffer_prepared hr then Inr (-1, g)
            else if g_video_fps g = 0 then Inl DivideByZero
            else
              let timestamp = (g_video_frame_count g * 10000000) div ucast (g_video_fps g) in
              if \<not> set_time_ok hr then Inr (-1, g)
              else
                let duration = 10000000 div ucast (g_video_fps g) in
                if \<not> set_duration_ok hr then Inr (-1, g)
                else if \<not> write_ok hr then Inr (-1, g)
                else
                  Inr (0, g\<lparr>g_sink_writer :=
                              Some (write_sample sw (g_video_stream_index g)
                                \<lparr>sample_time = timestamp, sample_duration = duration,
                                 buffer_length = buffer_length\<rparr>),
                            g_video_frame_count := g_video_frame_count g + 1\<rparr>)
      | _ \<Rightarrow> Inr (-1, g))"

text \<open>
  The three audio submission functions share one body up to the counter, the stream index
  and the guard. The body stamps with the constant 44100, adds \<open>num_frames\<close> to the
  counter before the duration is set, and so keeps the counter advanced when a later call
  fails. \<open>num_frames * 10000000LL\<close> is a signed 64-bit product of a \<open>UINT32\<close> and a
  constant, which cannot overflow.
\<close>

definition stamp_audio ::
  "sink_writer \<Rightarrow> DWORD \<Rightarrow> UINT64 \<Rightarrow> encoder_context \<Rightarrow> UINT32 \<Rightarrow> sample_calls \<Rightarrow>
   int \<times> sink_writer \<times> UINT64" where
  "stamp_audio sw stream_index sample_count ctx num_frames hr =
     (let buffer_length =
            num_frames * input_channels ctx * (word_of_int (sint (input_bits_per_sample ctx) sdiv 8))
      in
      if \<not> buffer_prepared hr then (-1, sw, sample_count)
      else
        let timestamp = (sample_count * 10000000) div 44100 in
        if \<not> set_time_ok hr then (-1, sw, sample_count)
        else
          let sample_count' = sample_count + ucast num_frames;
              duration = (ucast num_frames * 10000000) div 44100
          in
          if \<not> set_duration_ok hr then (-1, sw, sample_count')
          else if \<not> write_ok hr then (-1, sw, sample_count')
          else
            (0, write_sample sw stream_index
                  \<lparr>sample_time = timestamp, sample_duration = duration,
                   buffer_length = buffer_length\<rparr>,
             sample_count'))"

definition encoder_add_audio_frame ::
  "encoder_globals \<Rightarrow> encoder_context option \<Rightarrow> BYTE list option \<Rightarrow> UINT32 \<Rightarrow> DWORD \<Rightarrow>
   sample_calls \<Rightarrow> int \<times> encoder_globals" where
  "encoder_add_audio_frame g context audio_data num_frames elapsed_ms hr =
     (case (context, audio_data, g_sink_writer g) of
        (Some ctx, Some data, Some sw) \<Rightarrow>
          if \<not> is_recording ctx then (-1, g)
          else if g_audio_stream_index g = - 1 then (0, g)
          else
            (case stamp_audio sw (g_audio_stream_index g) (g_audio_sample_count g) ctx num_frames hr of
               (r, sw', n') \<Rightarrow> (r, g\<lparr>g_sink_writer := Some sw', g_audio_sample_count := n'\<rparr>))
      | _ \<Rightarrow> (-1, g))"

definition encoder_add_system_audio_frame ::
  "encoder_globals \<Rightarrow> encoder_context option \<Rightarrow> BYTE list option \<Rightarrow> UINT32 \<Rightarrow> DWORD \<Rightarrow>
   sample_calls \<Rightarrow> int \<times> encoder_globals" where
  "encoder_add_system_audio_frame g context audio_data num_frames elapsed_ms hr =
     (case (context, audio_data, g_sink_writer g) of
        (Some ctx, Some data, Some sw) \<Rightarrow>
          if \<not> is_recording ctx \<or> \<not> g_dual_track_mode g then (-1, g)
          else
            (case stamp_audio sw (g_system_audio_stream_index g) (g_system_audio_sample_count g)
                    ctx num_frames hr of
               (r, sw', n') \<Rightarrow>
                 (r, g\<lparr>g_sink_writer := Some sw', g_system_audio_sample_count := n'\<rparr>))
      | _ \<Rightarrow> (-1, g))"

definition encoder_add_mic_audio_frame ::
  "encoder_globals \<Rightarrow> encoder_context option \<Rightarrow> BYTE list option \<Rightarrow> UINT32 \<Rightarrow> DWORD \<Rightarrow>
   sample_calls \<Rightarrow> int \<times> encoder_globals" where
  "encoder_add_mic_audio_frame g context audio_data num_frames elapsed_ms hr =
     (case (context, audio_data, g_sink_writer g) of
        (Some ctx, Some data, Some sw) \<Rightarrow>
          if \<not> is_recording ctx \<or> \<not> g_dual_track_mode g then (-1, g)
          else
            (case stamp_audio sw (g_mic_audio_stream_index g) (g_mic_audio_sample_count g)
                    ctx num_frames hr of
               (r, sw', n') \<Rightarrow>
                 (r, g\<lparr>g_sink_writer := Some sw', g_mic_audio_sample_count := n'\<rparr>))
      | _ \<Rightarrow> (-1, g))"

subsection \<open>Sequences of submissions\<close>

text \<open>
  The orchestrator calls the four submission functions in some interleaving, each call with
  its own arguments and its own outcome of the Media Foundation calls. A run stops at a
  trap.
\<close>

datatype mux_call =
    Add_Video "BYTE list option" nat DWORD sample_calls
  | Add_Audio "BYTE list option" UINT32 DWORD sample_calls
  | Add_System_Audio "BYTE list option" UINT32 DWORD sample_calls
  | Add_Mic_Audio "BYTE list option" UINT32 DWORD sample_calls

fun encoder_submit ::
  "encoder_context option \<Rightarrow> encoder_globals \<Rightarrow> mux_call \<Rightarrow> fault + (int \<times> encoder_globals)" where
  "encoder_submit ctx g (Add_Video d n e hr) = encoder_add_video_frame g ctx d n e hr"
| "encoder_submit ctx g (Add_Audio d n e hr) = Inr (encoder_add_audio_frame g ctx d n e hr)"
| "encoder_submit ctx g (Add_System_Audio d n e hr) =
     Inr (encoder_add_system_audio_frame g ctx d n e hr)"
| "encoder_submit ctx g (Add_Mic_Audio d n e hr) =
     Inr (encoder_add_mic_audio_frame g ctx d n e hr)"

fun encoder_submit_all ::
  "encoder_context option \<Rightarrow> encoder_globals \<Rightarrow> mux_call list \<Rightarrow> fault + encoder_globals" where
  "encoder_submit_all ctx g [] = Inr g"
| "encoder_submit_all ctx g (c # cs) =
     (case encoder_submit ctx g c of
        Inl f \<Rightarrow> Inl f
      | Inr (r, g') \<Rightarrow> encoder_submit_all ctx g' cs)"

text \<open>
  The sample that the last successful \<open>WriteSample\<close> received, and the video buffers of a
  run: for every call of \<open>encoder_add_video_frame\<close> that returns 0, the sample it has
  just written, in the order of the calls.
\<close>

definition last_written :: "encoder_globals \<Rightarrow> mf_sample option" where
  "last_written g =
     (case g_sink_writer g of
        None \<Rightarrow> None
      | Some sw \<Rightarrow> (case rev (written sw) of [] \<Rightarrow> None | p # _ \<Rightarrow> Some (snd p)))"

fun is_video_call :: "mux_call \<Rightarrow> bool" where
  "is_video_call (Add_Video d n e hr) = True"
| "is_video_call _ = False"

fun video_buffers ::
  "encoder_context option \<Rightarrow> encoder_globals \<Rightarrow> mux_call list \<Rightarrow> mf_sample option list" where
  "video_buffers ctx g [] = []"
| "video_buffers ctx g (c # cs) =
     (case encoder_submit ctx g c of
        Inl f \<Rightarrow> []
      | Inr (r, g') \<Rightarrow>
          (if is_video_call c \<and> r = 0 then [last_written g'] else []) @ video_buffers ctx g' cs)"

subsection \<open>Opening the muxer\<close>

text \<open>
  The four initialisation functions call Media Foundation in a fixed order and give up at
  the first failure. The calls are grouped into steps; a step fails when one of its calls
  does. \<open>Video_Out\<close> runs from \<open>MFCreateMediaType\<close> of the video output type to
  \<open>AddStream\<close>, \<open>Video_In\<close> from \<open>MFCreateMediaType\<close> of the input type to
  \<open>SetInputMediaType\<close>, and likewise for the audio streams. The calls that set writer
  attributes only print a warning when they fail and are not steps. Which steps fail is an
  input of the model. A failed \<open>MFCreateSinkWriterFromURL\<close> is taken to leave
  \<open>g_sink_writer\<close> as it was.
\<close>

datatype mf_step =
    Startup | Alloc_Filename | Create_Attributes | Create_Sink_Writer
  | Video_Out | Video_In | Audio_Out | Audio_In
  | System_Out | Mic_Out | System_In | Mic_In | Begin_Writing

definition new_sink_writer :: sink_writer where
  "new_sink_writer =
     \<lparr>streams = [], written = [], ticks = [], began_writing = False, flushed = False,
      finalized = False\<rparr>"

definition add_stream :: "sink_writer \<Rightarrow> media_type \<Rightarrow> sink_writer \<times> DWORD" where
  "add_stream sw t = (sw\<lparr>streams := streams sw @ [(t, None)]\<rparr>, of_nat (length (streams sw)))"

definition set_input_media_type :: "sink_writer \<Rightarrow> DWORD \<Rightarrow> media_type \<Rightarrow> sink_writer" where
  "set_input_media_type sw idx t =
     (if unat idx < length (streams sw)
      then sw\<lparr>streams := (streams sw)[unat idx := (fst (streams sw ! unat idx), Some t)]\<rparr>
      else sw)"

text \<open>C's \<open>int\<close> division, which truncates towards zero, on 32-bit patterns.\<close>

definition int_div :: "INT32 \<Rightarrow> INT32 \<Rightarrow> INT32" where
  "int_div a b = word_of_int (sint a sdiv sint b)"

text \<open>\<open>((UINT64)a << 32) | b\<close> for two \<open>int\<close> values: both are sign-extended.\<close>

definition pack_uint64 :: "INT32 \<Rightarrow> INT32 \<Rightarrow> UINT64" where
  "pack_uint64 a b = or (push_bit 32 (scast a)) (scast b)"

definition optimized_bitrate :: "INT32 \<Rightarrow> UINT32" where
  "optimized_bitrate width =
     (if 1920 \<le> sint width then 1200000 else if 1280 \<le> sint width then 800000 else 500000)"

definition video_type_out :: "INT32 \<Rightarrow> INT32 \<Rightarrow> INT32 \<Rightarrow> media_type" where
  "video_type_out width height fps =
     Video_H264 (optimized_bitrate width) (pack_uint64 width height) (pack_uint64 fps 1)"

definition video_type_in :: "INT32 \<Rightarrow> INT32 \<Rightarrow> INT32 \<Rightarrow> media_type" where
  "video_type_in width height fps = Video_ARGB32 (pack_uint64 width height) (pack_uint64 fps 1)"

text \<open>
  The AAC output type: samples per second, channels, 16 bits, 96000 bits per second. The
  input type: float for 32-bit samples, else PCM, with the source's rate, channels, bits,
  block alignment and byte rate.
\<close>

definition audio_type_out :: "INT32 \<Rightarrow> INT32 \<Rightarrow> media_type" where
  "audio_type_out rate channels = Audio_AAC rate channels 16 96000"

definition audio_type_in :: "INT32 \<Rightarrow> INT32 \<Rightarrow> INT32 \<Rightarrow> media_type" where
  "audio_type_in sample_rate channels bits_per_sample =
     (if bits_per_sample = 32
      then Audio_Float sample_rate channels bits_per_sample
             (int_div (channels * bits_per_sample) 8)
             (int_div (sample_rate * channels * bits_per_sample) 8)
      else Audio_PCM sample_rate channels bits_per_sample
             (int_div (channels * bits_per_sample) 8)
             (int_div (sample_rate * channels * bits_per_sample) 8))"

definition include_audio :: "INT32 \<Rightarrow> INT32 \<Rightarrow> INT32 \<Rightarrow> bool" where
  "include_audio sample_rate channels bits_per_sample \<longleftrightarrow>
     0 < sint sample_rate \<and> 0 < sint channels \<and> 0 < sint bits_per_sample"

text \<open>
  The output type of the stream with a given index, and the rate it declares: what the
  claims call the output sample rate of a track.
\<close>

definition declared_output_rate :: "sink_writer \<Rightarrow> DWORD \<Rightarrow> UINT32 option" where
  "declared_output_rate sw idx =
     (if unat idx < length (streams sw)
      then (case fst (streams sw ! unat idx) of
              Audio_AAC rate channels bits bitrate \<Rightarrow> Some rate
            | _ \<Rightarrow> None)
      else None)"

text \<open>The label \<open>cleanup\<close> of the four functions: release the writer if there is one.\<close>

definition release_sink_writer :: "encoder_globals \<Rightarrow> encoder_globals" where
  "release_sink_writer g = g\<lparr>g_sink_writer := None\<rparr>"

text \<open>
  \<open>encoder_init\<close>: video and at most one combined audio track, whose output type
  declares 44100 samples per second whatever the source rate is.
\<close>

definition encoder_init ::
  "encoder_globals \<Rightarrow> encoder_context option \<Rightarrow> string option \<Rightarrow> INT32 \<Rightarrow> INT32 \<Rightarrow> INT32 \<Rightarrow>
   INT32 \<Rightarrow> INT32 \<Rightarrow> INT32 \<Rightarrow> (mf_step \<Rightarrow> bool) \<Rightarrow>
   int \<times> encoder_globals \<times> encoder_context option" where
  "encoder_init g context filename width height fps sample_rate channels bits_per_sample fails =
     (case (context, filename) of
        (Some old, Some name) \<Rightarrow>
          let ctx = encoder_context_zero
                \<lparr>output_filename := Some name, input_sample_rate := sample_rate,
                 input_channels := channels, input_bits_per_sample := bits_per_sample\<rparr>
          in
          if fails Startup \<or> fails Alloc_Filename \<or> fails Create_Attributes \<or>
             fails Create_Sink_Writer
          then (-1, g, Some ctx)
          else
            let g1 = g\<lparr>g_sink_writer := Some new_sink_writer\<rparr> in
            if fails Video_Out then (-1, release_sink_writer g1, Some ctx)
            else
              let (sw2, vidx) = add_stream new_sink_writer (video_type_out width height fps);
                  g2 = g1\<lparr>g_sink_writer := Some sw2, g_video_stream_index := vidx\<rparr>
              in
              if fails Video_In then (-1, release_sink_writer g2, Some ctx)
              else
                let sw3 = set_input_media_type sw2 vidx (video_type_in width height fps);
                    g3 = g2\<lparr>g_sink_writer := Some sw3\<rparr>
                in
                if include_audio sample_rate channels bits_per_sample then
                  if fails Audio_Out then (-1, release_sink_writer g3, Some ctx)
                  else
                    let (sw4, aidx) = add_stream sw3 (audio_type_out 44100 channels);
                        g4 = g3\<lparr>g_sink_writer := Some sw4, g_audio_stream_index := aidx\<rparr>
                    in
                    if fails Audio_In then (-1, release_sink_writer g4, Some ctx)
                    else
                      let sw5 = set_input_media_type sw4 aidx
                                  (audio_type_in sample_rate channels bits_per_sample)
                      in
                      if fails Begin_Writing then (-1, release_sink_writer g4, Some ctx)
                      else
                        (0, g4\<lparr>g_sink_writer := Some (sw5\<lparr>began_writing := True\<rparr>),
                               g_video_width := width, g_video_height := height,
                               g_video_fps := fps, g_audio_sample_rate := sample_rate,
                               g_video_frame_count := 0, g_audio_sample_count := 0\<rparr>,
                         Some (ctx\<lparr>is_recording := True\<rparr>))
                else
                  let g4 = g3\<lparr>g_audio_stream_index := - 1\<rparr> in
                  if fails Begin_Writing then (-1, release_sink_writer g4, Some ctx)
                  else
                    (0, g4\<lparr>g_sink_writer := Some (sw3\<lparr>began_writing := True\<rparr>),
                           g_video_width := width, g_video_height := height,
                           g_video_fps := fps, g_audio_sample_rate := sample_rate,
                           g_video_frame_count := 0, g_audio_sample_count := 0\<rparr>,
                     Some (ctx\<lparr>is_recording := True\<rparr>))
      | _ \<Rightarrow> (-1, g, context))"

text \<open>
  The two audio tracks of the dual-track variants: system audio first, then the
  microphone, both declared at the source rate; then the two input types. The result is
  \<open>None\<close> when a step fails, after which the caller releases the writer; the stream
  indices assigned before the failure stay.
\<close>

definition add_dual_audio_streams ::
  "encoder_globals \<Rightarrow> sink_writer \<Rightarrow> INT32 \<Rightarrow> INT32 \<Rightarrow> INT32 \<Rightarrow> (mf_step \<Rightarrow> bool) \<Rightarrow>
   bool \<times> encoder_globals" where
  "add_dual_audio_streams g sw sample_rate channels bits_per_sample fails =
     (if fails System_Out then (False, g)
      else
        let (sw1, sidx) = add_stream sw (audio_type_out sample_rate channels);
            g1 = g\<lparr>g_sink_writer := Some sw1, g_system_audio_stream_index := sidx\<rparr>
        in
        if fails Mic_Out then (False, g1)
        else
          let (sw2, midx) = add_stream sw1 (audio_type_out sample_rate channels);
              g2 = g1\<lparr>g_sink_writer := Some sw2, g_mic_audio_stream_index := midx\<rparr>
          in
          if fails System_In then (False, g2)
          else
            let sw3 = set_input_media_type sw2 sidx
                        (audio_type_in sample_rate channels bits_per_sample)
            in
            if fails Mic_In then (False, g2)
            else
              let sw4 = set_input_media_type sw3 midx
                          (audio_type_in sample_rate channels bits_per_sample)
              in (True, g2\<lparr>g_sink_writer := Some sw4\<rparr>))"

text \<open>\<open>BeginWriting\<close> and the assignments that follow it in the dual-track variants.\<close>

definition begin_writing_dual ::
  "encoder_globals \<Rightarrow> encoder_context \<Rightarrow> INT32 \<Rightarrow> (mf_step \<Rightarrow> bool) \<Rightarrow>
   int \<times> encoder_globals \<times> encoder_context option" where
  "begin_writing_dual g ctx sample_rate fails =
     (case g_sink_writer g of
        None \<Rightarrow> (-1, g, Some ctx)
      | Some sw \<Rightarrow>
          if fails Begin_Writing then (-1, release_sink_writer g, Some ctx)
          else
            (0, g\<lparr>g_sink_writer := Some (sw\<lparr>began_writing := True\<rparr>),
                  g_audio_sample_rate := sample_rate\<rparr>,
             Some (ctx\<lparr>is_recording := True\<rparr>)))"

text \<open>\<open>encoder_init_dual_track\<close>: video, system audio and microphone.\<close>

definition encoder_init_dual_track ::
  "encoder_globals \<Rightarrow> encoder_context option \<Rightarrow> string option \<Rightarrow> INT32 \<Rightarrow> INT32 \<Rightarrow> INT32 \<Rightarrow>
   INT32 \<Rightarrow> INT32 \<Rightarrow> INT32 \<Rightarrow> (mf_step \<Rightarrow> bool) \<Rightarrow>
   int \<times> encoder_globals \<times> encoder_context option" where
  "encoder_init_dual_track g context filename width height fps sample_rate channels
       bits_per_sample fails =
     (case (context, filename) of
        (Some old, Some name) \<Rightarrow>
          let ctx = encoder_context_zero
                \<lparr>output_filename := Some name, input_sample_rate := sample_rate,
                 input_channels := channels, input_bits_per_sample := bits_per_sample,
                 dual_track_mode := True\<rparr>;
              g0 = g\<lparr>g_dual_track_mode := True, g_video_frame_count := 0,
                     g_system_audio_sample_count := 0, g_mic_audio_sample_count := 0,
                     g_video_width := width, g_video_height := height, g_video_fps := fps\<rparr>
          in
          if fails Startup \<or> fails Alloc_Filename \<or> fails Create_Attributes \<or>
             fails Create_Sink_Writer
          then (-1, g0, Some ctx)
          else
            let g1 = g0\<lparr>g_sink_writer := Some new_sink_writer\<rparr> in
            if fails Video_Out then (-1, release_sink_writer g1, Some ctx)
            else
              let (sw2, vidx) = add_stream new_sink_writer (video_type_out width height fps);
                  g2 = g1\<lparr>g_sink_writer := Some sw2, g_video_stream_index := vidx\<rparr>
              in
              if fails Video_In then (-1, release_sink_writer g2, Some ctx)
              else
                let sw3 = set_input_media_type sw2 vidx (video_type_in width height fps);
                    g3 = g2\<lparr>g_sink_writer := Some sw3\<rparr>
                in
                if include_audio sample_rate channels bits_per_sample then
                  (case add_dual_audio_streams g3 sw3 sample_rate channels bits_per_sample fails of
                     (False, g4) \<Rightarrow> (-1, release_sink_writer g4, Some ctx)
                   | (True, g4) \<Rightarrow> begin_writing_dual g4 ctx sample_rate fails)
                else begin_writing_dual g3 ctx sample_rate fails
      | _ \<Rightarrow> (-1, g, context))"

text \<open>\<open>encoder_init_audio_only\<close>: one audio track, declared at the source rate.\<close>

definition encoder_init_audio_only ::
  "encoder_globals \<Rightarrow> encoder_context option \<Rightarrow> string option \<Rightarrow> INT32 \<Rightarrow> INT32 \<Rightarrow> INT32 \<Rightarrow>
   (mf_step \<Rightarrow> bool) \<Rightarrow> int \<times> encoder_globals \<times> encoder_context option" where
  "encoder_init_audio_only g context filename sample_rate channels bits_per_sample fails =
     (case (context, filename) of
        (Some old, Some name) \<Rightarrow>
          let ctx = encoder_context_zero
                \<lparr>output_filename := Some name, input_sample_rate := sample_rate,
                 input_channels := channels, input_bits_per_sample := bits_per_sample,
                 dual_track_mode := False\<rparr>;
              g0 = g\<lparr>g_dual_track_mode := False, g_audio_sample_count := 0\<rparr>
          in
          if fails Startup \<or> fails Alloc_Filename \<or> fails Create_Attributes
          then (-1, g0, Some ctx)
          else if fails Create_Sink_Writer then (-1, release_sink_writer g0, Some ctx)
          else
            let g1 = g0\<lparr>g_sink_writer := Some new_sink_writer\<rparr> in
            if fails Audio_Out then (-1, release_sink_writer g1, Some ctx)
            else
              let (sw2, aidx) = add_stream new_sink_writer (audio_type_out sample_rate channels);
                  g2 = g1\<lparr>g_sink_writer := Some sw2, g_audio_stream_index := aidx\<rparr>
              in
              if fails Audio_In then (-1, release_sink_writer g2, Some ctx)
              else
                let sw3 = set_input_media_type sw2 aidx
                            (audio_type_in sample_rate channels bits_per_sample)
                in
                if fails Begin_Writing then (-1, release_sink_writer g2, Some ctx)
                else
                  (0, g2\<lparr>g_sink_writer := Some (sw3\<lparr>began_writing := True\<rparr>),
                         g_audio_sample_rate := sample_rate\<rparr>,
                   Some (ctx\<lparr>is_recording := True\<rparr>))
      | _ \<Rightarrow> (-1, g, context))"

text \<open>\<open>encoder_init_audio_only_dual_track\<close>: system audio and microphone, no video.\<close>

definition encoder_init_audio_only_dual_track ::
  "encoder_globals \<Rightarrow> encoder_context option \<Rightarrow> string option \<Rightarrow> INT32 \<Rightarrow> INT32 \<Rightarrow> INT32 \<Rightarrow>
   (mf_step \<Rightarrow> bool) \<Rightarrow> int \<times> encoder_globals \<times> encoder_context option" where
  "encoder_init_audio_only_dual_track g context filename sample_rate channels bits_per_sample
       fails =
     (case (context, filename) of
        (Some old, Some name) \<Rightarrow>
          let ctx = encoder_context_zero
                \<lparr>output_filename := Some name, input_sample_rate := sample_rate,
                 input_channels := channels, input_bits_per_sample := bits_per_sample,
                 dual_track_mode := True\<rparr>;
              g0 = g\<lparr>g_dual_track_mode := True, g_system_audio_sample_count := 0,
                     g_mic_audio_sample_count := 0\<rparr>
          in
          if fails Startup \<or> fails Alloc_Filename \<or> fails Create_Attributes
          then (-1, g0, Some ctx)
          else if fails Create_Sink_Writer then (-1, release_sink_writer g0, Some ctx)
          else
            let g1 = g0\<lparr>g_sink_writer := Some new_sink_writer\<rparr> in
            (case add_dual_audio_streams g1 new_sink_writer sample_rate channels
                    bits_per_sample fails of
               (False, g2) \<Rightarrow> (-1, release_sink_writer g2, Some ctx)
             | (True, g2) \<Rightarrow> begin_writing_dual g2 ctx sample_rate fails)
      | _ \<Rightarrow> (-1, g, context))"

subsection \<open>Closing the muxer\<close>

text \<open>
  The outcomes of the Media Foundation calls of \<open>encoder_finalize\<close>. \<open>Finalize\<close>
  can succeed, fail with the code \<open>0xC00D4A44\<close> of an empty media file, or fail
  otherwise. A tick whose call fails is taken not to reach the writer.
\<close>

datatype finalize_result = Finalize_Ok | Finalize_Empty_File | Finalize_Failed

record finalize_calls =
  flush_ok :: bool
  video_tick_ok :: bool
  system_tick_ok :: bool
  mic_tick_ok :: bool
  audio_tick_ok :: bool
  finalize_hr :: finalize_result

definition finalize_calls_ok :: finalize_calls where
  "finalize_calls_ok =
     \<lparr>flush_ok = True, video_tick_ok = True, system_tick_ok = True, mic_tick_ok = True,
      audio_tick_ok = True, finalize_hr = Finalize_Ok\<rparr>"

definition tick_if :: "bool \<Rightarrow> sink_writer \<Rightarrow> DWORD \<Rightarrow> LONGLONG \<Rightarrow> sink_writer" where
  "tick_if ok sw idx t = (if ok then send_stream_tick sw idx t else sw)"

text \<open>
  The end-of-stream tick of one audio stream: \<open>(count * 10000000LL) / g_audio_sample_rate\<close>
  in unsigned 64-bit arithmetic, sent when the stream's counter is positive.
\<close>

definition audio_end_of_stream ::
  "encoder_globals \<Rightarrow> sink_writer \<Rightarrow> UINT64 \<Rightarrow> DWORD \<Rightarrow> bool \<Rightarrow> fault + sink_writer" where
  "audio_end_of_stream g sw sample_count stream_index ok =
     (if 0 < sample_count then
        if g_audio_sample_rate g = 0 then Inl DivideByZero
        else Inr (tick_if ok sw stream_index
                    ((sample_count * 10000000) div ucast (g_audio_sample_rate g)))
      else Inr sw)"

text \<open>The ticks of the audio streams, as \<open>encoder_finalize\<close> sends them.\<close>

definition audio_ticks ::
  "encoder_globals \<Rightarrow> sink_writer \<Rightarrow> finalize_calls \<Rightarrow> fault + sink_writer" where
  "audio_ticks g sw hr =
     (let total_audio_samples =
            g_audio_sample_count g + g_system_audio_sample_count g + g_mic_audio_sample_count g
      in
      if 0 < total_audio_samples then
        if g_dual_track_mode g then
          (case audio_end_of_stream g sw (g_system_audio_sample_count g)
                  (g_system_audio_stream_index g) (system_tick_ok hr) of
             Inl f \<Rightarrow> Inl f
           | Inr sw1 \<Rightarrow>
               audio_end_of_stream g sw1 (g_mic_audio_sample_count g)
                 (g_mic_audio_stream_index g) (mic_tick_ok hr))
        else
          audio_end_of_stream g sw (g_audio_sample_count g) (g_audio_stream_index g)
            (audio_tick_ok hr)
      else Inr sw)"

text \<open>
  \<open>encoder_finalize\<close>. The video tick carries \<open>g_last_video_timestamp\<close>. When
  \<open>Finalize\<close> fails the function returns before it clears \<open>is_recording\<close>.
\<close>

definition encoder_finalize ::
  "encoder_globals \<Rightarrow> encoder_context option \<Rightarrow> finalize_calls \<Rightarrow>
   fault + (int \<times> encoder_globals \<times> encoder_context option)" where
  "encoder_finalize g context hr =
     (case context of
        None \<Rightarrow> Inr (-1, g, None)
      | Some ctx \<Rightarrow>
          (case g_sink_writer g of
             None \<Rightarrow> Inr (0, g, Some (ctx\<lparr>is_recording := False\<rparr>))
           | Some sw \<Rightarrow>
               let sw1 = (if flush_ok hr then sw\<lparr>flushed := True\<rparr> else sw);
                   sw2 = (if 0 < g_video_frame_count g
                          then tick_if (video_tick_ok hr) sw1 (g_video_stream_index g)
                                 (g_last_video_timestamp g)
                          else sw1)
               in
               (case audio_ticks g sw2 hr of
                  Inl f \<Rightarrow> Inl f
                | Inr sw3 \<Rightarrow>
                    (case finalize_hr hr of
                       Finalize_Empty_File \<Rightarrow> Inr (0, g\<lparr>g_sink_writer := Some sw3\<rparr>, Some ctx)
                     | Finalize_Failed \<Rightarrow> Inr (-1, g\<lparr>g_sink_writer := Some sw3\<rparr>, Some ctx)
                     | Finalize_Ok \<Rightarrow>
                         Inr (0, g\<lparr>g_sink_writer := Some (sw3\<lparr>finalized := True\<rparr>)\<rparr>,
                              Some (ctx\<lparr>is_recording := False\<rparr>))))))"

text \<open>
  \<open>encoder_cleanup\<close> releases the writer and assigns the statics it lists;
  \<open>g_audio_sample_rate\<close> and \<open>g_container_timescale\<close> are not among them.
\<close>

definition encoder_cleanup ::
  "encoder_globals \<Rightarrow> encoder_context option \<Rightarrow> encoder_globals \<times> encoder_context option" where
  "encoder_cleanup g context =
     (case context of
        None \<Rightarrow> (g, None)
      | Some ctx \<Rightarrow>
          (g\<lparr>g_sink_writer := None,
             g_video_stream_index := 0,
             g_audio_stream_index := 0,
             g_system_audio_stream_index := 0,
             g_mic_audio_stream_index := 0,
             g_dual_track_mode := False,
             g_video_frame_count := 0,
             g_audio_sample_count := 0,
             g_system_audio_sample_count := 0,
             g_mic_audio_sample_count := 0,
             g_video_width := 0,
             g_video_height := 0,
             g_video_fps := 30,
             g_recording_start_time := 0,
             g_last_video_timestamp := 0\<rparr>,
           Some encoder_context_zero))"

definition encoder_set_recording_start_time :: "encoder_globals \<Rightarrow> DWORD \<Rightarrow> encoder_globals" where
  "encoder_set_recording_start_time g start_time = g\<lparr>g_recording_start_time := start_time\<rparr>"

section \<open>The audio sources (system.c and microphone.c)\<close>

text \<open>
  The loopback source and the microphone source are two copies of one text: they differ in
  the endpoint they open, in the stream flags, in their messages, and in two function
  statics that only the loopback source has. Their context structures have the same
  fields. A COM interface pointer is modelled by whether it is non-null; the capture client
  also records the frame counts passed to \<open>ReleaseBuffer\<close>, so that a release that
  reaches the operating system can be told from one that does not.
\<close>

record wave_format =
  nSamplesPerSec :: DWORD
  nChannels :: "16 word"
  wBitsPerSample :: "16 word"
  nBlockAlign :: "16 word"

record audio_context =
  enumerator :: bool
  device :: bool
  audio_client :: bool
  capture_client :: "UINT32 list option"
  wave_format :: "wave_format option"
  buffer_frame_count :: UINT32
  is_capturing :: bool
  using_silent_buffer :: bool

definition audio_context_zero :: audio_context where
  "audio_context_zero =
     \<lparr>enumerator = False, device = False, audio_client = False, capture_client = None,
      wave_format = None, buffer_frame_count = 0, is_capturing = False,
      using_silent_buffer = False\<rparr>"

subsection \<open>Initialisation, start, stop, cleanup\<close>

text \<open>
  The calls of \<open>system_init\<close> and \<open>microphone_init\<close>, in order. The function returns
  \<open>-1\<close> at the first call that fails; the fields assigned by the calls before it keep
  their values (the objects behind them are released). The mix format and the buffer size
  come from the operating system.
\<close>

datatype audio_init_step =
    Com_Initialize | Create_Enumerator | Default_Endpoint | Activate_Client
  | Get_Mix_Format | Initialize_Client | Get_Buffer_Size | Get_Service

record audio_init_calls =
  failing_step :: "audio_init_step option"
  mix_format :: wave_format
  buffer_size :: UINT32

definition audio_source_init ::
  "audio_context option \<Rightarrow> audio_init_calls \<Rightarrow> int \<times> audio_context option" where
  "audio_source_init context os =
     (case context of
        None \<Rightarrow> (-1, None)
      | Some old \<Rightarrow>
          let c0 = audio_context_zero in
          if failing_step os = Some Com_Initialize then (-1, Some c0)
          else if failing_step os = Some Create_Enumerator then (-1, Some c0)
          else
            let c1 = c0\<lparr>enumerator := True\<rparr> in
            if failing_step os = Some Default_Endpoint then (-1, Some c1)
            else
              let c2 = c1\<lparr>device := True\<rparr> in
              if failing_step os = Some Activate_Client then (-1, Some c2)
              else
                let c3 = c2\<lparr>audio_client := True\<rparr> in
                if failing_step os = Some Get_Mix_Format then (-1, Some c3)
                else
                  let c4 = c3\<lparr>wave_format := Some (mix_format os)\<rparr> in
                  if failing_step os = Some Initialize_Client then (-1, Some c4)
                  else if failing_step os = Some Get_Buffer_Size then (-1, Some c4)
                  else
                    let c5 = c4\<lparr>buffer_frame_count := buffer_size os\<rparr> in
                    if failing_step os = Some Get_Service then (-1, Some c5)
                    else (0, Some (c5\<lparr>capture_client := Some []\<rparr>)))"

definition system_init :: "audio_context option \<Rightarrow> audio_init_calls \<Rightarrow> int \<times> audio_context option" where
  "system_init = audio_source_init"

definition microphone_init :: "audio_context option \<Rightarrow> audio_init_calls \<Rightarrow> int \<times> audio_context option" where
  "microphone_init = audio_source_init"

text \<open>\<open>start_capture\<close>; the flag says whether \<open>IAudioClient_Start\<close> succeeds.\<close>

definition audio_source_start_capture ::
  "audio_context option \<Rightarrow> bool \<Rightarrow> int \<times> audio_context option" where
  "audio_source_start_capture context start_ok =
     (case context of
        None \<Rightarrow> (-1, None)
      | Some ctx \<Rightarrow>
          if \<not> audio_client ctx then (-1, Some ctx)
          else if \<not> start_ok then (-1, Some ctx)
          else (0, Some (ctx\<lparr>is_capturing := True\<rparr>)))"

definition system_start_capture :: "audio_context option \<Rightarrow> bool \<Rightarrow> int \<times> audio_context option" where
  "system_start_capture = audio_source_start_capture"

definition microphone_start_capture :: "audio_context option \<Rightarrow> bool \<Rightarrow> int \<times> audio_context option" where
  "microphone_start_capture = audio_source_start_capture"

definition audio_source_stop_capture :: "audio_context option \<Rightarrow> audio_context option" where
  "audio_source_stop_capture context =
     (case context of
        None \<Rightarrow> None
      | Some ctx \<Rightarrow> if \<not> audio_client ctx then Some ctx else Some (ctx\<lparr>is_capturing := False\<rparr>))"

definition system_stop_capture :: "audio_context option \<Rightarrow> audio_context option" where
  "system_stop_capture = audio_source_stop_capture"

definition microphone_stop_capture :: "audio_context option \<Rightarrow> audio_context option" where
  "microphone_stop_capture = audio_source_stop_capture"

definition audio_source_cleanup :: "audio_context option \<Rightarrow> audio_context option" where
  "audio_source_cleanup context =
     (case context of None \<Rightarrow> None | Some ctx \<Rightarrow> Some audio_context_zero)"

definition system_cleanup :: "audio_context option \<Rightarrow> audio_context option" where
  "system_cleanup = audio_source_cleanup"

definition microphone_cleanup :: "audio_context option \<Rightarrow> audio_context option" where
  "microphone_cleanup = audio_source_cleanup"

text \<open>
  \<open>release_buffer\<close>: a buffer of the operating system goes back to the capture client,
  a silent buffer stays where it is.
\<close>

definition audio_source_release_buffer ::
  "audio_context option \<Rightarrow> UINT32 \<Rightarrow> audio_context option" where
  "audio_source_release_buffer context num_frames =
     (case context of
        None \<Rightarrow> None
      | Some ctx \<Rightarrow>
          (case capture_client ctx of
             None \<Rightarrow> Some ctx
           | Some rel \<Rightarrow>
               if \<not> using_silent_buffer ctx
               then Some (ctx\<lparr>capture_client := Some (rel @ [num_frames])\<rparr>)
               else Some ctx))"

definition system_release_buffer :: "audio_context option \<Rightarrow> UINT32 \<Rightarrow> audio_context option" where
  "system_release_buffer = audio_source_release_buffer"

definition microphone_release_buffer :: "audio_context option \<Rightarrow> UINT32 \<Rightarrow> audio_context option" where
  "microphone_release_buffer = audio_source_release_buffer"

subsection \<open>Getting a buffer, and synthesized silence\<close>

text \<open>
  The statics declared inside \<open>microphone_get_buffer\<close>, and the two more that
  \<open>system_get_buffer\<close> declares. No other function can name them. The silent buffer is
  the block it points to, or \<open>None\<close> for a null pointer.
\<close>

record silence_statics =
  silent_buffer :: "BYTE list option"
  silent_buffer_size :: UINT32
  recording_start_time :: DWORD
  total_generated_samples :: UINT64

record system_silence_statics = silence_statics +
  silent_call_count :: UINT32
  last_silent_generation :: DWORD

definition microphone_statics_initial :: silence_statics where
  "microphone_statics_initial =
     \<lparr>silent_buffer = None, silent_buffer_size = 0, recording_start_time = 0,
      total_generated_samples = 0\<rparr>"

definition system_statics_initial :: system_silence_statics where
  "system_statics_initial =
     \<lparr>silent_buffer = None, silent_buffer_size = 0, recording_start_time = 0,
      total_generated_samples = 0, silent_call_count = 0, last_silent_generation = 0\<rparr>"

text \<open>
  What the operating system answers during one call of \<open>get_buffer\<close>: the size of the
  next packet (\<open>None\<close> when \<open>GetNextPacketSize\<close> fails), the tick count, whether
  \<open>malloc\<close> succeeds, and the packet that \<open>GetBuffer\<close> maps, with its frame count
  and its silent flag (\<open>None\<close> when \<open>GetBuffer\<close> fails). A call that fails is taken
  to leave the caller's variables as they were.
\<close>

record capture_calls =
  next_packet_size :: "UINT32 option"
  tick_count :: DWORD
  malloc_ok :: bool
  next_packet :: "(BYTE list \<times> UINT32 \<times> bool) option"

text \<open>
  The value that \<open>*data\<close> holds after the call: null, a packet of the operating
  system's ring with its bytes, or the address of the static silent buffer.
\<close>

datatype audio_ptr = Ring_Packet "BYTE list" | Silent_Buffer

record got_buffer =
  result :: int
  data :: "audio_ptr option"
  num_frames :: UINT32

text \<open>\<open>memset(p, 0, n)\<close> on a block of bytes.\<close>

definition memset_zero :: "nat \<Rightarrow> BYTE list \<Rightarrow> BYTE list" where
  "memset_zero n bytes = replicate (min n (length bytes)) 0 @ drop n bytes"

text \<open>
  The block guarded by \<open>*num_frames == 0\<close>, as far as the two functions share it.
  \<open>expected_total_samples\<close> is a 64-bit product of the sample rate and the elapsed
  milliseconds, which are 32-bit values; \<open>max_chunk_samples\<close> is computed in 32 bits.
  When the buffer has to grow, the old block is freed and \<open>silent_buffer\<close> receives the
  result of \<open>malloc\<close>; \<open>memset\<close> then clears the first \<open>bytes_needed\<close> bytes.
\<close>

definition expected_total_samples :: "wave_format \<Rightarrow> DWORD \<Rightarrow> DWORD \<Rightarrow> UINT64" where
  "expected_total_samples fmt start current_time =
     (ucast (nSamplesPerSec fmt) * ucast (current_time - start)) div 1000"

definition max_chunk_samples :: "wave_format \<Rightarrow> UINT32" where
  "max_chunk_samples fmt = (nSamplesPerSec fmt * 50) div 1000"

definition samples_needed :: "wave_format \<Rightarrow> UINT64 \<Rightarrow> UINT64 \<Rightarrow> UINT64" where
  "samples_needed fmt expected generated =
     (if ucast (max_chunk_samples fmt) < expected - generated
      then ucast (max_chunk_samples fmt)
      else expected - generated)"

definition bytes_needed :: "wave_format \<Rightarrow> UINT32 \<Rightarrow> UINT32" where
  "bytes_needed fmt frames = frames * ucast (nBlockAlign fmt)"

definition synthesize_silence ::
  "audio_context \<Rightarrow> ('a silence_statics_scheme) \<Rightarrow> DWORD \<Rightarrow> bool \<Rightarrow>
   fault + (got_buffer \<times> audio_context \<times> 'a silence_statics_scheme)" where
  "synthesize_silence ctx st current_time alloc_ok =
     (let st1 = (if recording_start_time st = 0
                 then st\<lparr>recording_start_time := current_time, total_generated_samples := 0\<rparr>
                 else st)
      in
      case wave_format ctx of
        None \<Rightarrow> Inl NullPointer
      | Some fmt \<Rightarrow>
          let expected = expected_total_samples fmt (recording_start_time st1) current_time in
          if expected \<le> total_generated_samples st1
          then Inr (\<lparr>result = 0, data = None, num_frames = 0\<rparr>, ctx, st1)
          else
            let frames_to_generate =
                  (ucast (samples_needed fmt expected (total_generated_samples st1)) :: UINT32);
                bytes = bytes_needed fmt frames_to_generate
            in
            if silent_buffer_size st1 < bytes \<and> \<not> alloc_ok
            then Inr (\<lparr>result = -1, data = None, num_frames = 0\<rparr>, ctx,
                      st1\<lparr>silent_buffer := None\<rparr>)
            else
              let st2 = (if silent_buffer_size st1 < bytes
                         then st1\<lparr>silent_buffer := Some (replicate (unat bytes) 0),
                                 silent_buffer_size := bytes\<rparr>
                         else st1)
              in
              (case silent_buffer st2 of
                 None \<Rightarrow>
                   if bytes = 0
                   then Inr (\<lparr>result = 0, data = None, num_frames = frames_to_generate\<rparr>,
                             ctx\<lparr>using_silent_buffer := True\<rparr>,
                             st2\<lparr>total_generated_samples :=
                                   total_generated_samples st2 + ucast frames_to_generate\<rparr>)
                   else Inl NullPointer
               | Some block \<Rightarrow>
                   Inr (\<lparr>result = 0, data = Some Silent_Buffer, num_frames = frames_to_generate\<rparr>,
                        ctx\<lparr>using_silent_buffer := True\<rparr>,
                        st2\<lparr>silent_buffer := Some (memset_zero (unat bytes) block),
                            total_generated_samples :=
                              total_generated_samples st2 + ucast frames_to_generate\<rparr>)))"

text \<open>
  The path of a packet of the operating system, which the two functions also share: the
  flag \<open>using_silent_buffer\<close> is cleared before \<open>GetBuffer\<close> is called.
\<close>

definition map_ring_packet ::
  "audio_context \<Rightarrow> audio_ptr option \<Rightarrow> UINT32 \<Rightarrow> (BYTE list \<times> UINT32 \<times> bool) option \<Rightarrow>
   fault + (got_buffer \<times> audio_context)" where
  "map_ring_packet ctx data0 frames0 packet =
     (let ctx1 = ctx\<lparr>using_silent_buffer := False\<rparr> in
      case packet of
        None \<Rightarrow> Inr (\<lparr>result = -1, data = data0, num_frames = frames0\<rparr>, ctx1)
      | Some (bytes, frames, silent) \<Rightarrow>
          if silent then
            (case wave_format ctx of
               None \<Rightarrow> Inl NullPointer
             | Some fmt \<Rightarrow>
                 Inr (\<lparr>result = 0,
                       data = Some (Ring_Packet
                                (memset_zero (unat (frames * ucast (nBlockAlign fmt))) bytes)),
                       num_frames = frames\<rparr>, ctx1))
          else Inr (\<lparr>result = 0, data = Some (Ring_Packet bytes), num_frames = frames\<rparr>, ctx1))"

text \<open>
  \<open>microphone_get_buffer\<close>. \<open>data0\<close> and \<open>frames0\<close> are the values of the caller's
  variables on entry.
\<close>

definition microphone_get_buffer ::
  "audio_context option \<Rightarrow> silence_statics \<Rightarrow> audio_ptr option \<Rightarrow> UINT32 \<Rightarrow> capture_calls \<Rightarrow>
   fault + (got_buffer \<times> audio_context option \<times> silence_statics)" where
  "microphone_get_buffer context st data0 frames0 os =
     (case context of
        None \<Rightarrow> Inr (\<lparr>result = -1, data = None, num_frames = 0\<rparr>, None, st)
      | Some ctx \<Rightarrow>
          if capture_client ctx = None \<or> \<not> is_capturing ctx
          then Inr (\<lparr>result = -1, data = None, num_frames = 0\<rparr>, Some ctx, st)
          else
            (case next_packet_size os of
               None \<Rightarrow> Inr (\<lparr>result = -1, data = data0, num_frames = frames0\<rparr>, Some ctx, st)
             | Some n \<Rightarrow>
                 if n = 0 then
                   (case synthesize_silence ctx st (tick_count os) (malloc_ok os) of
                      Inl f \<Rightarrow> Inl f
                    | Inr (r, ctx', st') \<Rightarrow> Inr (r, Some ctx', st'))
                 else
                   (case map_ring_packet ctx data0 n (next_packet os) of
                      Inl f \<Rightarrow> Inl f
                    | Inr (r, ctx') \<Rightarrow> Inr (r, Some ctx', st))))"

text \<open>The statics of the loopback source after the statements that only it has.\<close>

definition count_silent_call :: "system_silence_statics \<Rightarrow> DWORD \<Rightarrow> system_silence_statics" where
  "count_silent_call st now =
     st\<lparr>silent_call_count := silent_call_count st + 1,
        last_silent_generation :=
          (if recording_start_time st = 0 then now else last_silent_generation st)\<rparr>"

text \<open>
  \<open>system_get_buffer\<close>: the same, with a call counter and a second time stamp that is
  written when the start time is latched and never read.
\<close>

definition system_get_buffer ::
  "audio_context option \<Rightarrow> system_silence_statics \<Rightarrow> audio_ptr option \<Rightarrow> UINT32 \<Rightarrow>
   capture_calls \<Rightarrow> fault + (got_buffer \<times> audio_context option \<times> system_silence_statics)" where
  "system_get_buffer context st data0 frames0 os =
     (case context of
        None \<Rightarrow> Inr (\<lparr>result = -1, data = None, num_frames = 0\<rparr>, None, st)
      | Some ctx \<Rightarrow>
          if capture_client ctx = None \<or> \<not> is_capturing ctx
          then Inr (\<lparr>result = -1, data = None, num_frames = 0\<rparr>, Some ctx, st)
          else
            (case next_packet_size os of
               None \<Rightarrow> Inr (\<lparr>result = -1, data = data0, num_frames = frames0\<rparr>, Some ctx, st)
             | Some n \<Rightarrow>
                 if n = 0 then
                   (case synthesize_silence ctx (count_silent_call st (tick_count os))
                           (tick_count os) (malloc_ok os) of
                      Inl f \<Rightarrow> Inl f
                    | Inr (r, ctx', st') \<Rightarrow> Inr (r, Some ctx', st'))
                 else
                   (case map_ring_packet ctx data0 n (next_packet os) of
                      Inl f \<Rightarrow> Inl f
                    | Inr (r, ctx') \<Rightarrow> Inr (r, Some ctx', st))))"

subsection \<open>The silence policy in the words of the specification\<close>

text \<open>
  The start time and the counter after the latch: the first idle call (and any idle call
  that finds the start time 0) records the tick count and clears the counter.
\<close>

definition latched_start_time :: "'a silence_statics_scheme \<Rightarrow> DWORD \<Rightarrow> DWORD" where
  "latched_start_time st now = (if recording_start_time st = 0 then now else recording_start_time st)"

definition latched_total :: "'a silence_statics_scheme \<Rightarrow> UINT64" where
  "latched_total st = (if recording_start_time st = 0 then 0 else total_generated_samples st)"

definition latch :: "'a silence_statics_scheme \<Rightarrow> DWORD \<Rightarrow> 'a silence_statics_scheme" where
  "latch st now =
     st\<lparr>recording_start_time := latched_start_time st now,
        total_generated_samples := latched_total st\<rparr>"

text \<open>
  \<open>expected = sample_rate * (now - start_time) / 1000\<close> and the chunk limit
  \<open>sample_rate * 50 / 1000\<close>, over the natural numbers; \<open>now - start_time\<close> is the
  32-bit difference of two tick counts.
\<close>

definition expected_samples :: "wave_format \<Rightarrow> DWORD \<Rightarrow> DWORD \<Rightarrow> nat" where
  "expected_samples fmt start now = unat (nSamplesPerSec fmt) * unat (now - start) div 1000"

definition chunk_limit :: "wave_format \<Rightarrow> nat" where
  "chunk_limit fmt = unat (nSamplesPerSec fmt) * 50 div 1000"

definition frames_due :: "wave_format \<Rightarrow> 'a silence_statics_scheme \<Rightarrow> DWORD \<Rightarrow> nat" where
  "frames_due fmt st now =
     min (expected_samples fmt (latched_start_time st now) now - unat (latched_total st))
         (chunk_limit fmt)"

text \<open>
  A mix format with a positive frame size and a positive chunk, for which the 32-bit
  products of the code do not wrap: the sample rate times 50, and the bytes of a full
  chunk. Every format from 20 Hz to 1.3 MHz qualifies.
\<close>

definition plausible_format :: "wave_format \<Rightarrow> bool" where
  "plausible_format fmt \<longleftrightarrow>
     0 < unat (nBlockAlign fmt) \<and> 0 < chunk_limit fmt \<and>
     unat (nSamplesPerSec fmt) * 50 < 2 ^ 32 \<and>
     chunk_limit fmt * unat (nBlockAlign fmt) < 2 ^ 32"

text \<open>
  The silent buffer and its recorded size agree. This holds at program start and as long
  as no allocation of the buffer has failed.
\<close>

definition silence_buffer_intact :: "'a silence_statics_scheme \<Rightarrow> bool" where
  "silence_buffer_intact st \<longleftrightarrow>
     (case silent_buffer st of
        None \<Rightarrow> silent_buffer_size st = 0
      | Some block \<Rightarrow> length block = unat (silent_buffer_size st))"

text \<open>
  The outcome of an idle call under the policy: nothing when the counter has reached the
  expected count; an error, with nothing advanced, when the buffer must grow and cannot;
  otherwise \<open>frames_due\<close> zero-filled frames in the static buffer, the counter advanced
  by as many, the buffer marked as synthesized, and its release without effect.
\<close>

definition silence_policy ::
  "wave_format \<Rightarrow> audio_context \<Rightarrow> 'a silence_statics_scheme \<Rightarrow> DWORD \<Rightarrow> bool \<Rightarrow>
   fault + (got_buffer \<times> audio_context option \<times> 'a silence_statics_scheme) \<Rightarrow> bool" where
  "silence_policy fmt ctx st now alloc_ok out =
     (let n = frames_due fmt st now;
          bytes = n * unat (nBlockAlign fmt)
      in
      if expected_samples fmt (latched_start_time st now) now \<le> unat (latched_total st)
      then out = Inr (\<lparr>result = 0, data = None, num_frames = 0\<rparr>, Some ctx, latch st now)
      else if unat (silent_buffer_size st) < bytes \<and> \<not> alloc_ok
      then out = Inr (\<lparr>result = -1, data = None, num_frames = 0\<rparr>, Some ctx,
                      (latch st now)\<lparr>silent_buffer := None\<rparr>)
      else
        (case out of
           Inl f \<Rightarrow> False
         | Inr (r, c', st') \<Rightarrow>
             r = \<lparr>result = 0, data = Some Silent_Buffer, num_frames = of_nat n\<rparr> \<and>
             c' = Some (ctx\<lparr>using_silent_buffer := True\<rparr>) \<and>
             audio_source_release_buffer c' (of_nat n) = c' \<and>
             recording_start_time st' = latched_start_time st now \<and>
             total_generated_samples st' = latched_total st + of_nat n \<and>
             (case silent_buffer st' of
                None \<Rightarrow> False
              | Some block \<Rightarrow> bytes \<le> length block \<and> take bytes block = replicate bytes 0) \<and>
             silence_buffer_intact st'))"

text \<open>
  The outcome of an idle call whose expected count is computed from a given start time:
  nothing when the counter has reached it, else an error or the frames that
  \<open>samples_needed\<close> yields.
\<close>

definition idle_outcome_from :: "wave_format \<Rightarrow> DWORD \<Rightarrow> UINT64 \<Rightarrow> DWORD \<Rightarrow> got_buffer \<Rightarrow> bool" where
  "idle_outcome_from fmt start generated now r =
     (if expected_total_samples fmt start now \<le> generated
      then r = \<lparr>result = 0, data = None, num_frames = 0\<rparr>
      else if result r = -1 then data r = None \<and> num_frames r = 0
      else result r = 0 \<and>
           num_frames r = ucast (samples_needed fmt (expected_total_samples fmt start now) generated))"

subsection \<open>The life of a source within one process\<close>

text \<open>
  A process calls the functions of a source in any order and any number of times: a
  recording is an initialisation, a start, calls of \<open>get_buffer\<close> and
  \<open>release_buffer\<close>, a stop and a cleanup, and a later recording repeats them on the
  same context. The function statics of \<open>get_buffer\<close> go through the whole sequence;
  only \<open>get_buffer\<close> sees them.
\<close>

datatype source_call =
    Call_Init audio_init_calls
  | Call_Start_Capture bool
  | Call_Get_Buffer "audio_ptr option" UINT32 capture_calls
  | Call_Release_Buffer UINT32
  | Call_Stop_Capture
  | Call_Cleanup

fun microphone_call ::
  "audio_context option \<times> silence_statics \<Rightarrow> source_call \<Rightarrow>
   fault + (audio_context option \<times> silence_statics)" where
  "microphone_call (c, st) (Call_Init os) = Inr (snd (microphone_init c os), st)"
| "microphone_call (c, st) (Call_Start_Capture ok) = Inr (snd (microphone_start_capture c ok), st)"
| "microphone_call (c, st) (Call_Get_Buffer d n os) =
     (case microphone_get_buffer c st d n os of
        Inl f \<Rightarrow> Inl f
      | Inr (r, c', st') \<Rightarrow> Inr (c', st'))"
| "microphone_call (c, st) (Call_Release_Buffer n) = Inr (microphone_release_buffer c n, st)"
| "microphone_call (c, st) Call_Stop_Capture = Inr (microphone_stop_capture c, st)"
| "microphone_call (c, st) Call_Cleanup = Inr (microphone_cleanup c, st)"

fun microphone_calls ::
  "audio_context option \<times> silence_statics \<Rightarrow> source_call list \<Rightarrow>
   fault + (audio_context option \<times> silence_statics)" where
  "microphone_calls s [] = Inr s"
| "microphone_calls s (x # xs) =
     (case microphone_call s x of Inl f \<Rightarrow> Inl f | Inr s' \<Rightarrow> microphone_calls s' xs)"

fun system_call ::
  "audio_context option \<times> system_silence_statics \<Rightarrow> source_call \<Rightarrow>
   fault + (audio_context option \<times> system_silence_statics)" where
  "system_call (c, st) (Call_Init os) = Inr (snd (system_init c os), st)"
| "system_call (c, st) (Call_Start_Capture ok) = Inr (snd (system_start_capture c ok), st)"
| "system_call (c, st) (Call_Get_Buffer d n os) =
     (case system_get_buffer c st d n os of
        Inl f \<Rightarrow> Inl f
      | Inr (r, c', st') \<Rightarrow> Inr (c', st'))"
| "system_call (c, st) (Call_Release_Buffer n) = Inr (system_release_buffer c n, st)"
| "system_call (c, st) Call_Stop_Capture = Inr (system_stop_capture c, st)"
| "system_call (c, st) Call_Cleanup = Inr (system_cleanup c, st)"

fun system_calls ::
  "audio_context option \<times> system_silence_statics \<Rightarrow> source_call list \<Rightarrow>
   fault + (audio_context option \<times> system_silence_statics)" where
  "system_calls s [] = Inr s"
| "system_calls s (x # xs) =
     (case system_call s x of Inl f \<Rightarrow> Inl f | Inr s' \<Rightarrow> system_calls s' xs)"

subsection \<open>A source used to exercise the theorems\<close>

text \<open>
  A 48 kHz stereo float source that is capturing, the statics of a source whose start
  time was latched at tick 1000, and an idle call at a given tick count.
\<close>

definition stereo_48k :: wave_format where
  "stereo_48k = \<lparr>nSamplesPerSec = 48000, nChannels = 2, wBitsPerSample = 32, nBlockAlign = 8\<rparr>"

definition capturing_context :: audio_context where
  "capturing_context =
     \<lparr>enumerator = True, device = True, audio_client = True, capture_client = Some [],
      wave_format = Some stereo_48k, buffer_frame_count = 2400, is_capturing = True,
      using_silent_buffer = False\<rparr>"

definition latched_at_1000 :: silence_statics where
  "latched_at_1000 =
     \<lparr>silent_buffer = None, silent_buffer_size = 0, recording_start_time = 1000,
      total_generated_samples = 0\<rparr>"

definition system_latched_at_1000 :: system_silence_statics where
  "system_latched_at_1000 =
     \<lparr>silent_buffer = None, silent_buffer_size = 0, recording_start_time = 1000,
      total_generated_samples = 0, silent_call_count = 1, last_silent_generation = 1000\<rparr>"

definition idle_call :: "DWORD \<Rightarrow> bool \<Rightarrow> capture_calls" where
  "idle_call now alloc_ok =
     \<lparr>next_packet_size = Some 0, tick_count = now, malloc_ok = alloc_ok, next_packet = None\<rparr>"

text \<open>A second recording on the same source: stop, cleanup, and a fresh start.\<close>

definition second_recording :: "source_call list" where
  "second_recording =
     [Call_Stop_Capture, Call_Cleanup,
      Call_Init \<lparr>failing_step = None, mix_format = stereo_48k, buffer_size = 2400\<rparr>,
      Call_Start_Capture True]"

section \<open>The screen source (screen.c)\<close>

text \<open>
  \<open>screen_capture_t\<close>. The Direct3D interface pointers are modelled by whether they are
  non-null; the cached frame is the block it points to.
\<close>

record screen_capture =
  d3d_device :: bool
  d3d_context :: bool
  duplication :: bool
  width :: INT32
  height :: INT32
  screen_is_capturing :: bool
  cached_frame :: "BYTE list option"
  cached_frame_size :: nat
  has_cached_frame :: bool

definition screen_capture_zero :: screen_capture where
  "screen_capture_zero =
     \<lparr>d3d_device = False, d3d_context = False, duplication = False, width = 0, height = 0,
      screen_is_capturing = False, cached_frame = None, cached_frame_size = 0,
      has_cached_frame = False\<rparr>"

datatype screen_init_step =
    Create_Factory | Enum_Adapters | Enum_Outputs | Query_Output1 | Create_Device
  | Duplicate_Output

record screen_init_calls =
  screen_failing_step :: "screen_init_step option"
  mode_width :: UINT32
  mode_height :: UINT32

definition screen_init :: "screen_capture option \<Rightarrow> screen_init_calls \<Rightarrow> int \<times> screen_capture option" where
  "screen_init capture os =
     (case capture of
        None \<Rightarrow> (-1, None)
      | Some old \<Rightarrow>
          let c0 = screen_capture_zero in
          if screen_failing_step os = Some Create_Factory \<or>
             screen_failing_step os = Some Enum_Adapters \<or>
             screen_failing_step os = Some Enum_Outputs \<or>
             screen_failing_step os = Some Query_Output1 \<or>
             screen_failing_step os = Some Create_Device
          then (-1, Some c0)
          else
            let c1 = c0\<lparr>d3d_device := True, d3d_context := True\<rparr> in
            if screen_failing_step os = Some Duplicate_Output then (-1, Some c1)
            else (0, Some (c1\<lparr>duplication := True, width := mode_width os,
                              height := mode_height os\<rparr>)))"

definition screen_start_capture :: "screen_capture option \<Rightarrow> int \<times> screen_capture option" where
  "screen_start_capture capture =
     (case capture of
        None \<Rightarrow> (-1, None)
      | Some c \<Rightarrow>
          if \<not> duplication c then (-1, Some c)
          else (0, Some (c\<lparr>screen_is_capturing := True\<rparr>)))"

definition screen_stop_capture :: "screen_capture option \<Rightarrow> screen_capture option" where
  "screen_stop_capture capture =
     (case capture of None \<Rightarrow> None | Some c \<Rightarrow> Some (c\<lparr>screen_is_capturing := False\<rparr>))"

definition screen_cleanup :: "screen_capture option \<Rightarrow> screen_capture option" where
  "screen_cleanup capture =
     (case capture of None \<Rightarrow> None | Some c \<Rightarrow> Some screen_capture_zero)"

subsection \<open>Acquiring a frame\<close>

text \<open>
  What the operating system answers during one call of \<open>screen_get_frame_dual_track\<close>:
  the outcome of \<open>AcquireNextFrame\<close>, whether the texture interface, the staging
  texture and the mapping are obtained, the width and height in the texture description,
  the row pitch and the bytes of the mapped staging surface, whether the two calls of
  \<open>malloc\<close> succeed, and the bytes that a fresh block happens to hold.
\<close>

datatype acquire_result = Acquired | Wait_Timeout | Acquire_Failed

record frame_calls =
  acquire :: acquire_result
  query_texture_ok :: bool
  create_staging_ok :: bool
  map_ok :: bool
  texture_width :: UINT32
  texture_height :: UINT32
  row_pitch :: UINT32
  mapped_data :: "BYTE list"
  frame_malloc_ok :: bool
  cache_malloc_ok :: bool
  uninitialised :: "nat \<Rightarrow> BYTE"

definition malloc_block :: "nat \<Rightarrow> (nat \<Rightarrow> BYTE) \<Rightarrow> BYTE list" where
  "malloc_block n garbage = map garbage [0..<n]"

text \<open>
  \<open>memcpy(dst + doff, src + soff, n)\<close> on two blocks. A copy that reads or writes
  outside its block is a trap.
\<close>

definition memcpy_bytes ::
  "BYTE list \<Rightarrow> nat \<Rightarrow> BYTE list \<Rightarrow> nat \<Rightarrow> nat \<Rightarrow> fault + BYTE list" where
  "memcpy_bytes dst doff src soff n =
     (if doff + n \<le> length dst \<and> soff + n \<le> length src
      then Inr (take doff dst @ take n (drop soff src) @ drop (doff + n) dst)
      else Inl OutOfBounds)"

text \<open>
  The two row loops, which differ in the source row only: row \<open>y\<close> in dual-track mode,
  row \<open>Height - 1 - y\<close> otherwise. The offsets \<open>y * Width * 4\<close> and
  \<open>src_row * RowPitch\<close> and the length \<open>Width * 4\<close> are products of \<open>UINT\<close>
  values, computed in 32 bits. The counter \<open>y\<close> stays below \<open>Height\<close>.
\<close>

definition source_row :: "bool \<Rightarrow> UINT32 \<Rightarrow> nat \<Rightarrow> UINT32" where
  "source_row dual_track h y = (if dual_track then of_nat y else h - 1 - of_nat y)"

function copy_rows ::
  "bool \<Rightarrow> UINT32 \<Rightarrow> UINT32 \<Rightarrow> UINT32 \<Rightarrow> BYTE list \<Rightarrow> BYTE list \<Rightarrow> nat \<Rightarrow>
   fault + BYTE list" where
  "copy_rows dual_track w h pitch src dst y =
     (if y < unat h then
        (case memcpy_bytes dst (unat (of_nat y * w * 4)) src
                (unat (source_row dual_track h y * pitch)) (unat (w * 4)) of
           Inl f \<Rightarrow> Inl f
         | Inr dst' \<Rightarrow> copy_rows dual_track w h pitch src dst' (Suc y))
      else Inr dst)"
  by pat_completeness auto
termination
  by (relation "measure (\<lambda>(dual_track, w, h, pitch, src, dst, y). unat h - y)") auto

text \<open>The cache update after a frame was produced; the ceiling is 32 MiB.\<close>

definition MAX_CACHE_SIZE :: nat where
  "MAX_CACHE_SIZE = 32 * 1024 * 1024"

definition update_frame_cache :: "screen_capture \<Rightarrow> BYTE list \<Rightarrow> nat \<Rightarrow> bool \<Rightarrow> screen_capture" where
  "update_frame_cache c frame frame_size alloc_ok =
     (let c1 = c\<lparr>cached_frame := None\<rparr> in
      if frame_size \<le> MAX_CACHE_SIZE then
        if alloc_ok
        then c1\<lparr>cached_frame := Some (take frame_size frame), cached_frame_size := frame_size,
                has_cached_frame := True\<rparr>
        else c1
      else c1\<lparr>has_cached_frame := False\<rparr>)"

text \<open>
  \<open>screen_get_frame_dual_track\<close>. \<open>data0\<close> and \<open>size0\<close> are the values of the
  caller's \<open>frame_data\<close> and \<open>frame_size\<close> on entry; the result carries their values on
  return. It returns 1 when the compositor has no new frame and no copy of a cached frame
  can be made.
\<close>

definition screen_get_frame_dual_track ::
  "screen_capture option \<Rightarrow> BYTE list option \<Rightarrow> nat \<Rightarrow> bool \<Rightarrow> frame_calls \<Rightarrow>
   fault + (int \<times> BYTE list option \<times> nat \<times> screen_capture option)" where
  "screen_get_frame_dual_track capture data0 size0 dual_track os =
     (case capture of
        None \<Rightarrow> Inr (-1, data0, size0, None)
      | Some c \<Rightarrow>
          if \<not> duplication c then Inr (-1, data0, size0, Some c)
          else if \<not> screen_is_capturing c then Inr (-1, data0, size0, Some c)
          else
            (case acquire os of
               Acquire_Failed \<Rightarrow> Inr (-1, data0, size0, Some c)
             | Wait_Timeout \<Rightarrow>
                 (case (has_cached_frame c, cached_frame c) of
                    (True, Some cached) \<Rightarrow>
                      if frame_malloc_ok os
                      then Inr (0, Some (take (cached_frame_size c) cached),
                                cached_frame_size c, Some c)
                      else Inr (1, None, cached_frame_size c, Some c)
                  | _ \<Rightarrow> Inr (1, data0, size0, Some c))
             | Acquired \<Rightarrow>
                 if \<not> query_texture_ok os then Inr (-1, data0, size0, Some c)
                 else if \<not> create_staging_ok os then Inr (-1, data0, size0, Some c)
                 else if \<not> map_ok os then Inr (-1, data0, size0, Some c)
                 else
                   let frame_size = unat (texture_width os * texture_height os * 4) in
                   if \<not> frame_malloc_ok os then Inr (-1, None, frame_size, Some c)
                   else
                     (case copy_rows dual_track (texture_width os) (texture_height os)
                             (row_pitch os) (mapped_data os)
                             (malloc_block frame_size (uninitialised os)) 0 of
                        Inl f \<Rightarrow> Inl f
                      | Inr frame \<Rightarrow>
                          Inr (0, Some frame, frame_size,
                               Some (update_frame_cache c frame frame_size
                                       (cache_malloc_ok os))))))"

definition screen_get_frame ::
  "screen_capture option \<Rightarrow> BYTE list option \<Rightarrow> nat \<Rightarrow> frame_calls \<Rightarrow>
   fault + (int \<times> BYTE list option \<times> nat \<times> screen_capture option)" where
  "screen_get_frame capture data0 size0 os =
     screen_get_frame_dual_track capture data0 size0 False os"

text \<open>
  The sample that a video submission builds from the module state when the frame counter
  is \<open>k\<close> frames further on.
\<close>

definition video_stamp :: "encoder_globals \<Rightarrow> nat \<Rightarrow> mf_sample" where
  "video_stamp g k =
     \<lparr>sample_time = ((g_video_frame_count g + of_nat k) * 10000000) div ucast (g_video_fps g),
      sample_duration = 10000000 div ucast (g_video_fps g),
      buffer_length = g_video_width g * g_video_height g * 4\<rparr>"

text \<open>
  A small recording used to exercise the theorems: a dual-track muxer just opened at
  30 frames per second on a 4 by 2 screen with 48 kHz audio, and three submissions.
\<close>

definition empty_sink_writer :: sink_writer where
  "empty_sink_writer =
     \<lparr>streams = [], written = [], ticks = [], began_writing = True, flushed = False,
      finalized = False\<rparr>"

definition recording_g0 :: encoder_globals where
  "recording_g0 =
     encoder_globals_initial
       \<lparr>g_sink_writer := Some empty_sink_writer, g_system_audio_stream_index := 1,
        g_mic_audio_stream_index := 2, g_dual_track_mode := True, g_video_width := 4,
        g_video_height := 2, g_video_fps := 30, g_audio_sample_rate := 48000\<rparr>"

definition recording_ctx :: "encoder_context option" where
  "recording_ctx =
     Some (encoder_context_zero
       \<lparr>dual_track_mode := True, is_recording := True, input_sample_rate := 48000,
        input_channels := 2, input_bits_per_sample := 32\<rparr>)"

definition recording_calls :: "mux_call list" where
  "recording_calls =
     [Add_Video (Some []) 32 0 all_calls_ok,
      Add_System_Audio (Some []) 480 5 all_calls_ok,
      Add_Video (Some []) 32 40 all_calls_ok]"

text \<open>
  Two video submissions into the same recording: \<open>WriteSample\<close> fails for the first
  and succeeds for the second.
\<close>

definition rejected_then_accepted :: "mux_call list" where
  "rejected_then_accepted =
     [Add_Video (Some []) 32 0 (all_calls_ok\<lparr>write_ok := False\<rparr>),
      Add_Video (Some []) 32 33 all_calls_ok]"

text \<open>
  The dual-track muxers as the orchestrator opens them for a 4 by 2 screen at 30 frames
  per second and a 48 kHz stereo float source, with every Media Foundation call
  succeeding.
\<close>

definition dual_track_opened :: "int \<times> encoder_globals \<times> encoder_context option" where
  "dual_track_opened =
     encoder_init_dual_track encoder_globals_initial (Some encoder_context_zero)
       (Some ''capture.mp4'') 4 2 30 48000 2 32 (\<lambda>s. False)"

definition audio_only_dual_track_opened :: "int \<times> encoder_globals \<times> encoder_context option" where
  "audio_only_dual_track_opened =
     encoder_init_audio_only_dual_track encoder_globals_initial (Some encoder_context_zero)
       (Some ''capture.mp4'') 48000 2 32 (\<lambda>s. False)"

definition two_buffers_per_track :: "mux_call list" where
  "two_buffers_per_track =
     [Add_System_Audio (Some []) 480 0 all_calls_ok,
      Add_Mic_Audio (Some []) 480 0 all_calls_ok,
      Add_System_Audio (Some []) 480 10 all_calls_ok,
      Add_Mic_Audio (Some []) 480 10 all_calls_ok]"

definition one_frame_one_buffer :: "mux_call list" where
  "one_frame_one_buffer =
     [Add_Video (Some []) 32 0 all_calls_ok,
      Add_System_Audio (Some []) 480 0 all_calls_ok]"

text \<open>
  A screen source that is capturing, and a mapped surface of one pixel by two rows with a
  row pitch of 8 bytes: each row has four bytes of padding.
\<close>

definition live_capture :: screen_capture where
  "live_capture =
     screen_capture_zero\<lparr>d3d_device := True, d3d_context := True, duplication := True,
                          width := 1, height := 2, screen_is_capturing := True\<rparr>"

definition two_row_surface :: frame_calls where
  "two_row_surface =
     \<lparr>acquire = Acquired, query_texture_ok = True, create_staging_ok = True, map_ok = True,
      texture_width = 1, texture_height = 2, row_pitch = 8,
      mapped_data = [10, 11, 12, 13, 0, 0, 0, 0, 20, 21, 22, 23, 0, 0, 0, 0],
      frame_malloc_ok = True, cache_malloc_ok = True, uninitialised = (\<lambda>i. 255)\<rparr>"

section \<open>Parameters (params.c)\<close>

datatype audio_source_type =
    AUDIO_SOURCE_NONE | AUDIO_SOURCE_SYSTEM | AUDIO_SOURCE_MICROPHONE | AUDIO_SOURCE_BOTH

text \<open>
  \<open>capture_params_t\<close>. The fields carry the prefix \<open>p_\<close> because several of their
  names are fields of other structures as well.
\<close>

record capture_params =
  p_output_filename :: string
  p_fps :: INT32
  p_duration :: INT32
  p_audio_sources :: audio_source_type
  p_force_stop :: bool
  p_enable_video :: bool
  p_enable_system_audio :: bool
  p_enable_microphone :: bool
  p_audio_only_mode :: bool
  p_monitor_index :: INT32
  p_cursor_enabled :: bool
  p_region_enabled :: bool
  p_region_x :: INT32
  p_region_y :: INT32
  p_region_w :: INT32
  p_region_h :: INT32

definition capture_params_zero :: capture_params where
  "capture_params_zero =
     \<lparr>p_output_filename = [], p_fps = 0, p_duration = 0, p_audio_sources = AUDIO_SOURCE_NONE,
      p_force_stop = False, p_enable_video = False, p_enable_system_audio = False,
      p_enable_microphone = False, p_audio_only_mode = False, p_monitor_index = 0,
      p_cursor_enabled = False, p_region_enabled = False, p_region_x = 0, p_region_y = 0,
      p_region_w = 0, p_region_h = 0\<rparr>"

text \<open>
  \<open>params_adjust_filename_extension\<close>: the part from the last dot on is compared with
  \<open>.mp4\<close> without regard to case; any other extension is cut off and \<open>.mp4\<close> is
  appended with \<open>strcat\<close>. The name lives in an array of \<open>MAX_PATH\<close> characters and
  \<open>strcat\<close> does not look at the bound: when the new name and its terminator do not fit,
  the write leaves the array, which is a trap in the model. A \<open>string\<close> holds the
  characters before the terminator.
\<close>

definition MAX_PATH :: nat where
  "MAX_PATH = 260"

definition ascii_lower :: "char \<Rightarrow> char" where
  "ascii_lower c =
     (if 65 \<le> (of_char c :: nat) \<and> (of_char c :: nat) \<le> 90
      then char_of ((of_char c :: nat) + 32) else c)"

fun last_dot :: "string \<Rightarrow> nat option" where
  "last_dot [] = None"
| "last_dot (c # cs) =
     (case last_dot cs of
        Some k \<Rightarrow> Some (Suc k)
      | None \<Rightarrow> if c = CHR ''.'' then Some 0 else None)"

definition strcat_mp4 :: "string \<Rightarrow> fault + string" where
  "strcat_mp4 name =
     (if length name + 4 < MAX_PATH then Inr (name @ ''.mp4'') else Inl OutOfBounds)"

definition params_adjust_filename_extension ::
  "capture_params option \<Rightarrow> fault + capture_params option" where
  "params_adjust_filename_extension params =
     (case params of
        None \<Rightarrow> Inr None
      | Some p \<Rightarrow>
          (case last_dot (p_output_filename p) of
             None \<Rightarrow>
               (case strcat_mp4 (p_output_filename p) of
                  Inl f \<Rightarrow> Inl f
                | Inr name \<Rightarrow> Inr (Some (p\<lparr>p_output_filename := name\<rparr>)))
           | Some k \<Rightarrow>
               if map ascii_lower (drop k (p_output_filename p)) = ''.mp4'' then Inr (Some p)
               else
                 (case strcat_mp4 (take k (p_output_filename p)) of
                    Inl f \<Rightarrow> Inl f
                  | Inr name \<Rightarrow> Inr (Some (p\<lparr>p_output_filename := name\<rparr>)))))"

text \<open>
  \<open>params_validate_and_finalize\<close>. The flag \<open>audio_build\<close> says whether the program
  was compiled with \<open>MUXSW_ENABLE_AUDIO\<close>; every function that has conditional code
  takes it.
\<close>

definition params_validate_and_finalize ::
  "bool \<Rightarrow> capture_params option \<Rightarrow> fault + (int \<times> capture_params option)" where
  "params_validate_and_finalize audio_build params =
     (case params of
        None \<Rightarrow> Inr (-1, None)
      | Some p \<Rightarrow>
          let p1 = (if sint (p_fps p) \<le> 0 \<or> 120 < sint (p_fps p) then p\<lparr>p_fps := 30\<rparr> else p);
              p2 = (if \<not> p_enable_video p1 \<and> \<not> p_enable_system_audio p1 \<and>
                       \<not> p_enable_microphone p1
                    then p1\<lparr>p_enable_video := True, p_enable_system_audio := audio_build,
                            p_enable_microphone := audio_build\<rparr>
                    else p1);
              p3 = (if audio_build then p2
                    else p2\<lparr>p_enable_system_audio := False, p_enable_microphone := False\<rparr>);
              p4 = p3\<lparr>p_audio_sources :=
                         (if p_enable_system_audio p3 \<and> p_enable_microphone p3
                          then AUDIO_SOURCE_BOTH
                          else if p_enable_system_audio p3 then AUDIO_SOURCE_SYSTEM
                          else if p_enable_microphone p3 then AUDIO_SOURCE_MICROPHONE
                          else AUDIO_SOURCE_NONE)\<rparr>;
              p5 = p4\<lparr>p_audio_only_mode :=
                         (\<not> p_enable_video p4 \<and>
                          (p_enable_system_audio p4 \<or> p_enable_microphone p4))\<rparr>
          in
          (case params_adjust_filename_extension (Some p5) of
             Inl f \<Rightarrow> Inl f
           | Inr p6 \<Rightarrow> Inr (0, p6)))"

definition params_set_recording_mode ::
  "bool \<Rightarrow> capture_params option \<Rightarrow> bool \<Rightarrow> bool \<Rightarrow> bool \<Rightarrow>
   fault + (int \<times> capture_params option)" where
  "params_set_recording_mode audio_build params enable_video enable_system enable_mic =
     (case params of
        None \<Rightarrow> Inr (-1, None)
      | Some p \<Rightarrow>
          if \<not> enable_video \<and> \<not> enable_system \<and> \<not> enable_mic then Inr (-1, params)
          else params_validate_and_finalize audio_build
                 (Some (p\<lparr>p_enable_video := enable_video, p_enable_system_audio := enable_system,
                          p_enable_microphone := enable_mic\<rparr>)))"

section \<open>The capture orchestrator (engine.c)\<close>

subsection \<open>The engine and the module state\<close>

text \<open>
  The status callback receives constant texts and three formatted ones; the formatted
  ones are kept with their arguments instead of their digits.
\<close>

datatype status_message =
    Status string
  | Recording_Started string bool
  | Audio_Recording_Completed DWORD
  | Recording_Completed int DWORD

record capture_stats =
  total_frames :: int
  failed_frames :: int
  recording_duration_ms :: DWORD
  audio_enabled :: bool
  audio_sample_rate :: INT32
  audio_channels :: INT32
  audio_bits_per_sample :: INT32

definition capture_stats_zero :: capture_stats where
  "capture_stats_zero =
     \<lparr>total_frames = 0, failed_frames = 0, recording_duration_ms = 0, audio_enabled = False,
      audio_sample_rate = 0, audio_channels = 0, audio_bits_per_sample = 0\<rparr>"

text \<open>
  \<open>capture_engine_t\<close>. The two callbacks are modelled by whether the pointers are set
  (\<open>engine_init\<close> and the two setters set them, never to null; clearing the structure
  clears both) and by what they receive: the messages given to the status callback and the
  pairs given to the progress callback.
\<close>

record capture_engine =
  params :: capture_params
  stats :: capture_stats
  callbacks_set :: bool
  status_messages :: "status_message list"
  progress_reports :: "(int \<times> DWORD) list"
  is_running :: bool
  force_stop :: bool

definition capture_engine_zero :: capture_engine where
  "capture_engine_zero =
     \<lparr>params = capture_params_zero, stats = capture_stats_zero, callbacks_set = False,
      status_messages = [], progress_reports = [], is_running = False, force_stop = False\<rparr>"

definition status :: "capture_engine \<Rightarrow> string \<Rightarrow> capture_engine" where
  "status e m = e\<lparr>status_messages := status_messages e @ [Status m]\<rparr>"

text \<open>
  Everything at module level that \<open>engine_start\<close> can reach: the four static contexts
  of engine.c, the statics of encoder.c, and the function statics of the two
  \<open>get_buffer\<close> functions.
\<close>

record module_state =
  screen_ctx :: screen_capture
  microphone_ctx :: audio_context
  system_ctx :: audio_context
  encoder_ctx :: encoder_context
  muxer :: encoder_globals
  microphone_statics :: silence_statics
  system_statics :: system_silence_statics

definition module_state_initial :: module_state where
  "module_state_initial =
     \<lparr>screen_ctx = screen_capture_zero, microphone_ctx = audio_context_zero,
      system_ctx = audio_context_zero, encoder_ctx = encoder_context_zero,
      muxer = encoder_globals_initial, microphone_statics = microphone_statics_initial,
      system_statics = system_statics_initial\<rparr>"

text \<open>The locals of \<open>engine_start\<close> that outlive the initialisation phase.\<close>

record engine_locals =
  use_microphone :: bool
  use_system :: bool
  use_dual_track :: bool
  microphone_result :: int
  system_result :: int
  audio_available :: bool

subsection \<open>What the environment does during a run\<close>

text \<open>
  One iteration of the capture loop: whether another thread has set
  \<open>engine->force_stop\<close>, cleared \<open>engine->is_running\<close> or set
  \<open>params->force_stop\<close> before the loop condition is read, the tick count, and the
  answers of the operating system to the calls of the screen source, the audio sources and
  the muxer.
\<close>

record iteration_env =
  stop_requested :: bool
  running_cleared :: bool
  params_stop :: bool
  current_time :: DWORD
  frame_os :: frame_calls
  video_hr :: sample_calls
  system_os :: capture_calls
  system_hr :: sample_calls
  mic_os :: capture_calls
  mic_hr :: sample_calls

text \<open>
  A whole run: the answers to the initialisation calls, to the probe of the audio
  sources (one answer per attempt), to the starts of the sources, and to the muxer
  initialisation; the tick count at the start; the iterations of the loop; the tick count
  when the statistics are written and when the last message is formatted; and the answers
  to the calls of \<open>encoder_finalize\<close>.
\<close>

record engine_env =
  screen_init_os :: screen_init_calls
  microphone_init_os :: audio_init_calls
  system_init_os :: audio_init_calls
  mic_probe_start_ok :: bool
  mic_probe_os :: "nat \<Rightarrow> capture_calls"
  sys_probe_start_ok :: bool
  sys_probe_os :: "nat \<Rightarrow> capture_calls"
  mic_start_ok :: bool
  sys_start_ok :: bool
  encoder_fails :: "mf_step \<Rightarrow> bool"
  start_tick :: DWORD
  iterations :: "iteration_env list"
  stats_tick :: DWORD
  message_tick :: DWORD
  finalize_os :: finalize_calls

text \<open>
  A run of a function with a loop that the environment feeds: a trap, a loop that has
  used up the iterations it was given and would go on, or a return.
\<close>

datatype 'a outcome = Trapped fault | Unfinished | Returned 'a

subsection \<open>Initialisation of the audio sources\<close>

definition adopt_format :: "capture_engine \<Rightarrow> wave_format \<Rightarrow> capture_engine" where
  "adopt_format e fmt =
     e\<lparr>stats := (stats e)\<lparr>audio_sample_rate := nSamplesPerSec fmt,
                             audio_channels := ucast (nChannels fmt),
                             audio_bits_per_sample := ucast (wBitsPerSample fmt)\<rparr>\<rparr>"

text \<open>Lines 92 to 146: the two \<open>init\<close> calls, the format, and \<open>audio_available\<close>.\<close>

definition init_microphone ::
  "capture_engine \<Rightarrow> module_state \<Rightarrow> engine_locals \<Rightarrow> engine_env \<Rightarrow>
   fault + (capture_engine \<times> module_state \<times> engine_locals)" where
  "init_microphone e w l env =
     (if use_microphone l then
        (case microphone_init (Some (microphone_ctx w)) (microphone_init_os env) of
           (r, Some c) \<Rightarrow>
             if r = 0 then
               (case wave_format c of
                  None \<Rightarrow> Inl NullPointer
                | Some fmt \<Rightarrow>
                    Inr (status (adopt_format e fmt) ''Microphone initialized successfully'',
                         w\<lparr>microphone_ctx := c\<rparr>, l\<lparr>microphone_result := r\<rparr>))
             else Inr (status e ''Warning: Failed to initialize microphone'',
                       w\<lparr>microphone_ctx := c\<rparr>, l\<lparr>microphone_result := r\<rparr>)
         | (r, None) \<Rightarrow> Inr (e, w, l\<lparr>microphone_result := r\<rparr>))
      else Inr (e, w, l))"

definition init_system ::
  "capture_engine \<Rightarrow> module_state \<Rightarrow> engine_locals \<Rightarrow> engine_env \<Rightarrow>
   fault + (capture_engine \<times> module_state \<times> engine_locals)" where
  "init_system e w l env =
     (if use_system l then
        (case system_init (Some (system_ctx w)) (system_init_os env) of
           (r, Some c) \<Rightarrow>
             if r = 0 then
               (case wave_format c of
                  None \<Rightarrow> Inl NullPointer
                | Some fmt \<Rightarrow>
                    Inr (status
                           (if \<not> use_microphone l \<or> microphone_result l \<noteq> 0
                            then adopt_format e fmt else e)
                           ''System audio initialized successfully'',
                         w\<lparr>system_ctx := c\<rparr>, l\<lparr>system_result := r\<rparr>))
             else Inr (status e ''Warning: Failed to initialize system audio'',
                       w\<lparr>system_ctx := c\<rparr>, l\<lparr>system_result := r\<rparr>)
         | (r, None) \<Rightarrow> Inr (e, w, l\<lparr>system_result := r\<rparr>))
      else Inr (e, w, l))"

definition sources_available :: "engine_locals \<Rightarrow> bool" where
  "sources_available l \<longleftrightarrow>
     use_microphone l \<and> microphone_result l = 0 \<or> use_system l \<and> system_result l = 0"

subsection \<open>The probe of the audio sources\<close>

text \<open>
  The two \<open>for\<close> loops of the probe: at most \<open>n\<close> more attempts, each with the answers
  of the operating system for its index; the caller's \<open>test_data\<close> and \<open>test_frames\<close>
  keep their values from one attempt to the next. The loop ends at the first attempt that
  returns 0 with a positive frame count.
\<close>

fun microphone_probe ::
  "nat \<Rightarrow> nat \<Rightarrow> (nat \<Rightarrow> capture_calls) \<Rightarrow> audio_context option \<Rightarrow> silence_statics \<Rightarrow>
   audio_ptr option \<Rightarrow> UINT32 \<Rightarrow>
   fault + (bool \<times> audio_context option \<times> silence_statics)" where
  "microphone_probe 0 attempt os c st d n = Inr (False, c, st)"
| "microphone_probe (Suc k) attempt os c st d n =
     (case microphone_get_buffer c st d n (os attempt) of
        Inl f \<Rightarrow> Inl f
      | Inr (r, c', st') \<Rightarrow>
          if result r = 0 \<and> 0 < num_frames r
          then Inr (True, microphone_release_buffer c' (num_frames r), st')
          else microphone_probe k (Suc attempt) os c' st' (data r) (num_frames r))"

fun system_probe ::
  "nat \<Rightarrow> nat \<Rightarrow> (nat \<Rightarrow> capture_calls) \<Rightarrow> audio_context option \<Rightarrow> system_silence_statics \<Rightarrow>
   audio_ptr option \<Rightarrow> UINT32 \<Rightarrow>
   fault + (bool \<times> audio_context option \<times> system_silence_statics)" where
  "system_probe 0 attempt os c st d n = Inr (False, c, st)"
| "system_probe (Suc k) attempt os c st d n =
     (case system_get_buffer c st d n (os attempt) of
        Inl f \<Rightarrow> Inl f
      | Inr (r, c', st') \<Rightarrow>
          if result r = 0 \<and> 0 < num_frames r
          then Inr (True, system_release_buffer c' (num_frames r), st')
          else system_probe k (Suc attempt) os c' st' (data r) (num_frames r))"

definition context_or :: "'a \<Rightarrow> 'a option \<Rightarrow> 'a" where
  "context_or old new = (case new of None \<Rightarrow> old | Some c \<Rightarrow> c)"

text \<open>Lines 155 to 170: the microphone is started, probed and stopped.\<close>

definition probe_microphone ::
  "capture_engine \<Rightarrow> module_state \<Rightarrow> engine_locals \<Rightarrow> engine_env \<Rightarrow>
   fault + (bool \<times> capture_engine \<times> module_state)" where
  "probe_microphone e w l env =
     (if use_microphone l \<and> microphone_result l = 0 then
        (case microphone_start_capture (Some (microphone_ctx w)) (mic_probe_start_ok env) of
           (r, c) \<Rightarrow>
             if r = 0 then
               (case microphone_probe 5 0 (mic_probe_os env) c (microphone_statics w) None 0 of
                  Inl f \<Rightarrow> Inl f
                | Inr (ok, c', st') \<Rightarrow>
                    Inr (ok,
                         (if ok then status e ''Microphone test successful'' else e),
                         w\<lparr>microphone_ctx :=
                              context_or (microphone_ctx w) (microphone_stop_capture c'),
                            microphone_statics := st'\<rparr>))
             else Inr (False, e, w\<lparr>microphone_ctx := context_or (microphone_ctx w) c\<rparr>))
      else Inr (False, e, w))"

text \<open>
  Lines 172 to 192: the loopback source is probed only while the microphone probe has
  not succeeded, and counts as usable when it starts, even if it stays silent.
\<close>

definition probe_system ::
  "bool \<Rightarrow> capture_engine \<Rightarrow> module_state \<Rightarrow> engine_locals \<Rightarrow> engine_env \<Rightarrow>
   fault + (bool \<times> capture_engine \<times> module_state)" where
  "probe_system test_success e w l env =
     (if use_system l \<and> system_result l = 0 then
        (case system_start_capture (Some (system_ctx w)) (sys_probe_start_ok env) of
           (r, c) \<Rightarrow>
             if r = 0 then
               (case system_probe (if test_success then 0 else 3) 0 (sys_probe_os env) c
                       (system_statics w) None 0 of
                  Inl f \<Rightarrow> Inl f
                | Inr (ok, c', st') \<Rightarrow>
                    Inr (True,
                         (if ok then status e ''System audio test successful''
                          else if test_success then e
                          else status e
                                 ''System audio capture ready (no audio currently playing)''),
                         w\<lparr>system_ctx := context_or (system_ctx w) (system_stop_capture c'),
                            system_statics := st'\<rparr>))
             else Inr (test_success, e, w\<lparr>system_ctx := context_or (system_ctx w) c\<rparr>))
      else Inr (test_success, e, w))"

text \<open>Lines 149 to 198.\<close>

definition test_audio ::
  "capture_engine \<Rightarrow> module_state \<Rightarrow> engine_locals \<Rightarrow> engine_env \<Rightarrow>
   fault + (capture_engine \<times> module_state \<times> engine_locals)" where
  "test_audio e w l env =
     (case probe_microphone (status e ''Testing audio capture availability...'') w l env of
        Inl f \<Rightarrow> Inl f
      | Inr (ok1, e1, w1) \<Rightarrow>
          (case probe_system ok1 e1 w1 l env of
             Inl f \<Rightarrow> Inl f
           | Inr (ok2, e2, w2) \<Rightarrow>
               if \<not> ok2
               then Inr ((status e2
                            ''Warning: No audio data detected, continuing with video-only'')
                           \<lparr>stats := (stats e2)\<lparr>audio_enabled := False\<rparr>\<rparr>,
                         w2, l\<lparr>audio_available := False\<rparr>)
               else Inr (e2, w2, l)))"

text \<open>
  Lines 199 to 221: in audio-only mode the sources are started at once. The result says
  whether \<open>engine_start\<close> goes on; otherwise it jumps to \<open>cleanup\<close>.
\<close>

definition start_audio_only ::
  "capture_engine \<Rightarrow> module_state \<Rightarrow> engine_locals \<Rightarrow> engine_env \<Rightarrow>
   bool \<times> capture_engine \<times> module_state \<times> engine_locals" where
  "start_audio_only e w l env =
     (let e0 = status e ''Audio-only mode: starting audio capture directly'';
          (e1, w1, l1) =
            (if use_microphone l \<and> microphone_result l = 0 then
               (case microphone_start_capture (Some (microphone_ctx w)) (mic_start_ok env) of
                  (r, c) \<Rightarrow>
                    (if r \<noteq> 0
                     then status e0
                            ''Error: Failed to start microphone capture for audio-only mode''
                     else e0,
                     w\<lparr>microphone_ctx := context_or (microphone_ctx w) c\<rparr>,
                     if r \<noteq> 0 then l\<lparr>audio_available := False\<rparr> else l))
             else (e0, w, l));
          (e2, w2, l2) =
            (if use_system l1 \<and> system_result l1 = 0 then
               (case system_start_capture (Some (system_ctx w1)) (sys_start_ok env) of
                  (r, c) \<Rightarrow>
                    (if r \<noteq> 0
                     then status e1
                            ''Error: Failed to start system audio capture for audio-only mode''
                     else e1,
                     w1\<lparr>system_ctx := context_or (system_ctx w1) c\<rparr>,
                     if r \<noteq> 0 then l1\<lparr>audio_available := False\<rparr> else l1))
             else (e1, w1, l1))
      in
      if \<not> audio_available l2
      then (False, status e2 ''Error: Audio-only mode requires working audio capture'', w2, l2)
      else (True, e2, w2, l2))"

subsection \<open>Selection of the muxer variant\<close>

text \<open>
  Lines 225 to 251. The audio parameters are 0 unless \<open>stats.audio_enabled\<close> is set.
  The message of a dual-track or audio-only variant is sent before the result is looked
  at.
\<close>

definition select_encoder ::
  "capture_params \<Rightarrow> capture_engine \<Rightarrow> module_state \<Rightarrow> engine_locals \<Rightarrow> engine_env \<Rightarrow>
   int \<times> capture_engine \<times> module_state" where
  "select_encoder p e w l env =
     (let sample_rate = (if audio_enabled (stats e) then audio_sample_rate (stats e) else 0);
          channels = (if audio_enabled (stats e) then audio_channels (stats e) else 0);
          bits_per_sample =
            (if audio_enabled (stats e) then audio_bits_per_sample (stats e) else 0)
      in
      if p_audio_only_mode p then
        if use_dual_track l \<and> audio_available l then
          (case encoder_init_audio_only_dual_track (muxer w) (Some (encoder_ctx w))
                  (Some (p_output_filename p)) sample_rate channels bits_per_sample
                  (encoder_fails env) of
             (r, g, c) \<Rightarrow>
               (r, status e
                     ''Initialized audio-only dual-track encoder (system + mic as separate tracks)'',
                w\<lparr>muxer := g, encoder_ctx := context_or (encoder_ctx w) c\<rparr>))
        else
          (case encoder_init_audio_only (muxer w) (Some (encoder_ctx w))
                  (Some (p_output_filename p)) sample_rate channels bits_per_sample
                  (encoder_fails env) of
             (r, g, c) \<Rightarrow>
               (r, status e ''Initialized audio-only encoder (MP4 output)'',
                w\<lparr>muxer := g, encoder_ctx := context_or (encoder_ctx w) c\<rparr>))
      else
        if use_dual_track l \<and> audio_available l then
          (case encoder_init_dual_track (muxer w) (Some (encoder_ctx w))
                  (Some (p_output_filename p)) (width (screen_ctx w)) (height (screen_ctx w))
                  (p_fps p) sample_rate channels bits_per_sample (encoder_fails env) of
             (r, g, c) \<Rightarrow>
               (r, status e
                     ''Initialized dual-track encoder (video + system audio + microphone)'',
                w\<lparr>muxer := g, encoder_ctx := context_or (encoder_ctx w) c\<rparr>))
        else
          (case encoder_init (muxer w) (Some (encoder_ctx w))
                  (Some (p_output_filename p)) (width (screen_ctx w)) (height (screen_ctx w))
                  (p_fps p) sample_rate channels bits_per_sample (encoder_fails env) of
             (r, g, c) \<Rightarrow>
               (r, e, w\<lparr>muxer := g, encoder_ctx := context_or (encoder_ctx w) c\<rparr>)))"

text \<open>
  Lines 266 to 290: after the probe the sources are started again; a source that does
  not start is dropped.
\<close>

definition restart_audio ::
  "capture_params \<Rightarrow> capture_engine \<Rightarrow> module_state \<Rightarrow> engine_locals \<Rightarrow> engine_env \<Rightarrow>
   capture_engine \<times> module_state \<times> engine_locals" where
  "restart_audio p e w l env =
     (if audio_available l \<and> \<not> p_audio_only_mode p then
        let (e1, w1, l1) =
              (if use_microphone l \<and> microphone_result l = 0 then
                 (case microphone_start_capture (Some (microphone_ctx w)) (mic_start_ok env) of
                    (r, c) \<Rightarrow>
                      (if r \<noteq> 0
                       then status e ''Warning: Failed to restart microphone capture'' else e,
                       w\<lparr>microphone_ctx := context_or (microphone_ctx w) c\<rparr>,
                       if r \<noteq> 0 then l\<lparr>use_microphone := False\<rparr> else l))
               else (e, w, l));
            (e2, w2, l2) =
              (if use_system l1 \<and> system_result l1 = 0 then
                 (case system_start_capture (Some (system_ctx w1)) (sys_start_ok env) of
                    (r, c) \<Rightarrow>
                      (if r \<noteq> 0
                       then status e1 ''Warning: Failed to restart system audio capture''
                       else e1,
                       w1\<lparr>system_ctx := context_or (system_ctx w1) c\<rparr>,
                       if r \<noteq> 0 then l1\<lparr>use_system := False\<rparr> else l1))
               else (e1, w1, l1))
        in
        (e2\<lparr>stats := (stats e2)\<lparr>audio_enabled := sources_available l2\<rparr>\<rparr>, w2,
         l2\<lparr>audio_available := sources_available l2\<rparr>)
      else (e, w, l))"

subsection \<open>The capture loop\<close>

text \<open>The locals of the loop. The \<open>int\<close> counters are not bounded in the model.\<close>

record loop_state =
  next_frame_time :: DWORD
  frame_count :: int
  failed_frame_attempts :: int
  consecutive_audio_failures :: int
  next_emergency_check :: DWORD
  loop_iterations :: int

definition MAX_LOOP_ITERATIONS_PER_SECOND :: int where
  "MAX_LOOP_ITERATIONS_PER_SECOND = 2000"

definition emergency_check_interval :: DWORD where
  "emergency_check_interval = 1000"

text \<open>
  Lines 316 to 340: the watchdogs and the duration limit. The result says whether the
  loop is left with \<open>break\<close>.
\<close>

definition check_limits ::
  "capture_params \<Rightarrow> DWORD \<Rightarrow> DWORD \<Rightarrow> capture_engine \<Rightarrow> loop_state \<Rightarrow>
   bool \<times> capture_engine \<times> loop_state" where
  "check_limits p start_time now e s =
     (let s1 = s\<lparr>loop_iterations := loop_iterations s + 1\<rparr> in
      if next_emergency_check s1 \<le> now \<and>
         MAX_LOOP_ITERATIONS_PER_SECOND < loop_iterations s1
      then (True,
            status e ''EMERGENCY: Loop frequency too high, terminating to prevent memory leak'',
            s1)
      else
        let s2 = (if next_emergency_check s1 \<le> now
                  then s1\<lparr>loop_iterations := 0,
                          next_emergency_check := now + emergency_check_interval\<rparr>
                  else s1)
        in
        if next_emergency_check s1 \<le> now \<and> sint (p_duration p) = 0 \<and>
           60 * 1000 < now - start_time
        then (True,
              status e
                ''EMERGENCY: Unlimited recording running over 60 seconds, auto-terminating'',
              s2)
        else if 0 < sint (p_duration p) \<and> p_duration p * 1000 \<le> now - start_time
        then (True, e, s2)
        else (False, e, s2))"

text \<open>
  Lines 343 to 361: the video path of one iteration. A frame is requested when the tick
  count has reached \<open>next_frame_time\<close>; the frame is pushed and counted when the
  request returns 0 with a buffer, and counted as failed otherwise; \<open>next_frame_time\<close>
  advances by the frame interval in both cases.
\<close>

definition video_path ::
  "capture_params \<Rightarrow> DWORD \<Rightarrow> DWORD \<Rightarrow> iteration_env \<Rightarrow> capture_engine \<Rightarrow> module_state \<Rightarrow>
   loop_state \<Rightarrow> fault + (capture_engine \<times> module_state \<times> loop_state)" where
  "video_path p start_time frame_interval it e w s =
     (if \<not> p_audio_only_mode p \<and> next_frame_time s \<le> current_time it then
        (case screen_get_frame_dual_track (Some (screen_ctx w)) None 0
                (dual_track_mode (encoder_ctx w)) (frame_os it) of
           Inl f \<Rightarrow> Inl f
         | Inr (frame_result, frame_data, frame_size, c) \<Rightarrow>
             let w1 = w\<lparr>screen_ctx := context_or (screen_ctx w) c\<rparr> in
             if frame_result = 0 \<and> frame_data \<noteq> None then
               (case encoder_add_video_frame (muxer w1) (Some (encoder_ctx w1)) frame_data
                       frame_size (current_time it - start_time) (video_hr it) of
                  Inl f \<Rightarrow> Inl f
                | Inr (r, g) \<Rightarrow>
                    Inr (e\<lparr>progress_reports :=
                              progress_reports e @
                                [(frame_count s + 1, current_time it - start_time)]\<rparr>,
                         w1\<lparr>muxer := g\<rparr>,
                         s\<lparr>frame_count := frame_count s + 1,
                           next_frame_time := next_frame_time s + frame_interval\<rparr>))
             else
               Inr (e, w1,
                    s\<lparr>failed_frame_attempts := failed_frame_attempts s + 1,
                      next_frame_time := next_frame_time s + frame_interval\<rparr>))
      else Inr (e, w, s))"

text \<open>The block that \<open>*data\<close> points to, as the muxer receives it.\<close>

definition audio_bytes :: "audio_ptr option \<Rightarrow> BYTE list option \<Rightarrow> BYTE list option" where
  "audio_bytes p silent =
     (case p of
        None \<Rightarrow> None
      | Some (Ring_Packet bytes) \<Rightarrow> Some bytes
      | Some Silent_Buffer \<Rightarrow> silent)"

text \<open>
  One pull from a source and one push to the muxer, as lines 376 to 381, 386 to 391, 398
  to 403 and 409 to 414 do it; \<open>dual\<close> selects the entry point of the muxer's track.
  The result says whether a buffer was pushed.
\<close>

definition pull_system ::
  "bool \<Rightarrow> DWORD \<Rightarrow> iteration_env \<Rightarrow> module_state \<Rightarrow> fault + (bool \<times> module_state)" where
  "pull_system dual elapsed it w =
     (case system_get_buffer (Some (system_ctx w)) (system_statics w) None 0 (system_os it) of
        Inl f \<Rightarrow> Inl f
      | Inr (r, c, st) \<Rightarrow>
          let w1 = w\<lparr>system_ctx := context_or (system_ctx w) c, system_statics := st\<rparr> in
          if result r = 0 \<and> 0 < num_frames r then
            let bytes = audio_bytes (data r) (silent_buffer st);
                g = (if dual
                     then snd (encoder_add_system_audio_frame (muxer w1) (Some (encoder_ctx w1))
                                 bytes (num_frames r) elapsed (system_hr it))
                     else snd (encoder_add_audio_frame (muxer w1) (Some (encoder_ctx w1))
                                 bytes (num_frames r) elapsed (system_hr it)))
            in
            Inr (True,
                 w1\<lparr>muxer := g,
                    system_ctx :=
                      context_or (system_ctx w1)
                        (system_release_buffer (Some (system_ctx w1)) (num_frames r))\<rparr>)
          else Inr (False, w1))"

definition pull_microphone ::
  "bool \<Rightarrow> DWORD \<Rightarrow> iteration_env \<Rightarrow> module_state \<Rightarrow> fault + (bool \<times> module_state)" where
  "pull_microphone dual elapsed it w =
     (case microphone_get_buffer (Some (microphone_ctx w)) (microphone_statics w) None 0
             (mic_os it) of
        Inl f \<Rightarrow> Inl f
      | Inr (r, c, st) \<Rightarrow>
          let w1 = w\<lparr>microphone_ctx := context_or (microphone_ctx w) c,
                     microphone_statics := st\<rparr>
          in
          if result r = 0 \<and> 0 < num_frames r then
            let bytes = audio_bytes (data r) (silent_buffer st);
                g = (if dual
                     then snd (encoder_add_mic_audio_frame (muxer w1) (Some (encoder_ctx w1))
                                 bytes (num_frames r) elapsed (mic_hr it))
                     else snd (encoder_add_audio_frame (muxer w1) (Some (encoder_ctx w1))
                                 bytes (num_frames r) elapsed (mic_hr it)))
            in
            Inr (True,
                 w1\<lparr>muxer := g,
                    microphone_ctx :=
                      context_or (microphone_ctx w1)
                        (microphone_release_buffer (Some (microphone_ctx w1)) (num_frames r))\<rparr>)
          else Inr (False, w1))"

text \<open>
  Lines 364 to 416: in dual-track mode with both sources the loopback source is pulled
  first, then the microphone; otherwise the microphone first, then the loopback source,
  both into the combined track.
\<close>

definition audio_path ::
  "DWORD \<Rightarrow> engine_locals \<Rightarrow> iteration_env \<Rightarrow> module_state \<Rightarrow> fault + (bool \<times> module_state)" where
  "audio_path elapsed l it w =
     (if use_dual_track l \<and> use_microphone l \<and> use_system l then
        (case (if system_result l = 0 then pull_system True elapsed it w else Inr (False, w)) of
           Inl f \<Rightarrow> Inl f
         | Inr (ok1, w1) \<Rightarrow>
             (case (if microphone_result l = 0 then pull_microphone True elapsed it w1
                    else Inr (False, w1)) of
                Inl f \<Rightarrow> Inl f
              | Inr (ok2, w2) \<Rightarrow> Inr (ok1 \<or> ok2, w2)))
      else
        (case (if use_microphone l \<and> microphone_result l = 0
               then pull_microphone False elapsed it w else Inr (False, w)) of
           Inl f \<Rightarrow> Inl f
         | Inr (ok1, w1) \<Rightarrow>
             (case (if use_system l \<and> system_result l = 0
                    then pull_system False elapsed it w1 else Inr (False, w1)) of
                Inl f \<Rightarrow> Inl f
              | Inr (ok2, w2) \<Rightarrow> Inr (ok1 \<or> ok2, w2))))"

text \<open>
  The body of the loop, lines 316 to 447. The result says whether the loop is left with
  \<open>break\<close>. The calls of \<open>Sleep\<close> at the end change no state.
\<close>

definition capture_iteration ::
  "capture_params \<Rightarrow> DWORD \<Rightarrow> DWORD \<Rightarrow> engine_locals \<Rightarrow> iteration_env \<Rightarrow> capture_engine \<Rightarrow>
   module_state \<Rightarrow> loop_state \<Rightarrow> fault + (bool \<times> capture_engine \<times> module_state \<times> loop_state)" where
  "capture_iteration p start_time frame_interval l it e w s =
     (case check_limits p start_time (current_time it) e s of
        (True, e1, s1) \<Rightarrow> Inr (True, e1, w, s1)
      | (False, e1, s1) \<Rightarrow>
          (case video_path p start_time frame_interval it e1 w s1 of
             Inl f \<Rightarrow> Inl f
           | Inr (e2, w2, s2) \<Rightarrow>
               if audio_available l then
                 (case audio_path (current_time it - start_time) l it w2 of
                    Inl f \<Rightarrow> Inl f
                  | Inr (audio_success, w3) \<Rightarrow>
                      if audio_success
                      then Inr (False, e2, w3, s2\<lparr>consecutive_audio_failures := 0\<rparr>)
                      else
                        let s3 = s2\<lparr>consecutive_audio_failures :=
                                       consecutive_audio_failures s2 + 1\<rparr>
                        in
                        if p_audio_only_mode p \<and> 1000 < consecutive_audio_failures s3
                        then Inr (True,
                                  status e2
                                    ''Error: Too many audio capture failures in audio-only mode, stopping recording'',
                                  w3, s3)
                        else Inr (False, e2, w3, s3))
               else Inr (False, e2, w2, s2)))"

text \<open>
  The loop. Before each test of the condition another thread may have written the
  flags, as \<open>engine_stop\<close> does; what that thread sends to the status callback is not
  recorded. When the iterations given by the environment are used up and the condition
  still holds, the loop has not ended.
\<close>

definition observe_flags :: "iteration_env \<Rightarrow> capture_engine \<Rightarrow> capture_engine" where
  "observe_flags it e =
     e\<lparr>is_running := is_running e \<and> \<not> running_cleared it,
       force_stop := force_stop e \<or> stop_requested it\<rparr>"

fun capture_loop ::
  "capture_params \<Rightarrow> DWORD \<Rightarrow> DWORD \<Rightarrow> engine_locals \<Rightarrow> iteration_env list \<Rightarrow> capture_engine \<Rightarrow>
   module_state \<Rightarrow> loop_state \<Rightarrow> (capture_engine \<times> module_state \<times> loop_state) outcome" where
  "capture_loop p start_time frame_interval l [] e w s = Unfinished"
| "capture_loop p start_time frame_interval l (it # its) e w s =
     (let e0 = observe_flags it e in
      if \<not> is_running e0 \<or> force_stop e0 \<or> p_force_stop p \<or> params_stop it
      then Returned (e0, w, s)
      else
        (case capture_iteration p start_time frame_interval l it e0 w s of
           Inl f \<Rightarrow> Trapped f
         | Inr (True, e1, w1, s1) \<Rightarrow> Returned (e1, w1, s1)
         | Inr (False, e1, w1, s1) \<Rightarrow> capture_loop p start_time frame_interval l its e1 w1 s1))"

subsection \<open>The two ends of engine_start\<close>

text \<open>
  The label \<open>cleanup\<close>, lines 485 to 509: every source that was initialised is stopped
  and cleaned up, and the muxer is cleaned up.
\<close>

definition engine_start_cleanup ::
  "capture_params \<Rightarrow> capture_engine \<Rightarrow> module_state \<Rightarrow> engine_locals \<Rightarrow>
   capture_engine \<times> module_state" where
  "engine_start_cleanup p e w l =
     (let w1 = (if \<not> p_audio_only_mode p
                then w\<lparr>screen_ctx :=
                         context_or (screen_ctx w)
                           (screen_cleanup (screen_stop_capture (Some (screen_ctx w))))\<rparr>
                else w);
          w2 = (if use_microphone l \<and> microphone_result l = 0
                then w1\<lparr>microphone_ctx :=
                          context_or (microphone_ctx w1)
                            (microphone_cleanup
                               (microphone_stop_capture (Some (microphone_ctx w1))))\<rparr>
                else w1);
          w3 = (if use_system l \<and> system_result l = 0
                then w2\<lparr>system_ctx :=
                          context_or (system_ctx w2)
                            (system_cleanup (system_stop_capture (Some (system_ctx w2))))\<rparr>
                else w2)
      in
      (case encoder_cleanup (muxer w3) (Some (encoder_ctx w3)) of
         (g, c) \<Rightarrow>
           (e\<lparr>is_running := False\<rparr>,
            w3\<lparr>muxer := g, encoder_ctx := context_or (encoder_ctx w3) c\<rparr>)))"

text \<open>
  Lines 450 to 483, after the loop: the statistics, the stops, \<open>encoder_finalize\<close>
  (whose result is not looked at), the last message, and \<open>return 0\<close>. No cleanup
  function is called here.
\<close>

definition engine_start_finish ::
  "capture_params \<Rightarrow> DWORD \<Rightarrow> engine_locals \<Rightarrow> engine_env \<Rightarrow> capture_engine \<Rightarrow> module_state \<Rightarrow>
   loop_state \<Rightarrow> fault + (capture_engine \<times> module_state)" where
  "engine_start_finish p start_time l env e w s =
     (let e1 = status
                 (e\<lparr>stats := (stats e)\<lparr>total_frames := frame_count s,
                                        failed_frames := failed_frame_attempts s,
                                        recording_duration_ms := stats_tick env - start_time\<rparr>\<rparr>)
                 ''Stopping capture...'';
          w1 = (if \<not> p_audio_only_mode p
                then w\<lparr>screen_ctx :=
                         context_or (screen_ctx w) (screen_stop_capture (Some (screen_ctx w)))\<rparr>
                else w);
          w2 = (if audio_available l \<and> use_microphone l \<and> microphone_result l = 0
                then w1\<lparr>microphone_ctx :=
                          context_or (microphone_ctx w1)
                            (microphone_stop_capture (Some (microphone_ctx w1)))\<rparr>
                else w1);
          w3 = (if audio_available l \<and> use_system l \<and> system_result l = 0
                then w2\<lparr>system_ctx :=
                          context_or (system_ctx w2)
                            (system_stop_capture (Some (system_ctx w2)))\<rparr>
                else w2);
          e2 = status e1 ''Finalizing recording...''
      in
      case encoder_finalize (muxer w3) (Some (encoder_ctx w3)) (finalize_os env) of
        Inl f \<Rightarrow> Inl f
      | Inr (r, g, c) \<Rightarrow>
          Inr (e2\<lparr>status_messages :=
                    status_messages e2 @
                      [if p_audio_only_mode p
                       then Audio_Recording_Completed (message_tick env - start_time)
                       else Recording_Completed (frame_count s) (message_tick env - start_time)],
                  is_running := False\<rparr>,
               w3\<lparr>muxer := g, encoder_ctx := context_or (encoder_ctx w3) c\<rparr>))"

subsection \<open>engine_start\<close>

text \<open>
  Lines 266 to 483: from the restart of the audio sources to the return. The frame
  interval is \<open>1000 / params->fps\<close> in \<open>int\<close> arithmetic, converted to \<open>DWORD\<close>.
\<close>

definition engine_record ::
  "capture_params \<Rightarrow> capture_engine \<Rightarrow> module_state \<Rightarrow> engine_locals \<Rightarrow> engine_env \<Rightarrow>
   (int \<times> capture_engine \<times> module_state) outcome" where
  "engine_record p e w l env =
     (case restart_audio p e w l env of
        (e1, w1, l1) \<Rightarrow>
          let start_time = start_tick env;
              w2 = w1\<lparr>muxer := encoder_set_recording_start_time (muxer w1) start_time\<rparr>;
              e2 = e1\<lparr>is_running := True,
                      status_messages :=
                        status_messages e1 @
                          [Recording_Started (p_output_filename p) (audio_available l1)]\<rparr>
          in
          if p_fps p = 0 then Trapped DivideByZero
          else
            (case capture_loop p start_time (int_div 1000 (p_fps p)) l1 (iterations env) e2 w2
                    \<lparr>next_frame_time = start_time, frame_count = 0, failed_frame_attempts = 0,
                     consecutive_audio_failures = 0,
                     next_emergency_check = start_time + emergency_check_interval,
                     loop_iterations = 0\<rparr> of
               Trapped f \<Rightarrow> Trapped f
             | Unfinished \<Rightarrow> Unfinished
             | Returned (e3, w3, s3) \<Rightarrow>
                 (case engine_start_finish p start_time l1 env e3 w3 s3 of
                    Inl f \<Rightarrow> Trapped f
                  | Inr (e4, w4) \<Rightarrow> Returned (0, e4, w4))))"

text \<open>
  Lines 223 to 264: the muxer is opened and the screen source started; a failure of
  either jumps to \<open>cleanup\<close>.
\<close>

definition engine_open ::
  "capture_params \<Rightarrow> capture_engine \<Rightarrow> module_state \<Rightarrow> engine_locals \<Rightarrow> engine_env \<Rightarrow>
   (int \<times> capture_engine \<times> module_state) outcome" where
  "engine_open p e w l env =
     (case select_encoder p e w l env of
        (encoder_result, e1, w1) \<Rightarrow>
          if encoder_result \<noteq> 0 then
            (case engine_start_cleanup p (status e1 ''Error: Failed to initialize encoder'') w1 l of
               (e2, w2) \<Rightarrow> Returned (-1, e2, w2))
          else if p_audio_only_mode p then engine_record p e1 w1 l env
          else
            (case screen_start_capture (Some (screen_ctx w1)) of
               (r, c) \<Rightarrow>
                 let w2 = w1\<lparr>screen_ctx := context_or (screen_ctx w1) c\<rparr> in
                 if r \<noteq> 0 then
                   (case engine_start_cleanup p
                           (status e1 ''Error: Failed to start screen capture'') w2 l of
                      (e3, w3) \<Rightarrow> Returned (-1, e3, w3))
                 else engine_record p e1 w2 l env))"

text \<open>Lines 92 to 221: the audio sources are initialised and probed or started.\<close>

definition engine_prepare_audio ::
  "capture_params \<Rightarrow> capture_engine \<Rightarrow> module_state \<Rightarrow> engine_locals \<Rightarrow> engine_env \<Rightarrow>
   (int \<times> capture_engine \<times> module_state) outcome" where
  "engine_prepare_audio p e w l env =
     (case init_microphone e w l env of
        Inl f \<Rightarrow> Trapped f
      | Inr (e1, w1, l1) \<Rightarrow>
          (case init_system e1 w1 l1 env of
             Inl f \<Rightarrow> Trapped f
           | Inr (e2, w2, l2) \<Rightarrow>
               let l3 = l2\<lparr>audio_available := sources_available l2\<rparr> in
               if (use_microphone l3 \<or> use_system l3) \<and> \<not> audio_available l3 \<and>
                  p_audio_only_mode p
               then
                 (case engine_start_cleanup p
                         (status e2 ''Error: Audio-only mode requires working audio capture'')
                         w2 l3 of
                    (e3, w3) \<Rightarrow> Returned (-1, e3, w3))
               else
                 let e3 = (if (use_microphone l3 \<or> use_system l3) \<and> \<not> audio_available l3
                           then status e2
                                  ''Warning: No audio sources available, continuing with video-only''
                           else e2);
                     e4 = e3\<lparr>stats := (stats e3)\<lparr>audio_enabled := audio_available l3\<rparr>\<rparr>
                 in
                 if audio_available l3 \<and> \<not> p_audio_only_mode p then
                   (case test_audio e4 w2 l3 env of
                      Inl f \<Rightarrow> Trapped f
                    | Inr (e5, w5, l5) \<Rightarrow> engine_open p e5 w5 l5 env)
                 else if audio_available l3 \<and> p_audio_only_mode p then
                   (case start_audio_only e4 w2 l3 env of
                      (False, e5, w5, l5) \<Rightarrow>
                        (case engine_start_cleanup p e5 w5 l5 of
                           (e6, w6) \<Rightarrow> Returned (-1, e6, w6))
                    | (True, e5, w5, l5) \<Rightarrow> engine_open p e5 w5 l5 env)
                 else engine_open p e4 w2 l3 env))"

text \<open>
  Lines 76 to 93: the locals as they are before the sources are initialised.
  \<open>use_dual_track\<close> is cleared for audio-only recordings, and without
  \<open>MUXSW_ENABLE_AUDIO\<close> the three \<open>use_\<close> flags are cleared.
\<close>

definition start_locals :: "bool \<Rightarrow> capture_params \<Rightarrow> engine_locals" where
  "start_locals audio_build p =
     \<lparr>use_microphone =
        audio_build \<and> (p_audio_sources p = AUDIO_SOURCE_MICROPHONE \<or>
                       p_audio_sources p = AUDIO_SOURCE_BOTH),
      use_system =
        audio_build \<and> (p_audio_sources p = AUDIO_SOURCE_SYSTEM \<or>
                       p_audio_sources p = AUDIO_SOURCE_BOTH),
      use_dual_track =
        audio_build \<and> p_audio_sources p = AUDIO_SOURCE_BOTH \<and> \<not> p_audio_only_mode p,
      microphone_result = -1, system_result = -1, audio_available = False\<rparr>"

text \<open>
  \<open>engine_start\<close>. The first line returns \<open>-1\<close> when the engine or the parameters are
  null or a recording is running. The first use of the status callback follows; through a
  null pointer it is a trap. Without \<open>MUXSW_ENABLE_AUDIO\<close> an audio-only recording is
  refused.
\<close>

definition engine_start ::
  "bool \<Rightarrow> capture_engine option \<Rightarrow> capture_params option \<Rightarrow> module_state \<Rightarrow> engine_env \<Rightarrow>
   (int \<times> capture_engine option \<times> module_state) outcome" where
  "engine_start audio_build engine parameters w env =
     (case (engine, parameters) of
        (Some e, Some p) \<Rightarrow>
          if is_running e then Returned (-1, engine, w)
          else if \<not> callbacks_set e then Trapped NullPointer
          else
            let e1 = status (e\<lparr>params := p, force_stop := False, stats := capture_stats_zero\<rparr>)
                       ''Initializing capture...'';
                (r, c) = (if \<not> p_audio_only_mode p
                          then screen_init (Some (screen_ctx w)) (screen_init_os env)
                          else (0, Some (screen_ctx w)));
                w1 = w\<lparr>screen_ctx := context_or (screen_ctx w) c\<rparr>
            in
            if r \<noteq> 0
            then Returned (-1, Some (status e1 ''Error: Failed to initialize screen capture''), w1)
            else if \<not> audio_build \<and> p_audio_only_mode p
            then Returned (-1, Some (status e1 ''Error: Audio-only mode not supported in MVP build''),
                           w1)
            else
              (case engine_prepare_audio p e1 w1 (start_locals audio_build p) env of
                 Trapped f \<Rightarrow> Trapped f
               | Unfinished \<Rightarrow> Unfinished
               | Returned (r, e2, w2) \<Rightarrow> Returned (r, Some e2, w2))
      | _ \<Rightarrow> Returned (-1, engine, w))"

subsection \<open>The other functions of the engine\<close>

definition engine_init :: "capture_engine option \<Rightarrow> int \<times> capture_engine option" where
  "engine_init engine =
     (case engine of
        None \<Rightarrow> (-1, None)
      | Some e \<Rightarrow> (0, Some (capture_engine_zero\<lparr>callbacks_set := True\<rparr>)))"

text \<open>
  \<open>engine_cleanup\<close>: the four cleanup functions, then the four contexts and the engine
  are cleared. (For a running engine it calls \<open>engine_stop\<close> first, which waits for the
  recording thread; nothing that \<open>engine_stop\<close> writes is left when the structure has
  been cleared.)
\<close>

definition engine_cleanup ::
  "capture_engine option \<Rightarrow> module_state \<Rightarrow> capture_engine option \<times> module_state" where
  "engine_cleanup engine w =
     (case engine of
        None \<Rightarrow> (None, w)
      | Some e \<Rightarrow>
          (case encoder_cleanup (muxer w) (Some (encoder_ctx w)) of
             (g, c) \<Rightarrow>
               (Some capture_engine_zero,
                w\<lparr>screen_ctx := screen_capture_zero, microphone_ctx := audio_context_zero,
                  system_ctx := audio_context_zero, encoder_ctx := encoder_context_zero,
                  muxer := g\<rparr>)))"

section \<open>One recording (record.c)\<close>

text \<open>
  \<open>recording_result_t\<close>; the text of the message that carries numbers is kept with its
  arguments. \<open>CoInitializeEx\<close> is tried in apartment-threaded and then in multithreaded
  mode; the outcome is that one of them succeeded, that COM was initialised before in
  another mode, or a failure.
\<close>

datatype result_message =
    Result_Text string
  | Result_Completed int DWORD

record recording_result =
  success :: int
  error_message :: result_message
  result_stats :: capture_stats

definition recording_result_zero :: recording_result where
  "recording_result_zero =
     \<lparr>success = 0, error_message = Result_Text [], result_stats = capture_stats_zero\<rparr>"

datatype com_outcome = Com_Initialized | Com_Changed_Mode | Com_Failed

text \<open>
  \<open>record_start\<close>: \<open>engine_start\<close>, and a copy of the statistics. It calls no cleanup
  function.
\<close>

definition record_start ::
  "bool \<Rightarrow> capture_engine option \<Rightarrow> capture_params option \<Rightarrow> recording_result option \<Rightarrow>
   com_outcome \<Rightarrow> module_state \<Rightarrow> engine_env \<Rightarrow>
   (int \<times> capture_engine option \<times> recording_result option \<times> module_state) outcome" where
  "record_start audio_build engine parameters res com w env =
     (case (engine, parameters, res) of
        (Some e, Some p, Some r0) \<Rightarrow>
          if com = Com_Failed
          then Returned (-1, engine,
                         Some (recording_result_zero
                                 \<lparr>error_message := Result_Text ''Failed to initialize COM''\<rparr>), w)
          else
            (case engine_start audio_build engine parameters w env of
               Trapped f \<Rightarrow> Trapped f
             | Unfinished \<Rightarrow> Unfinished
             | Returned (capture_result, engine', w') \<Rightarrow>
                 let st = (case engine' of None \<Rightarrow> capture_stats_zero | Some e' \<Rightarrow> stats e') in
                 Returned (capture_result, engine',
                           Some (if capture_result = 0
                                 then \<lparr>success = 1,
                                       error_message =
                                         Result_Completed (total_frames st)
                                           (recording_duration_ms st),
                                       result_stats = st\<rparr>
                                 else \<lparr>success = 0,
                                       error_message =
                                         Result_Text ''Recording failed during capture'',
                                       result_stats = st\<rparr>),
                           w'))
      | (_, _, Some r0) \<Rightarrow>
          Returned (-1, engine,
                    Some (r0\<lparr>success := 0, error_message := Result_Text ''Invalid parameters''\<rparr>),
                    w)
      | (_, _, None) \<Rightarrow> Returned (-1, engine, None, w))"

text \<open>What a run that has returned leaves behind.\<close>

definition returned_code :: "(int \<times> capture_engine option \<times> module_state) outcome \<Rightarrow> int option" where
  "returned_code out = (case out of Returned (r, e, w) \<Rightarrow> Some r | _ \<Rightarrow> None)"

definition returned_engine ::
  "(int \<times> capture_engine option \<times> module_state) outcome \<Rightarrow> capture_engine option" where
  "returned_engine out = (case out of Returned (r, e, w) \<Rightarrow> e | _ \<Rightarrow> None)"

definition returned_state ::
  "(int \<times> capture_engine option \<times> module_state) outcome \<Rightarrow> module_state option" where
  "returned_state out = (case out of Returned (r, e, w) \<Rightarrow> Some w | _ \<Rightarrow> None)"

definition returned_muxer ::
  "(int \<times> capture_engine option \<times> module_state) outcome \<Rightarrow> encoder_globals option" where
  "returned_muxer out = (case out of Returned (r, e, w) \<Rightarrow> Some (muxer w) | _ \<Rightarrow> None)"

text \<open>
  The part of the muxer statics that only the \<open>init\<close> functions, \<open>encoder_cleanup\<close>
  and \<open>encoder_set_recording_start_time\<close> write: the streams declared on the sink
  writer (none without a writer), the dual-track flag, the video geometry and rate, and the
  start time.
\<close>

definition writer_streams :: "encoder_globals \<Rightarrow> (media_type \<times> media_type option) list option" where
  "writer_streams g = (case g_sink_writer g of None \<Rightarrow> None | Some sw \<Rightarrow> Some (streams sw))"

record container_setup =
  setup_streams :: "(media_type \<times> media_type option) list option"
  setup_dual_track :: bool
  setup_width :: UINT32
  setup_height :: UINT32
  setup_fps :: UINT32
  setup_start_time :: DWORD

definition container_setup_of :: "encoder_globals \<Rightarrow> container_setup" where
  "container_setup_of g =
     \<lparr>setup_streams = writer_streams g, setup_dual_track = g_dual_track_mode g,
      setup_width = g_video_width g, setup_height = g_video_height g,
      setup_fps = g_video_fps g, setup_start_time = g_recording_start_time g\<rparr>"

text \<open>
  Whether an iteration requests a frame, and whether the request gives one: it returns 0
  and a buffer.
\<close>

definition frame_due :: "capture_params \<Rightarrow> iteration_env \<Rightarrow> loop_state \<Rightarrow> bool" where
  "frame_due p it s \<longleftrightarrow> \<not> p_audio_only_mode p \<and> next_frame_time s \<le> current_time it"

definition frame_obtained :: "module_state \<Rightarrow> iteration_env \<Rightarrow> bool" where
  "frame_obtained w it \<longleftrightarrow>
     (case screen_get_frame_dual_track (Some (screen_ctx w)) None 0
             (dual_track_mode (encoder_ctx w)) (frame_os it) of
        Inl f \<Rightarrow> False
      | Inr (frame_result, frame_data, frame_size, c) \<Rightarrow> frame_result = 0 \<and> frame_data \<noteq> None)"

definition limit_reached ::
  "capture_params \<Rightarrow> DWORD \<Rightarrow> iteration_env \<Rightarrow> capture_engine \<Rightarrow> loop_state \<Rightarrow> bool" where
  "limit_reached p start_time it e s \<longleftrightarrow> fst (check_limits p start_time (current_time it) e s)"

section \<open>Example runs\<close>

text \<open>
  An engine after \<open>engine_init\<close>, and the parameters of two recordings as
  \<open>params_set_recording_mode\<close> completes them in a build with audio: video alone at 30
  frames per second, and the two audio sources without video.
\<close>

definition fresh_engine :: capture_engine where
  "fresh_engine = capture_engine_zero\<lparr>callbacks_set := True\<rparr>"

definition requested_params :: capture_params where
  "requested_params = capture_params_zero\<lparr>p_output_filename := ''capture.mp4'', p_fps := 30\<rparr>"

definition video_only_params :: capture_params where
  "video_only_params =
     requested_params\<lparr>p_enable_video := True, p_audio_sources := AUDIO_SOURCE_NONE,
                       p_audio_only_mode := False\<rparr>"


text \<open>
  An iteration in which the compositor has no new frame, one in which it hands out the
  two-row surface, and one before which \<open>engine_stop\<close> has set the stop flag. The audio
  sources are idle and every muxer call succeeds.
\<close>

definition no_new_frame :: frame_calls where
  "no_new_frame = two_row_surface\<lparr>acquire := Wait_Timeout\<rparr>"

definition iteration_at :: "DWORD \<Rightarrow> frame_calls \<Rightarrow> bool \<Rightarrow> iteration_env" where
  "iteration_at now frame stop =
     \<lparr>stop_requested = stop, running_cleared = False, params_stop = False, current_time = now,
      frame_os = frame, video_hr = all_calls_ok, system_os = idle_call now True,
      system_hr = all_calls_ok, mic_os = idle_call now True, mic_hr = all_calls_ok\<rparr>"

text \<open>
  A run in which every call of the operating system succeeds, on a display of 1 by 2
  pixels with 48 kHz stereo sources, started at tick 1000, with the given iterations.
\<close>

definition smooth_run :: "iteration_env list \<Rightarrow> engine_env" where
  "smooth_run its =
     \<lparr>screen_init_os = \<lparr>screen_failing_step = None, mode_width = 1, mode_height = 2\<rparr>,
      microphone_init_os = \<lparr>failing_step = None, mix_format = stereo_48k, buffer_size = 2400\<rparr>,
      system_init_os = \<lparr>failing_step = None, mix_format = stereo_48k, buffer_size = 2400\<rparr>,
      mic_probe_start_ok = True, mic_probe_os = (\<lambda>attempt. idle_call 900 True),
      sys_probe_start_ok = True, sys_probe_os = (\<lambda>attempt. idle_call 900 True),
      mic_start_ok = True, sys_start_ok = True, encoder_fails = (\<lambda>step. False),
      start_tick = 1000, iterations = its, stats_tick = 1100, message_tick = 1100,
      finalize_os = finalize_calls_ok\<rparr>"

text \<open>The state of the loop and of the module at the first iteration of a video recording.\<close>

definition first_iteration :: loop_state where
  "first_iteration =
     \<lparr>next_frame_time = 1000, frame_count = 0, failed_frame_attempts = 0,
      consecutive_audio_failures = 0, next_emergency_check = 2000, loop_iterations = 0\<rparr>"

definition capturing_screen :: module_state where
  "capturing_screen = module_state_initial\<lparr>screen_ctx := live_capture\<rparr>"

definition video_only_run :: "(int \<times> capture_engine option \<times> module_state) outcome" where
  "video_only_run =
     engine_start True (Some fresh_engine) (Some video_only_params) module_state_initial
       (smooth_run [iteration_at 1000 two_row_surface False,
                    iteration_at 1040 no_new_frame True])"


section \<open>Properties of the muxer\<close>

subsection \<open>Word arithmetic used by the timestamp computations\<close>

lemma unat_ucast_32_64: "unat (ucast (F :: 32 word) :: 64 word) = unat F"
proof -
  have "unat F < 2 ^ 32" using unsigned_less[of F] by simp
  then have "unat F < 2 ^ 64" by simp
  then show ?thesis by (simp add: unsigned_ucast_eq take_bit_nat_eq_self)
qed

lemma sint_eq_unat_64: "unat (x :: 64 word) < 2 ^ 63 \<Longrightarrow> sint x = int (unat x)"
proof -
  assume a: "unat x < 2 ^ 63"
  have "uint x = int (unat x)" by simp
  moreover have "int (unat x) < 2 ^ 63"
    using a by (metis of_nat_less_numeral_power_cancel_iff)
  moreover have "- (2 ^ 63) \<le> uint x" by (rule order_trans[of _ 0]) simp_all
  ultimately have "signed_take_bit 63 (uint x) = uint x"
    by (intro signed_take_bit_int_eq_self) simp_all
  then show ?thesis by (simp add: sint_uint)
qed

lemma ticks_value:
  fixes F :: "32 word"
  assumes "m * 10000000 < 2 ^ 63"
  shows "sint ((of_nat m * 10000000 :: 64 word) div ucast F) = int (m * 10000000 div unat F)"
proof -
  have "unat (of_nat m * 10000000 :: 64 word) = m * 10000000"
    using assms by (simp add: unat_word_ariths unat_of_nat)
  then have u: "unat ((of_nat m * 10000000 :: 64 word) div ucast F) = m * 10000000 div unat F"
    by (simp add: unat_div unat_ucast_32_64)
  have "m * 10000000 div unat F \<le> m * 10000000" by simp
  with assms have "m * 10000000 div unat F < 2 ^ 63" by linarith
  with u show ?thesis by (simp add: sint_eq_unat_64)
qed

subsection \<open>One submission\<close>

lemma submit_video_ok:
  assumes "encoder_add_video_frame g ctx d n e hr = Inr (0, g')"
  shows "g_video_frame_count g' = g_video_frame_count g + 1"
    and "g_video_fps g' = g_video_fps g"
    and "g_video_width g' = g_video_width g"
    and "g_video_height g' = g_video_height g"
    and "last_written g' = Some (video_stamp g 0)"
  using assms
  by (auto simp: encoder_add_video_frame_def last_written_def write_sample_def Let_def
      video_stamp_def split: option.splits if_splits)

lemma submit_video_fail:
  assumes "encoder_add_video_frame g ctx d n e hr = Inr (r, g')" and "r \<noteq> 0"
  shows "g' = g"
  using assms
  by (auto simp: encoder_add_video_frame_def Let_def split: option.splits if_splits)

lemma submit_audio_keeps_video_clock:
  assumes "\<not> is_video_call c" and "encoder_submit ctx g c = Inr (r, g')"
  shows "g_video_frame_count g' = g_video_frame_count g \<and> g_video_fps g' = g_video_fps g \<and>
     g_video_width g' = g_video_width g \<and> g_video_height g' = g_video_height g"
  using assms
  by (cases c)
     (auto simp: encoder_add_audio_frame_def encoder_add_system_audio_frame_def
        encoder_add_mic_audio_frame_def split: option.splits if_splits prod.splits)

lemma submit_step:
  assumes "encoder_submit ctx g c = Inr (r, g')"
  shows "(is_video_call c \<and> r = 0 \<longrightarrow>
            last_written g' = Some (video_stamp g 0) \<and>
            (\<forall>k. video_stamp g' k = video_stamp g (Suc k)) \<and>
            g_video_frame_count g' = g_video_frame_count g + 1)
       \<and> (\<not> (is_video_call c \<and> r = 0) \<longrightarrow>
            (\<forall>k. video_stamp g' k = video_stamp g k) \<and>
            g_video_frame_count g' = g_video_frame_count g)"
proof (cases "is_video_call c")
  case True
  then obtain d n e hr where c: "c = Add_Video d n e hr" by (cases c) auto
  show ?thesis
  proof (cases "r = 0")
    case True
    with assms c have ok: "encoder_add_video_frame g ctx d n e hr = Inr (0, g')" by simp
    show ?thesis using submit_video_ok[OF ok] True c
      by (simp add: video_stamp_def add.assoc)
  next
    case False
    with assms c have "g' = g" using submit_video_fail by simp
    with False show ?thesis by simp
  qed
next
  case False
  with submit_audio_keeps_video_clock[OF False assms] show ?thesis
    by (simp add: video_stamp_def)
qed

subsection \<open>Runs of submissions\<close>

lemma video_buffers_nth:
  "k < length (video_buffers ctx g calls) \<Longrightarrow>
   video_buffers ctx g calls ! k = Some (video_stamp g k)"
proof (induction calls arbitrary: g k)
  case Nil
  then show ?case by simp
next
  case (Cons c cs)
  show ?case
  proof (cases "encoder_submit ctx g c")
    case (Inl f)
    with Cons.prems show ?thesis by simp
  next
    case (Inr p)
    obtain r g' where p: "p = (r, g')" by (cases p)
    note step = submit_step[OF Inr[unfolded p]]
    show ?thesis
    proof (cases "is_video_call c \<and> r = 0")
      case True
      show ?thesis
      proof (cases k)
        case 0
        with True step Inr p show ?thesis by simp
      next
        case (Suc j)
        with Cons.prems Inr p True have "j < length (video_buffers ctx g' cs)" by simp
        from Cons.IH[OF this] Suc True step Inr p show ?thesis by simp
      qed
    next
      case False
      with Cons.prems Inr p have "k < length (video_buffers ctx g' cs)" by auto
      from Cons.IH[OF this] False step Inr p show ?thesis by auto
    qed
  qed
qed

lemma video_count_run:
  "encoder_submit_all ctx g calls = Inr g' \<Longrightarrow>
   g_video_frame_count g' =
     g_video_frame_count g + of_nat (length (video_buffers ctx g calls))"
proof (induction calls arbitrary: g)
  case Nil
  then show ?case by simp
next
  case (Cons c cs)
  show ?case
  proof (cases "encoder_submit ctx g c")
    case (Inl f)
    with Cons.prems show ?thesis by simp
  next
    case (Inr p)
    obtain r g1 where p: "p = (r, g1)" by (cases p)
    note step = submit_step[OF Inr[unfolded p]]
    from Cons.prems Inr p have "encoder_submit_all ctx g1 cs = Inr g'" by simp
    from Cons.IH[OF this] step Inr p show ?thesis
      by (cases "is_video_call c \<and> r = 0") auto
  qed
qed

text \<open>
  Claim C1, amended. In a recording whose muxer was opened with target frame rate
  \<open>F \<ge> 1\<close> (which covers 1 to 120), the \<open>N\<close>-th video buffer that the muxer accepts,
  that is the buffer of the \<open>N\<close>-th call of \<open>encoder_add_video_frame\<close> that returns 0,
  carries sample time \<open>(N - 1) * 10000000 div F\<close> and duration \<open>10000000 div F\<close>,
  whatever \<open>frame_size\<close>, \<open>elapsed_ms\<close> and outcomes the calls of the run had and
  however audio submissions and rejected calls are interleaved; and the frame counter at the
  end of a run is the number of accepted video buffers: it advances by one for each accepted
  buffer and not at all for a submission that is rejected, whose slot the next accepted
  buffer takes. The product is computed in unsigned 64-bit arithmetic and converted to
  \<open>LONGLONG\<close>; the bound on \<open>N\<close> says that it stays below \<open>2 ^ 63\<close>, which holds for
  the first 922 337 203 685 frames (the orchestrator counts frames in a C \<open>int\<close>).
\<close>

theorem video_timestamp_from_frame_counter:
  assumes "g_video_frame_count g = 0"
    and "1 \<le> unat (g_video_fps g)"
    and "1 \<le> N" and "N \<le> length (video_buffers ctx g calls)"
    and "(N - 1) * 10000000 < 2 ^ 63"
  shows "(\<exists>s. video_buffers ctx g calls ! (N - 1) = Some s \<and>
            sint (sample_time s) = int ((N - 1) * 10000000 div unat (g_video_fps g)) \<and>
            sint (sample_duration s) = int (10000000 div unat (g_video_fps g))) \<and>
         (\<forall>g'. encoder_submit_all ctx g calls = Inr g' \<longrightarrow>
            g_video_frame_count g' = of_nat (length (video_buffers ctx g calls)))"
proof -
  from assms(3,4) have k: "N - 1 < length (video_buffers ctx g calls)" by simp
  have nth: "video_buffers ctx g calls ! (N - 1) = Some (video_stamp g (N - 1))"
    by (rule video_buffers_nth[OF k])
  have t: "sint (sample_time (video_stamp g (N - 1))) =
             int ((N - 1) * 10000000 div unat (g_video_fps g))"
    using ticks_value[OF assms(5), of "g_video_fps g"] assms(1)
    by (simp add: video_stamp_def)
  have "sint ((of_nat 1 * 10000000 :: 64 word) div ucast (g_video_fps g)) =
          int (1 * 10000000 div unat (g_video_fps g))"
    by (rule ticks_value) simp
  then have d: "sint (sample_duration (video_stamp g (N - 1))) =
             int (10000000 div unat (g_video_fps g))"
    by (simp add: video_stamp_def)
  have c: "\<forall>g'. encoder_submit_all ctx g calls = Inr g' \<longrightarrow>
            g_video_frame_count g' = of_nat (length (video_buffers ctx g calls))"
    using video_count_run[of ctx g calls] assms(1) by simp
  from nth t d c show ?thesis by simp
qed

theorem video_timestamp_from_frame_counter_witness:
  "g_video_frame_count recording_g0 = 0 \<and> 1 \<le> unat (g_video_fps recording_g0) \<and>
   (1::nat) \<le> 2 \<and> 2 \<le> length (video_buffers recording_ctx recording_g0 recording_calls) \<and>
   (\<exists>s. video_buffers recording_ctx recording_g0 recording_calls ! 1 = Some s \<and>
        sint (sample_time s) = 333333 \<and> sint (sample_duration s) = 333333) \<and>
   (\<exists>g'. encoder_submit_all recording_ctx recording_g0 recording_calls = Inr g' \<and>
        g_video_frame_count g' = 2)"
proof -
  have len: "length (video_buffers recording_ctx recording_g0 recording_calls) = 2"
    by (simp add: recording_ctx_def recording_g0_def recording_calls_def
        encoder_add_video_frame_def encoder_add_system_audio_frame_def stamp_audio_def
        buffer_prepared_def all_calls_ok_def write_sample_def encoder_globals_initial_def
        encoder_context_zero_def empty_sink_writer_def Let_def)
  have run: "\<exists>g'. encoder_submit_all recording_ctx recording_g0 recording_calls = Inr g'"
    by (simp add: recording_ctx_def recording_g0_def recording_calls_def
        encoder_add_video_frame_def encoder_add_system_audio_frame_def stamp_audio_def
        buffer_prepared_def all_calls_ok_def write_sample_def encoder_globals_initial_def
        encoder_context_zero_def empty_sink_writer_def Let_def)
  have h1: "g_video_frame_count recording_g0 = 0"
    by (simp add: recording_g0_def encoder_globals_initial_def)
  have h2: "1 \<le> unat (g_video_fps recording_g0)"
    by (simp add: recording_g0_def encoder_globals_initial_def)
  have h4: "2 \<le> length (video_buffers recording_ctx recording_g0 recording_calls)"
    using len by simp
  have fps: "unat (g_video_fps recording_g0) = 30"
    by (simp add: recording_g0_def encoder_globals_initial_def)
  show ?thesis
    using video_timestamp_from_frame_counter[of recording_g0 2 recording_ctx recording_calls,
        OF h1 h2 _ h4] h1 h2 len fps run
    by auto
qed

text \<open>
  The claim as it was stated numbers the buffers by submission. A submission for which
  \<open>WriteSample\<close> fails returns \<open>-1\<close> before the counter is advanced, so at 30 frames
  per second the second submitted buffer is stamped 0 and not 333333 when the first was
  rejected, and the counter is 1 after two submissions.
\<close>

theorem second_submission_stamped_zero_after_rejection:
  "length rejected_then_accepted = 2 \<and>
   encoder_submit recording_ctx recording_g0 (rejected_then_accepted ! 0) =
     Inr (-1, recording_g0) \<and>
   video_buffers recording_ctx recording_g0 rejected_then_accepted =
     [Some \<lparr>sample_time = 0, sample_duration = 333333, buffer_length = 32\<rparr>] \<and>
   \<not> isl (encoder_submit_all recording_ctx recording_g0 rejected_then_accepted) \<and>
   g_video_frame_count
     (projr (encoder_submit_all recording_ctx recording_g0 rejected_then_accepted)) = 1"
  by (simp add: rejected_then_accepted_def recording_ctx_def recording_g0_def
        encoder_add_video_frame_def buffer_prepared_def all_calls_ok_def write_sample_def
        encoder_globals_initial_def encoder_context_zero_def empty_sink_writer_def
        last_written_def Let_def)

subsection \<open>Audio timestamps of the dual-track variants\<close>

lemmas muxer_eval =
  encoder_init_dual_track_def encoder_init_audio_only_dual_track_def
  add_dual_audio_streams_def begin_writing_dual_def add_stream_def
  set_input_media_type_def new_sink_writer_def release_sink_writer_def
  include_audio_def video_type_out_def video_type_in_def audio_type_out_def
  audio_type_in_def encoder_globals_initial_def encoder_context_zero_def
  encoder_add_video_frame_def encoder_add_audio_frame_def
  encoder_add_system_audio_frame_def encoder_add_mic_audio_frame_def stamp_audio_def
  buffer_prepared_def all_calls_ok_def write_sample_def stream_samples_def
  declared_output_rate_def Let_def

text \<open>
  Claim C2, evaluated where it fails. Both dual-track muxers are opened for a 48 kHz
  source, so both audio tracks declare 48000 samples per second on their output type. Two
  buffers of 480 frames go to each track. The claim puts the second buffer of a track at
  \<open>480 * 10000000 div 48000 = 100000\<close> ticks with duration 100000; the code, which
  divides by the constant 44100, puts it at 108843 ticks with duration 108843.
\<close>

theorem dual_track_audio_stamped_at_44100:
  "(\<exists>g ctx sw g' sw'.
      dual_track_opened = (0, g, ctx) \<and> g_sink_writer g = Some sw \<and>
      declared_output_rate sw (g_system_audio_stream_index g) = Some 48000 \<and>
      declared_output_rate sw (g_mic_audio_stream_index g) = Some 48000 \<and>
      encoder_submit_all ctx g two_buffers_per_track = Inr g' \<and> g_sink_writer g' = Some sw' \<and>
      map sample_time (stream_samples (g_system_audio_stream_index g') sw') = [0, 108843] \<and>
      map sample_duration (stream_samples (g_system_audio_stream_index g') sw') = [108843, 108843] \<and>
      map sample_time (stream_samples (g_mic_audio_stream_index g') sw') = [0, 108843] \<and>
      map sample_duration (stream_samples (g_mic_audio_stream_index g') sw') = [108843, 108843]) \<and>
   (\<exists>g ctx sw g' sw'.
      audio_only_dual_track_opened = (0, g, ctx) \<and> g_sink_writer g = Some sw \<and>
      declared_output_rate sw (g_system_audio_stream_index g) = Some 48000 \<and>
      declared_output_rate sw (g_mic_audio_stream_index g) = Some 48000 \<and>
      encoder_submit_all ctx g two_buffers_per_track = Inr g' \<and> g_sink_writer g' = Some sw' \<and>
      map sample_time (stream_samples (g_system_audio_stream_index g') sw') = [0, 108843] \<and>
      map sample_duration (stream_samples (g_system_audio_stream_index g') sw') = [108843, 108843] \<and>
      map sample_time (stream_samples (g_mic_audio_stream_index g') sw') = [0, 108843] \<and>
      map sample_duration (stream_samples (g_mic_audio_stream_index g') sw') = [108843, 108843])"
  by (simp add: dual_track_opened_def audio_only_dual_track_opened_def
      two_buffers_per_track_def muxer_eval)

subsection \<open>End-of-stream ticks\<close>

text \<open>
  Claim C4, evaluated where it fails. The dual-track muxer of above receives one video
  frame and one system-audio buffer of 480 frames and is finalized. The video clock then
  stands at \<open>1 * 10000000 div 30 = 333333\<close> ticks, but the video tick carries
  \<open>g_last_video_timestamp\<close>, which no function assigns: it is 0. The system-audio
  track was stamped at 44100 Hz, which puts its clock at 108843 ticks, but its tick is
  computed from \<open>g_audio_sample_rate = 48000\<close>: it is 100000.
\<close>

theorem end_of_stream_ticks_off_the_sample_clock:
  "\<exists>g ctx g1 g2 ctx2 sw2.
      dual_track_opened = (0, g, ctx) \<and>
      encoder_submit_all ctx g one_frame_one_buffer = Inr g1 \<and>
      g_video_frame_count g1 = 1 \<and> g_system_audio_sample_count g1 = 480 \<and>
      encoder_finalize g1 ctx finalize_calls_ok = Inr (0, g2, ctx2) \<and>
      g_sink_writer g2 = Some sw2 \<and>
      ticks sw2 = [(g_video_stream_index g2, 0), (g_system_audio_stream_index g2, 100000)] \<and>
      (g_video_frame_count g2 * 10000000) div ucast (g_video_fps g2) = 333333 \<and>
      (g_system_audio_sample_count g2 * 10000000) div 44100 = 108843"
  by (simp add: dual_track_opened_def one_frame_one_buffer_def muxer_eval
      encoder_finalize_def audio_ticks_def audio_end_of_stream_def tick_if_def
      send_stream_tick_def finalize_calls_ok_def)

section \<open>Properties of the audio sources\<close>

subsection \<open>Word arithmetic of the silence computation\<close>

lemma unat_32_lt_64: "unat (x :: 32 word) < 2 ^ 32"
  using unsigned_less[of x] by simp

lemma expected_word:
  fixes rate el :: "32 word"
  shows "unat ((ucast rate * ucast el) div (1000 :: 64 word)) = unat rate * unat el div 1000"
proof -
  have r: "unat rate < 2 ^ 32" and e: "unat el < 2 ^ 32" by (rule unat_32_lt_64)+
  have "unat rate * unat el < 2 ^ 32 * 2 ^ 32"
    by (rule mult_strict_mono) (use r e in simp_all)
  then have "unat rate * unat el < 2 ^ 64" by simp
  then have "unat (ucast rate * ucast el :: 64 word) = unat rate * unat el"
    by (simp add: unat_word_ariths unat_ucast_32_64)
  then show ?thesis by (simp add: unat_div)
qed

lemma chunk_word:
  fixes rate :: "32 word"
  assumes "unat rate * 50 < 2 ^ 32"
  shows "unat ((rate * 50) div (1000 :: 32 word)) = unat rate * 50 div 1000"
proof -
  have "unat (rate * 50) = unat rate * 50"
    using assms by (simp add: unat_word_ariths)
  then show ?thesis by (simp add: unat_div)
qed

lemma ucast_64_32_small:
  fixes w :: "64 word"
  assumes "unat w < 2 ^ 32"
  shows "unat (ucast w :: 32 word) = unat w"
  using assms by (simp add: unsigned_ucast_eq take_bit_nat_eq_self)

lemma bytes_word:
  fixes frames :: "32 word" and ba :: "16 word"
  assumes "unat frames * unat ba < 2 ^ 32"
  shows "unat (frames * ucast ba) = unat frames * unat ba"
proof -
  have "unat ba < 2 ^ 16" using unsigned_less[of ba] by simp
  then have "unat ba < 2 ^ 32" by simp
  then have "unat (ucast ba :: 32 word) = unat ba"
    by (simp add: unsigned_ucast_eq take_bit_nat_eq_self)
  with assms show ?thesis by (simp add: unat_word_ariths)
qed

lemma latch_eq:
  "(if recording_start_time st = 0
    then st\<lparr>recording_start_time := now, total_generated_samples := 0\<rparr> else st) = latch st now"
  by (simp add: latch_def latched_start_time_def latched_total_def)

lemma latch_sel [simp]:
  "recording_start_time (latch st now) = latched_start_time st now"
  "total_generated_samples (latch st now) = latched_total st"
  "silent_buffer (latch st now) = silent_buffer st"
  "silent_buffer_size (latch st now) = silent_buffer_size st"
  by (simp_all add: latch_def)

lemma take_memset_zero:
  "n \<le> length block \<Longrightarrow> take n (memset_zero n block) = replicate n 0"
  by (simp add: memset_zero_def min_def)

lemma memset_zero_replicate [simp]: "memset_zero k (replicate k 0) = replicate k 0"
  by (simp add: memset_zero_def)

lemma length_memset_zero [simp]: "length (memset_zero n block) = length block"
  by (simp add: memset_zero_def min_def)

lemma synthesize_silence_policy:
  assumes fmt: "wave_format ctx = Some fmt"
    and pf: "plausible_format fmt"
    and intact: "silence_buffer_intact st"
  shows "silence_policy fmt ctx st now ok
           (case synthesize_silence ctx st now ok of
              Inl f \<Rightarrow> Inl f | Inr (r, c, s) \<Rightarrow> Inr (r, Some c, s))"
proof -
  define start where "start = latched_start_time st now"
  define T where "T = latched_total st"
  define E where "E = expected_total_samples fmt start now"
  define F :: "32 word" where "F = ucast (samples_needed fmt E T)"
  define B where "B = bytes_needed fmt F"
  define n where "n = frames_due fmt st now"
  have uE: "unat E = expected_samples fmt start now"
    by (simp add: E_def expected_total_samples_def expected_samples_def expected_word)
  have uM: "unat (max_chunk_samples fmt) = chunk_limit fmt"
    using pf by (simp add: max_chunk_samples_def chunk_limit_def plausible_format_def chunk_word)
  have le_iff: "E \<le> T \<longleftrightarrow> expected_samples fmt start now \<le> unat T"
    by (simp add: word_le_nat_alt uE)
  show ?thesis
  proof (cases "E \<le> T")
    case True
    then show ?thesis
      using le_iff
      by (simp add: synthesize_silence_def latch_eq fmt Let_def silence_policy_def
          start_def[symmetric] T_def[symmetric] E_def[symmetric])
  next
    case False
    then have lt: "unat T < unat E" by (simp add: word_le_nat_alt)
    then have uD: "unat (E - T) = unat E - unat T"
      by (simp add: unat_sub word_le_nat_alt)
    have uS: "unat (samples_needed fmt E T) = min (unat (E - T)) (unat (max_chunk_samples fmt))"
      by (simp add: samples_needed_def word_less_nat_alt unat_ucast_32_64 min_def)
    have nS: "unat (samples_needed fmt E T) = n"
      by (simp add: uS uD uE uM n_def frames_due_def start_def[symmetric] T_def[symmetric])
    have nc: "n \<le> chunk_limit fmt" by (simp add: n_def frames_due_def)
    moreover have "chunk_limit fmt < 2 ^ 32"
      using uM unat_32_lt_64[of "max_chunk_samples fmt"] by simp
    ultimately have n32: "n < 2 ^ 32" by simp
    have uF: "unat F = n"
      using n32 nS by (simp add: F_def ucast_64_32_small)
    have "(of_nat (unat F) :: 32 word) = of_nat n" by (simp only: uF)
    then have F: "F = of_nat n" by simp
    have "(of_nat (unat F) :: 64 word) = of_nat n" by (simp only: uF)
    then have "(ucast F :: 64 word) = of_nat n" by simp
    then have cF: "(ucast (of_nat n :: 32 word) :: 64 word) = of_nat n" by (simp only: F)
    have npos: "0 < n"
      using lt pf
      by (simp add: n_def frames_due_def uE[symmetric] start_def[symmetric] T_def[symmetric]
          plausible_format_def)
    have "n * unat (nBlockAlign fmt) \<le> chunk_limit fmt * unat (nBlockAlign fmt)"
      using nc by simp
    moreover have "chunk_limit fmt * unat (nBlockAlign fmt) < 2 ^ 32"
      using pf by (simp add: plausible_format_def)
    ultimately have "n * unat (nBlockAlign fmt) < 2 ^ 32"
      by (rule le_less_trans)
    then have uB: "unat B = n * unat (nBlockAlign fmt)"
      by (simp add: B_def bytes_needed_def bytes_word uF)
    have Bpos: "0 < unat B" using npos pf by (simp add: uB plausible_format_def)
    have lt_iff: "silent_buffer_size st < B \<longleftrightarrow>
        unat (silent_buffer_size st) < n * unat (nBlockAlign fmt)"
      by (simp add: word_less_nat_alt uB)
    have nle: "\<not> expected_samples fmt start now \<le> unat T" using False le_iff by simp
    have syn: "synthesize_silence ctx st now ok =
       (if silent_buffer_size st < B \<and> \<not> ok
        then Inr (\<lparr>result = -1, data = None, num_frames = 0\<rparr>, ctx,
                  (latch st now)\<lparr>silent_buffer := None\<rparr>)
        else if silent_buffer_size st < B
        then Inr (\<lparr>result = 0, data = Some Silent_Buffer, num_frames = F\<rparr>,
                  ctx\<lparr>using_silent_buffer := True\<rparr>,
                  (latch st now)\<lparr>silent_buffer := Some (memset_zero (unat B) (replicate (unat B) 0)),
                     silent_buffer_size := B,
                     total_generated_samples := T + ucast F\<rparr>)
        else (case silent_buffer st of
                None \<Rightarrow> if B = 0
                   then Inr (\<lparr>result = 0, data = None, num_frames = F\<rparr>,
                             ctx\<lparr>using_silent_buffer := True\<rparr>,
                             (latch st now)\<lparr>total_generated_samples := T + ucast F\<rparr>)
                   else Inl NullPointer
              | Some block \<Rightarrow>
                  Inr (\<lparr>result = 0, data = Some Silent_Buffer, num_frames = F\<rparr>,
                       ctx\<lparr>using_silent_buffer := True\<rparr>,
                       (latch st now)\<lparr>silent_buffer := Some (memset_zero (unat B) block),
                          total_generated_samples := T + ucast F\<rparr>)))"
      using False
      by (simp add: synthesize_silence_def latch_eq fmt Let_def
          start_def[symmetric] T_def[symmetric] E_def[symmetric] F_def[symmetric] B_def[symmetric]
          cong: option.case_cong)
    show ?thesis
    proof (cases "silent_buffer_size st < B")
      case grow: True
      show ?thesis
      proof (cases ok)
        case True
        have res: "synthesize_silence ctx st now ok =
            Inr (\<lparr>result = 0, data = Some Silent_Buffer, num_frames = F\<rparr>,
                  ctx\<lparr>using_silent_buffer := True\<rparr>,
                  (latch st now)\<lparr>silent_buffer := Some (memset_zero (unat B) (replicate (unat B) 0)),
                     silent_buffer_size := B,
                     total_generated_samples := T + ucast F\<rparr>)"
          by (subst syn) (simp add: True grow)
        show ?thesis
          unfolding res using nle grow lt_iff True
          by (simp add: silence_policy_def Let_def start_def[symmetric] T_def[symmetric]
              n_def[symmetric] F uB cF silence_buffer_intact_def
              audio_source_release_buffer_def take_memset_zero split: option.splits)
      next
        case no: False
        have res: "synthesize_silence ctx st now ok =
            Inr (\<lparr>result = -1, data = None, num_frames = 0\<rparr>, ctx,
                  (latch st now)\<lparr>silent_buffer := None\<rparr>)"
          by (subst syn) (simp add: no grow)
        show ?thesis
          unfolding res using nle grow lt_iff no
          by (simp add: silence_policy_def Let_def start_def[symmetric] T_def[symmetric]
              n_def[symmetric])
      qed
    next
      case keep: False
      then have sz: "unat B \<le> unat (silent_buffer_size st)" by (simp add: word_less_nat_alt)
      with Bpos have "silent_buffer_size st \<noteq> 0" by auto
      with intact obtain block where blk: "silent_buffer st = Some block"
        and len: "length block = unat (silent_buffer_size st)"
        by (auto simp: silence_buffer_intact_def split: option.splits)
      have res: "synthesize_silence ctx st now ok =
            Inr (\<lparr>result = 0, data = Some Silent_Buffer, num_frames = F\<rparr>,
                       ctx\<lparr>using_silent_buffer := True\<rparr>,
                       (latch st now)\<lparr>silent_buffer := Some (memset_zero (unat B) block),
                          total_generated_samples := T + ucast F\<rparr>)"
        by (subst syn) (simp add: keep blk)
      show ?thesis
        unfolding res using nle keep lt_iff blk len sz
        by (simp add: silence_policy_def Let_def start_def[symmetric] T_def[symmetric]
            n_def[symmetric] F uB cF silence_buffer_intact_def
            audio_source_release_buffer_def take_memset_zero split: option.splits)
    qed
  qed
qed

lemma intact_count_silent_call [simp]:
  "silence_buffer_intact (count_silent_call st now) = silence_buffer_intact st"
  by (simp add: silence_buffer_intact_def count_silent_call_def split: option.splits)

text \<open>
  Claim C5, amended. On a call of \<open>microphone_get_buffer\<close> or \<open>system_get_buffer\<close>
  that finds a zero-size next packet, for a mix format whose 32-bit products do not wrap
  and as long as no allocation of the silent buffer has failed before: the start time is
  latched and the counter cleared if the start time was 0 (as on the first call); the
  expected count is \<open>sample_rate * (now - start_time) div 1000\<close>; the call returns no
  buffer when the counter has reached it; when the static buffer must grow and
  \<open>malloc\<close> fails it returns \<open>-1\<close> with no buffer and advances nothing; otherwise it
  returns exactly \<open>min (expected - total_generated_samples) (sample_rate * 50 div 1000)\<close>
  zero-filled frames in the static buffer, advances the counter by that count, and marks
  the buffer as synthesized, so that its release changes nothing. The loopback source
  counts the call first.
\<close>

theorem silence_synthesis_policy:
  assumes "capture_client ctx \<noteq> None" and "is_capturing ctx"
    and "wave_format ctx = Some fmt" and "plausible_format fmt"
    and "next_packet_size os = Some 0"
    and "silence_buffer_intact mic" and "silence_buffer_intact sys"
  shows "silence_policy fmt ctx mic (tick_count os) (malloc_ok os)
           (microphone_get_buffer (Some ctx) mic d0 f0 os) \<and>
         silence_policy fmt ctx (count_silent_call sys (tick_count os)) (tick_count os)
           (malloc_ok os) (system_get_buffer (Some ctx) sys d0 f0 os)"
proof -
  have m: "microphone_get_buffer (Some ctx) mic d0 f0 os =
      (case synthesize_silence ctx mic (tick_count os) (malloc_ok os) of
         Inl f \<Rightarrow> Inl f | Inr (r, c, s) \<Rightarrow> Inr (r, Some c, s))"
    using assms(1,2,5) by (auto simp: microphone_get_buffer_def)
  have s: "system_get_buffer (Some ctx) sys d0 f0 os =
      (case synthesize_silence ctx (count_silent_call sys (tick_count os)) (tick_count os)
              (malloc_ok os) of
         Inl f \<Rightarrow> Inl f | Inr (r, c, s) \<Rightarrow> Inr (r, Some c, s))"
    using assms(1,2,5) by (auto simp: system_get_buffer_def)
  have i: "silence_buffer_intact (count_silent_call sys (tick_count os))"
    using assms(7) by simp
  show ?thesis
    unfolding m s
    using synthesize_silence_policy[OF assms(3,4,6)] synthesize_silence_policy[OF assms(3,4) i]
    by simp
qed

lemma plausible_stereo_48k: "plausible_format stereo_48k"
  by (simp add: plausible_format_def chunk_limit_def stereo_48k_def)

theorem silence_synthesis_policy_witness:
  "capture_client capturing_context \<noteq> None \<and> is_capturing capturing_context \<and>
   wave_format capturing_context = Some stereo_48k \<and> plausible_format stereo_48k \<and>
   next_packet_size (idle_call 1010 True) = Some 0 \<and>
   silence_buffer_intact latched_at_1000 \<and> silence_buffer_intact system_latched_at_1000 \<and>
   frames_due stereo_48k latched_at_1000 1010 = 480 \<and>
   silence_policy stereo_48k capturing_context latched_at_1000 1010 True
     (microphone_get_buffer (Some capturing_context) latched_at_1000 None 0 (idle_call 1010 True)) \<and>
   silence_policy stereo_48k capturing_context (count_silent_call system_latched_at_1000 1010)
     1010 True
     (system_get_buffer (Some capturing_context) system_latched_at_1000 None 0
        (idle_call 1010 True))"
proof -
  have h1: "capture_client capturing_context \<noteq> None" by (simp add: capturing_context_def)
  have h2: "is_capturing capturing_context" by (simp add: capturing_context_def)
  have h3: "wave_format capturing_context = Some stereo_48k" by (simp add: capturing_context_def)
  have h5: "next_packet_size (idle_call 1010 True) = Some 0" by (simp add: idle_call_def)
  have h6: "silence_buffer_intact latched_at_1000"
    by (simp add: silence_buffer_intact_def latched_at_1000_def)
  have h7: "silence_buffer_intact system_latched_at_1000"
    by (simp add: silence_buffer_intact_def system_latched_at_1000_def)
  have due: "frames_due stereo_48k latched_at_1000 1010 = 480"
    by (simp add: frames_due_def expected_samples_def chunk_limit_def latched_start_time_def
        latched_total_def latched_at_1000_def stereo_48k_def)
  have t: "tick_count (idle_call 1010 True) = 1010" "malloc_ok (idle_call 1010 True)"
    by (simp_all add: idle_call_def)
  show ?thesis
    using silence_synthesis_policy[OF h1 h2 h3 plausible_stereo_48k h5 h6 h7, of None 0]
      h1 h2 h3 plausible_stereo_48k h5 h6 h7 due t
    by simp
qed

text \<open>
  The claim as it stands fails when the allocation does: ten milliseconds after the start
  time was latched 480 frames are due, no buffer exists yet, \<open>malloc\<close> fails, and the
  call returns \<open>-1\<close> with no frames.
\<close>

theorem silence_synthesis_allocation_failure:
  "frames_due stereo_48k latched_at_1000 1010 = 480 \<and>
   microphone_get_buffer (Some capturing_context) latched_at_1000 None 0 (idle_call 1010 False) =
     Inr (\<lparr>result = -1, data = None, num_frames = 0\<rparr>, Some capturing_context, latched_at_1000)"
  by (simp add: frames_due_def expected_samples_def chunk_limit_def latched_start_time_def
      latched_total_def latched_at_1000_def stereo_48k_def microphone_get_buffer_def
      capturing_context_def idle_call_def synthesize_silence_def expected_total_samples_def
      samples_needed_def max_chunk_samples_def bytes_needed_def Let_def)

subsection \<open>The start time over the life of the process\<close>

lemma synthesize_silence_start:
  assumes "synthesize_silence ctx st now ok = Inr (r, c, st')"
  shows "recording_start_time st' = latched_start_time st now"
  using assms unfolding synthesize_silence_def latch_eq
  by (auto simp: Let_def split: option.splits if_splits)

lemma synthesize_silence_outcome:
  assumes "synthesize_silence ctx st now ok = Inr (r, c, st')"
    and "wave_format ctx = Some fmt" and "recording_start_time st \<noteq> 0"
  shows "idle_outcome_from fmt (recording_start_time st) (total_generated_samples st) now r"
proof -
  have l: "latched_start_time st now = recording_start_time st"
     "latched_total st = total_generated_samples st"
    using assms(3) by (simp_all add: latched_start_time_def latched_total_def)
  show ?thesis
    using assms(1) unfolding synthesize_silence_def latch_eq
    by (auto simp: Let_def assms(2) l idle_outcome_from_def split: option.splits if_splits)
qed

lemma microphone_get_buffer_start:
  assumes "microphone_get_buffer c st d n os = Inr (r, c', st')"
    and "recording_start_time st \<noteq> 0"
  shows "recording_start_time st' = recording_start_time st"
proof (cases "\<exists>ctx. c = Some ctx \<and> capture_client ctx \<noteq> None \<and> is_capturing ctx \<and>
                 next_packet_size os = Some 0")
  case True
  then obtain ctx where c: "c = Some ctx" "capture_client ctx \<noteq> None" "is_capturing ctx"
      "next_packet_size os = Some 0" by blast
  with assms(1) obtain c1 where
    "synthesize_silence ctx st (tick_count os) (malloc_ok os) = Inr (r, c1, st')"
    by (auto simp: microphone_get_buffer_def split: sum.splits)
  from synthesize_silence_start[OF this] assms(2) show ?thesis
    by (simp add: latched_start_time_def)
next
  case False
  with assms(1) have "st' = st"
    by (auto simp: microphone_get_buffer_def split: option.splits if_splits sum.splits)
  then show ?thesis by simp
qed

lemma system_get_buffer_start:
  assumes "system_get_buffer c st d n os = Inr (r, c', st')"
    and "recording_start_time st \<noteq> 0"
  shows "recording_start_time st' = recording_start_time st"
proof (cases "\<exists>ctx. c = Some ctx \<and> capture_client ctx \<noteq> None \<and> is_capturing ctx \<and>
                 next_packet_size os = Some 0")
  case True
  then obtain ctx where c: "c = Some ctx" "capture_client ctx \<noteq> None" "is_capturing ctx"
      "next_packet_size os = Some 0" by blast
  with assms(1) obtain c1 where
    "synthesize_silence ctx (count_silent_call st (tick_count os)) (tick_count os)
       (malloc_ok os) = Inr (r, c1, st')"
    by (auto simp: system_get_buffer_def split: sum.splits)
  from synthesize_silence_start[OF this] assms(2) show ?thesis
    by (simp add: latched_start_time_def count_silent_call_def)
next
  case False
  with assms(1) have "st' = st"
    by (auto simp: system_get_buffer_def split: option.splits if_splits sum.splits)
  then show ?thesis by simp
qed

lemma microphone_call_start:
  assumes "microphone_call (c, st) x = Inr (c', st')" and "recording_start_time st \<noteq> 0"
  shows "recording_start_time st' = recording_start_time st"
  using assms microphone_get_buffer_start
  by (cases x) (auto split: sum.splits)

lemma system_call_start:
  assumes "system_call (c, st) x = Inr (c', st')" and "recording_start_time st \<noteq> 0"
  shows "recording_start_time st' = recording_start_time st"
  using assms system_get_buffer_start
  by (cases x) (auto split: sum.splits)

lemma microphone_calls_start:
  "microphone_calls (c, st) xs = Inr (c', st') \<Longrightarrow> recording_start_time st \<noteq> 0 \<Longrightarrow>
   recording_start_time st' = recording_start_time st"
proof (induction xs arbitrary: c st)
  case Nil
  then show ?case by simp
next
  case (Cons x xs)
  from Cons.prems(1) obtain c1 st1 where step: "microphone_call (c, st) x = Inr (c1, st1)"
    and rest: "microphone_calls (c1, st1) xs = Inr (c', st')"
    by (auto split: sum.splits)
  from microphone_call_start[OF step Cons.prems(2)] Cons.IH[OF rest] Cons.prems(2)
  show ?case by simp
qed

lemma system_calls_start:
  "system_calls (c, st) xs = Inr (c', st') \<Longrightarrow> recording_start_time st \<noteq> 0 \<Longrightarrow>
   recording_start_time st' = recording_start_time st"
proof (induction xs arbitrary: c st)
  case Nil
  then show ?case by simp
next
  case (Cons x xs)
  from Cons.prems(1) obtain c1 st1 where step: "system_call (c, st) x = Inr (c1, st1)"
    and rest: "system_calls (c1, st1) xs = Inr (c', st')"
    by (auto split: sum.splits)
  from system_call_start[OF step Cons.prems(2)] Cons.IH[OF rest] Cons.prems(2)
  show ?case by simp
qed

lemma microphone_idle_call:
  assumes "microphone_get_buffer (Some ctx) st d n os = Inr (r, c', st')"
    and "capture_client ctx \<noteq> None" and "is_capturing ctx" and "next_packet_size os = Some 0"
  shows "\<exists>c. synthesize_silence ctx st (tick_count os) (malloc_ok os) = Inr (r, c, st')"
  using assms by (auto simp: microphone_get_buffer_def split: sum.splits)

lemma system_idle_call:
  assumes "system_get_buffer (Some ctx) st d n os = Inr (r, c', st')"
    and "capture_client ctx \<noteq> None" and "is_capturing ctx" and "next_packet_size os = Some 0"
  shows "\<exists>c. synthesize_silence ctx (count_silent_call st (tick_count os)) (tick_count os)
            (malloc_ok os) = Inr (r, c, st')"
  using assms by (auto simp: system_get_buffer_def split: sum.splits)

text \<open>
  Claim C10, amended. The start time of the silence computation is a function static that
  no function but \<open>get_buffer\<close> can reach. When the first idle call of the process reads
  a tick count other than 0, that tick count stays the start time through every later call
  of the source's functions, in any order: stop, cleanup, a new initialisation and start,
  more calls of \<open>get_buffer\<close>. An idle call made after them, in a later recording as
  well, computes its expected count from that first tick count. (An idle call that reads
  the tick count 0 leaves the start time at 0, and the next idle call latches again.)
\<close>

theorem start_time_latched_once:
  assumes "microphone_get_buffer (Some mctx) microphone_statics_initial d1 n1 mos =
             Inr (mr1, mc1, mst1)"
    and "capture_client mctx \<noteq> None" and "is_capturing mctx"
    and "next_packet_size mos = Some 0" and "tick_count mos \<noteq> 0"
    and "microphone_calls (mc1, mst1) mcalls = Inr (Some mctx2, mst2)"
    and "microphone_get_buffer (Some mctx2) mst2 d2 n2 mos2 = Inr (mr2, mc3, mst3)"
    and "capture_client mctx2 \<noteq> None" and "is_capturing mctx2"
    and "wave_format mctx2 = Some mfmt" and "next_packet_size mos2 = Some 0"
    and "system_get_buffer (Some sctx) system_statics_initial d3 n3 sos =
             Inr (sr1, sc1, sst1)"
    and "capture_client sctx \<noteq> None" and "is_capturing sctx"
    and "next_packet_size sos = Some 0" and "tick_count sos \<noteq> 0"
    and "system_calls (sc1, sst1) scalls = Inr (Some sctx2, sst2)"
    and "system_get_buffer (Some sctx2) sst2 d4 n4 sos2 = Inr (sr2, sc3, sst3)"
    and "capture_client sctx2 \<noteq> None" and "is_capturing sctx2"
    and "wave_format sctx2 = Some sfmt" and "next_packet_size sos2 = Some 0"
  shows "recording_start_time mst2 = tick_count mos \<and>
         idle_outcome_from mfmt (tick_count mos) (total_generated_samples mst2)
           (tick_count mos2) mr2 \<and>
         recording_start_time sst2 = tick_count sos \<and>
         idle_outcome_from sfmt (tick_count sos) (total_generated_samples sst2)
           (tick_count sos2) sr2"
proof -
  obtain c where "synthesize_silence mctx microphone_statics_initial (tick_count mos)
      (malloc_ok mos) = Inr (mr1, c, mst1)"
    using microphone_idle_call[OF assms(1-4)] by blast
  from synthesize_silence_start[OF this]
  have m1: "recording_start_time mst1 = tick_count mos"
    by (simp add: latched_start_time_def microphone_statics_initial_def)
  with assms(5) have m1': "recording_start_time mst1 \<noteq> 0" by simp
  from microphone_calls_start[OF assms(6) m1'] m1
  have m2: "recording_start_time mst2 = tick_count mos" by simp
  with assms(5) have m2': "recording_start_time mst2 \<noteq> 0" by simp
  obtain c' where "synthesize_silence mctx2 mst2 (tick_count mos2) (malloc_ok mos2) =
      Inr (mr2, c', mst3)"
    using microphone_idle_call[OF assms(7,8,9,11)] by blast
  from synthesize_silence_outcome[OF this assms(10) m2'] m2
  have mo: "idle_outcome_from mfmt (tick_count mos) (total_generated_samples mst2)
      (tick_count mos2) mr2" by simp
  obtain c where "synthesize_silence sctx (count_silent_call system_statics_initial (tick_count sos))
      (tick_count sos) (malloc_ok sos) = Inr (sr1, c, sst1)"
    using system_idle_call[OF assms(12-15)] by blast
  from synthesize_silence_start[OF this]
  have s1: "recording_start_time sst1 = tick_count sos"
    by (simp add: latched_start_time_def system_statics_initial_def count_silent_call_def)
  with assms(16) have s1': "recording_start_time sst1 \<noteq> 0" by simp
  from system_calls_start[OF assms(17) s1'] s1
  have s2: "recording_start_time sst2 = tick_count sos" by simp
  with assms(16) have s2': "recording_start_time (count_silent_call sst2 (tick_count sos2)) \<noteq> 0"
    by (simp add: count_silent_call_def)
  obtain c' where "synthesize_silence sctx2 (count_silent_call sst2 (tick_count sos2))
      (tick_count sos2) (malloc_ok sos2) = Inr (sr2, c', sst3)"
    using system_idle_call[OF assms(18,19,20,22)] by blast
  from synthesize_silence_outcome[OF this assms(21) s2'] s2
  have so: "idle_outcome_from sfmt (tick_count sos) (total_generated_samples sst2)
      (tick_count sos2) sr2" by (simp add: count_silent_call_def)
  from m2 mo s2 so show ?thesis by simp
qed

lemmas source_eval =
  microphone_get_buffer_def system_get_buffer_def synthesize_silence_def
  expected_total_samples_def samples_needed_def max_chunk_samples_def bytes_needed_def
  count_silent_call_def capturing_context_def idle_call_def stereo_48k_def
  latched_at_1000_def system_latched_at_1000_def microphone_statics_initial_def
  system_statics_initial_def Let_def

lemmas source_life_eval =
  second_recording_def microphone_init_def system_init_def audio_source_init_def
  microphone_start_capture_def system_start_capture_def audio_source_start_capture_def
  microphone_stop_capture_def system_stop_capture_def audio_source_stop_capture_def
  microphone_cleanup_def system_cleanup_def audio_source_cleanup_def
  audio_context_zero_def capturing_context_def stereo_48k_def

lemma microphone_first_idle_call:
  "microphone_get_buffer (Some capturing_context) microphone_statics_initial None 0
     (idle_call 1000 True) =
   Inr (\<lparr>result = 0, data = None, num_frames = 0\<rparr>, Some capturing_context, latched_at_1000)"
  by (simp add: source_eval)

lemma system_first_idle_call:
  "system_get_buffer (Some capturing_context) system_statics_initial None 0
     (idle_call 1000 True) =
   Inr (\<lparr>result = 0, data = None, num_frames = 0\<rparr>, Some capturing_context,
        system_latched_at_1000)"
  by (simp add: source_eval)

lemma microphone_second_recording:
  "microphone_calls (Some capturing_context, latched_at_1000) second_recording =
   Inr (Some capturing_context, latched_at_1000)"
  by (simp add: source_life_eval)

lemma system_second_recording:
  "system_calls (Some capturing_context, system_latched_at_1000) second_recording =
   Inr (Some capturing_context, system_latched_at_1000)"
  by (simp add: source_life_eval)

lemma microphone_later_idle_call:
  "microphone_get_buffer (Some capturing_context) latched_at_1000 None 0 (idle_call 1010 True) =
   Inr (\<lparr>result = 0, data = Some Silent_Buffer, num_frames = 480\<rparr>,
        Some (capturing_context\<lparr>using_silent_buffer := True\<rparr>),
        latched_at_1000\<lparr>silent_buffer := Some (replicate 3840 0), silent_buffer_size := 3840,
          total_generated_samples := 480\<rparr>)"
  by (simp add: source_eval)

lemma system_later_idle_call:
  "system_get_buffer (Some capturing_context) system_latched_at_1000 None 0
     (idle_call 1010 True) =
   Inr (\<lparr>result = 0, data = Some Silent_Buffer, num_frames = 480\<rparr>,
        Some (capturing_context\<lparr>using_silent_buffer := True\<rparr>),
        system_latched_at_1000\<lparr>silent_buffer := Some (replicate 3840 0),
          silent_buffer_size := 3840, total_generated_samples := 480, silent_call_count := 2\<rparr>)"
  by (simp add: source_eval)

theorem start_time_latched_once_witness:
  "tick_count (idle_call 1000 True) \<noteq> 0 \<and>
   microphone_get_buffer (Some capturing_context) microphone_statics_initial None 0
     (idle_call 1000 True) =
     Inr (\<lparr>result = 0, data = None, num_frames = 0\<rparr>, Some capturing_context, latched_at_1000) \<and>
   microphone_calls (Some capturing_context, latched_at_1000) second_recording =
     Inr (Some capturing_context, latched_at_1000) \<and>
   system_get_buffer (Some capturing_context) system_statics_initial None 0
     (idle_call 1000 True) =
     Inr (\<lparr>result = 0, data = None, num_frames = 0\<rparr>, Some capturing_context,
          system_latched_at_1000) \<and>
   system_calls (Some capturing_context, system_latched_at_1000) second_recording =
     Inr (Some capturing_context, system_latched_at_1000) \<and>
   recording_start_time latched_at_1000 = 1000 \<and>
   idle_outcome_from stereo_48k 1000 (total_generated_samples latched_at_1000) 1010
     \<lparr>result = 0, data = Some Silent_Buffer, num_frames = 480\<rparr> \<and>
   recording_start_time system_latched_at_1000 = 1000 \<and>
   idle_outcome_from stereo_48k 1000 (total_generated_samples system_latched_at_1000) 1010
     \<lparr>result = 0, data = Some Silent_Buffer, num_frames = 480\<rparr>"
proof -
  have c: "capture_client capturing_context \<noteq> None" "is_capturing capturing_context"
      "wave_format capturing_context = Some stereo_48k"
    by (simp_all add: capturing_context_def)
  have o: "next_packet_size (idle_call 1000 True) = Some 0"
      "next_packet_size (idle_call 1010 True) = Some 0"
      "tick_count (idle_call 1000 True) \<noteq> 0"
    by (simp_all add: idle_call_def)
  have t: "tick_count (idle_call 1000 True) = 1000" "tick_count (idle_call 1010 True) = 1010"
    by (simp_all add: idle_call_def)
  show ?thesis
    using start_time_latched_once[OF microphone_first_idle_call c(1,2) o(1,3)
        microphone_second_recording microphone_later_idle_call c(1,2,3) o(2)
        system_first_idle_call c(1,2) o(1,3)
        system_second_recording system_later_idle_call c(1,2,3) o(2)]
      microphone_first_idle_call microphone_second_recording
      system_first_idle_call system_second_recording o(3) t
    by simp
qed

text \<open>
  The claim as it stands fails when the first idle call reads the tick count 0: the
  statics are as before the call, and an idle call one second later latches its own tick
  count and finds nothing to generate, where a computation from the start time 0 expects
  48000 samples.
\<close>

theorem start_time_relatched_after_tick_zero:
  "microphone_get_buffer (Some capturing_context) microphone_statics_initial None 0
     (idle_call 0 True) =
     Inr (\<lparr>result = 0, data = None, num_frames = 0\<rparr>, Some capturing_context,
          microphone_statics_initial) \<and>
   microphone_get_buffer (Some capturing_context) microphone_statics_initial None 0
     (idle_call 1000 True) =
     Inr (\<lparr>result = 0, data = None, num_frames = 0\<rparr>, Some capturing_context, latched_at_1000) \<and>
   recording_start_time latched_at_1000 = 1000 \<and>
   expected_total_samples stereo_48k 0 1000 = 48000 \<and>
   \<not> idle_outcome_from stereo_48k 0 0 1000 \<lparr>result = 0, data = None, num_frames = 0\<rparr>"
  by (simp add: source_eval idle_outcome_from_def)

section \<open>The screen source\<close>

lemma memcpy_bytes_in_range:
  assumes "doff + n \<le> length dst" and "soff + n \<le> length src"
  shows "\<exists>dst'. memcpy_bytes dst doff src soff n = Inr dst' \<and> length dst' = length dst \<and>
           (\<forall>i < length dst. dst' ! i =
              (if doff \<le> i \<and> i < doff + n then src ! (soff + (i - doff)) else dst ! i))"
proof -
  define pre where "pre = take doff dst"
  define mid where "mid = take n (drop soff src)"
  define post where "post = drop (doff + n) dst"
  define d where "d = pre @ mid @ post"
  have lp: "length pre = doff" using assms(1) by (simp add: pre_def)
  have lm: "length mid = n" using assms(2) by (simp add: mid_def)
  have lq: "length post = length dst - (doff + n)" by (simp add: post_def)
  have np: "\<And>k. k < doff \<Longrightarrow> pre ! k = dst ! k" by (simp add: pre_def)
  have "soff \<le> length src" using assms(2) by linarith
  then have nm: "\<And>k. k < n \<Longrightarrow> mid ! k = src ! (soff + k)"
    by (simp add: mid_def)
  have nq: "\<And>k. post ! k = dst ! (doff + n + k)"
    unfolding post_def using assms(1) by (intro nth_drop) simp
  have m: "memcpy_bytes dst doff src soff n = Inr d"
    using assms by (simp add: memcpy_bytes_def d_def pre_def mid_def post_def)
  have l: "length d = length dst" using assms(1) by (simp add: d_def lp lm lq)
  have n: "\<forall>i < length dst. d ! i =
              (if doff \<le> i \<and> i < doff + n then src ! (soff + (i - doff)) else dst ! i)"
  proof (intro allI impI)
    fix i assume i: "i < length dst"
    consider "i < doff" | "doff \<le> i" "i < doff + n" | "doff + n \<le> i" by linarith
    then show "d ! i = (if doff \<le> i \<and> i < doff + n then src ! (soff + (i - doff)) else dst ! i)"
    proof cases
      case 1
      then show ?thesis by (simp add: d_def nth_append lp np)
    next
      case 2
      then have k: "i - doff < n" by linarith
      from 2 have "d ! i = mid ! (i - doff)"
        using k by (simp add: d_def nth_append lp lm)
      with nm[OF k] 2 show ?thesis by simp
    next
      case 3
      then have a: "\<not> i < doff" "\<not> i - doff < n" by linarith+
      have "d ! i = post ! (i - doff - n)"
        using a by (simp add: d_def nth_append lp lm)
      also have "\<dots> = dst ! (doff + n + (i - doff - n))" by (rule nq)
      also have "doff + n + (i - doff - n) = i" using 3 by linarith
      finally show ?thesis using 3 by simp
    qed
  qed
  from m l n show ?thesis by blast
qed

lemma of_nat_unat_32 [simp]: "(of_nat (unat (w :: 32 word)) :: 32 word) = w"
  by simp

lemma row_offset_word:
  fixes w :: "32 word"
  assumes "y * unat w * 4 < 2 ^ 32"
  shows "unat (of_nat y * w * 4 :: 32 word) = y * unat w * 4"
proof -
  have "(of_nat y * w * 4 :: 32 word) = of_nat (y * unat w * 4)" by simp
  then show ?thesis using assms by (simp only: unat_of_nat) simp
qed


lemma row_length_word:
  fixes w :: "32 word"
  assumes "unat w * 4 < 2 ^ 32"
  shows "unat (w * 4) = unat w * 4"
  using assms by (simp add: unat_word_ariths)

lemma source_row_word:
  fixes h :: "32 word"
  assumes "y < unat h"
  shows "unat (source_row dual h y) = (if dual then y else unat h - 1 - y)"
proof -
  have h32: "unat h < 2 ^ 32" using unsigned_less[of h] by simp
  with assms have y32: "y < 2 ^ 32" by linarith
  then have uy: "unat (of_nat y :: 32 word) = y" by (simp add: unat_of_nat)
  have "1 \<le> h" using assms by (simp add: word_le_nat_alt)
  then have u1: "unat (h - 1) = unat h - 1" by (simp add: unat_sub)
  have "(of_nat y :: 32 word) \<le> h - 1" using assms uy u1 by (simp add: word_le_nat_alt)
  then have "unat (h - 1 - of_nat y) = unat h - 1 - y" by (simp add: unat_sub uy u1)
  with uy show ?thesis by (simp add: source_row_def)
qed

lemma source_offset_word:
  fixes r pitch :: "32 word"
  assumes "unat r * unat pitch < 2 ^ 32"
  shows "unat (r * pitch) = unat r * unat pitch"
  using assms by (simp add: unat_word_ariths)

declare copy_rows.simps [simp del]

lemma copy_rows_rows:
  fixes w h pitch :: "32 word"
  assumes g1: "unat w * unat h * 4 < 2 ^ 32"
    and g2: "unat h * unat pitch < 2 ^ 32"
    and g3: "unat w * 4 \<le> unat pitch"
    and g4: "unat h * unat pitch \<le> length src"
  shows "length dst = unat w * unat h * 4 \<Longrightarrow> y \<le> unat h \<Longrightarrow>
     \<exists>dst'. copy_rows dual w h pitch src dst y = Inr dst' \<and> length dst' = length dst \<and>
       (\<forall>i < length dst. dst' ! i =
          (if y * (unat w * 4) \<le> i
           then src ! ((if dual then i div (unat w * 4) else unat h - 1 - i div (unat w * 4))
                         * unat pitch + i mod (unat w * 4))
           else dst ! i))"
proof (induction "unat h - y" arbitrary: y dst)
  case 0
  then have y: "y = unat h" by simp
  then have c: "copy_rows dual w h pitch src dst y = Inr dst"
    by (subst copy_rows.simps) simp
  have "\<forall>i < length dst. \<not> y * (unat w * 4) \<le> i"
    using 0(2) y by (simp add: mult.commute mult.left_commute)
  with c show ?case by simp
next
  case (Suc k)
  let ?W = "unat w * 4"
  let ?r = "if dual then y else unat h - 1 - y"
  from Suc(2) have y: "y < unat h" by linarith
  then have hpos: "0 < unat h" by linarith
  have "y * unat w \<le> unat h * unat w" using y by (intro mult_right_mono) simp_all
  then have "y * unat w * 4 \<le> unat w * unat h * 4" by (simp add: mult.commute)
  with g1 have yw: "y * unat w * 4 < 2 ^ 32" by (rule le_less_trans[rotated])
  have "unat w * 1 \<le> unat w * unat h" using hpos by (intro mult_left_mono) simp_all
  then have "unat w * 4 \<le> unat w * unat h * 4" by simp
  with g1 have w4: "unat w * 4 < 2 ^ 32" by (rule le_less_trans[rotated])
  have doff: "unat (of_nat y * w * 4 :: 32 word) = y * ?W"
    using row_offset_word[OF yw] by (simp add: mult.assoc)
  have n: "unat (w * 4) = ?W" by (rule row_length_word[OF w4])
  have ur: "unat (source_row dual h y) = ?r" by (rule source_row_word[OF y])
  have rlt: "?r < unat h" using y by simp
  then have r1: "?r * unat pitch \<le> (unat h - 1) * unat pitch"
    by (intro mult_right_mono) simp_all
  have r2: "(unat h - 1) * unat pitch + unat pitch = unat h * unat pitch"
    using hpos by (simp add: algebra_simps)
  from r1 r2 have rp: "?r * unat pitch + unat pitch \<le> unat h * unat pitch" by linarith
  with g2 have "?r * unat pitch < 2 ^ 32" by linarith
  then have soff: "unat (source_row dual h y * pitch) = ?r * unat pitch"
    using source_offset_word[of "source_row dual h y" pitch] ur by simp
  have "(Suc y) * ?W \<le> unat h * ?W" using y by (intro mult_right_mono) simp_all
  then have b1: "y * ?W + ?W \<le> length dst" using Suc(3) by (simp add: algebra_simps)
  have b2: "?r * unat pitch + ?W \<le> length src" using rp g3 g4 by linarith
  from memcpy_bytes_in_range[OF b1 b2] obtain d1 where
    m: "memcpy_bytes dst (y * ?W) src (?r * unat pitch) ?W = Inr d1"
    and l1: "length d1 = length dst"
    and n1: "\<forall>i < length dst. d1 ! i =
        (if y * ?W \<le> i \<and> i < y * ?W + ?W then src ! (?r * unat pitch + (i - y * ?W)) else dst ! i)"
    by blast
  have step: "copy_rows dual w h pitch src dst y = copy_rows dual w h pitch src d1 (Suc y)"
    using y m by (subst copy_rows.simps) (simp add: doff n soff)
  have k: "k = unat h - Suc y" using Suc(2) by linarith
  have l1': "length d1 = unat w * unat h * 4" using l1 Suc(3) by simp
  have sy: "Suc y \<le> unat h" using y by simp
  from Suc(1)[OF k l1' sy] obtain d2 where
    c2: "copy_rows dual w h pitch src d1 (Suc y) = Inr d2" and l2: "length d2 = length d1"
    and n2: "\<forall>i < length d1. d2 ! i =
          (if Suc y * ?W \<le> i
           then src ! ((if dual then i div ?W else unat h - 1 - i div ?W) * unat pitch + i mod ?W)
           else d1 ! i)"
    by blast
  have "\<forall>i < length dst. d2 ! i =
          (if y * ?W \<le> i
           then src ! ((if dual then i div ?W else unat h - 1 - i div ?W) * unat pitch + i mod ?W)
           else dst ! i)"
  proof (intro allI impI)
    fix i assume i: "i < length dst"
    consider "i < y * ?W" | "y * ?W \<le> i" "i < y * ?W + ?W" | "Suc y * ?W \<le> i"
      by (simp add: algebra_simps) linarith
    then show "d2 ! i =
          (if y * ?W \<le> i
           then src ! ((if dual then i div ?W else unat h - 1 - i div ?W) * unat pitch + i mod ?W)
           else dst ! i)"
    proof cases
      case 1
      then have "\<not> Suc y * ?W \<le> i" by simp
      with 1 n1 n2 i l1 show ?thesis by simp
    next
      case 2
      then have ns: "\<not> Suc y * ?W \<le> i" by simp
      from 2 have Wpos: "0 < ?W" by linarith
      have dv: "i div ?W = y"
        using 2 Wpos by (intro div_nat_eqI) (simp_all add: algebra_simps)
      have md: "i mod ?W = i - y * ?W"
        using dv by (metis minus_mult_div_eq_mod mult.commute)
      from 2 ns n1 n2 i l1 show ?thesis by (simp add: dv md)
    next
      case 3
      then have "y * ?W \<le> i" by (simp add: algebra_simps)
      with 3 n2 i l1 show ?thesis by simp
    qed
  qed
  with step c2 l2 l1 show ?case by simp
qed

lemma frame_size_word:
  fixes w h :: "32 word"
  assumes "unat w * unat h * 4 < 2 ^ 32"
  shows "unat (w * h * 4) = unat w * unat h * 4"
proof -
  have "(w * h * 4 :: 32 word) = of_nat (unat w * unat h * 4)" by simp
  then show ?thesis using assms by (simp only: unat_of_nat) simp
qed

lemma row_position:
  fixes W :: nat
  assumes "x < W"
  shows "(y * W + x) div W = y" and "(y * W + x) mod W = x"
  using assms by simp_all

text \<open>
  Claim C6. When \<open>AcquireNextFrame\<close> hands out a frame and every later call of
  \<open>screen_get_frame_dual_track\<close> succeeds, for a mapped surface as Direct3D describes it
  (a row pitch of at least \<open>Width * 4\<close> bytes, \<open>Height\<close> rows of the pitch mapped, and
  sizes below \<open>2 ^ 32\<close>), the function returns 0 with a buffer of \<open>Width * Height * 4\<close>
  bytes in which row \<open>y\<close> holds the first \<open>Width * 4\<close> bytes of input row
  \<open>Height - 1 - y\<close> when \<open>dual_track\<close> is false, and of input row \<open>y\<close> when it is
  true.
\<close>

theorem rows_flipped_unless_dual_track:
  assumes live: "duplication c" "screen_is_capturing c"
    and acquired: "acquire os = Acquired" "query_texture_ok os" "create_staging_ok os"
      "map_ok os" "frame_malloc_ok os"
    and g1: "unat (texture_width os) * unat (texture_height os) * 4 < 2 ^ 32"
    and g2: "unat (texture_height os) * unat (row_pitch os) < 2 ^ 32"
    and g3: "unat (texture_width os) * 4 \<le> unat (row_pitch os)"
    and g4: "unat (texture_height os) * unat (row_pitch os) \<le> length (mapped_data os)"
  shows "\<exists>frame c'.
           screen_get_frame_dual_track (Some c) data0 size0 dual_track os =
             Inr (0, Some frame, unat (texture_width os) * unat (texture_height os) * 4, Some c') \<and>
           length frame = unat (texture_width os) * unat (texture_height os) * 4 \<and>
           (\<forall>y < unat (texture_height os). \<forall>x < unat (texture_width os) * 4.
              frame ! (y * (unat (texture_width os) * 4) + x) =
                mapped_data os !
                  ((if dual_track then y else unat (texture_height os) - 1 - y) *
                     unat (row_pitch os) + x))"
proof -
  let ?W = "unat (texture_width os) * 4"
  let ?H = "unat (texture_height os)"
  let ?n = "unat (texture_width os) * unat (texture_height os) * 4"
  let ?blk = "malloc_block ?n (uninitialised os)"
  have fs: "unat (texture_width os * texture_height os * 4) = ?n"
    by (rule frame_size_word[OF g1])
  have lb: "length ?blk = ?n" by (simp add: malloc_block_def)
  from copy_rows_rows[OF g1 g2 g3 g4 lb, of 0 dual_track] obtain frame where
    c: "copy_rows dual_track (texture_width os) (texture_height os) (row_pitch os)
          (mapped_data os) ?blk 0 = Inr frame"
    and l: "length frame = length ?blk"
    and n: "\<forall>i < length ?blk. frame ! i =
              (if 0 * ?W \<le> i
               then mapped_data os !
                      ((if dual_track then i div ?W else ?H - 1 - i div ?W) * unat (row_pitch os)
                       + i mod ?W)
               else ?blk ! i)"
    by blast
  have r: "screen_get_frame_dual_track (Some c) data0 size0 dual_track os =
             Inr (0, Some frame, ?n, Some (update_frame_cache c frame ?n (cache_malloc_ok os)))"
    using live acquired by (simp add: screen_get_frame_dual_track_def Let_def fs c)
  have rows: "\<forall>y < ?H. \<forall>x < ?W.
      frame ! (y * ?W + x) =
        mapped_data os ! ((if dual_track then y else ?H - 1 - y) * unat (row_pitch os) + x)"
  proof (intro allI impI)
    fix y x assume y: "y < ?H" and x: "x < ?W"
    have "y * ?W + x < y * ?W + ?W" using x by simp
    also have "\<dots> = Suc y * ?W" by simp
    also have "\<dots> \<le> ?H * ?W" using y by (intro mult_right_mono) simp_all
    finally have i0: "y * ?W + x < ?H * ?W" .
    have "?H * ?W = ?n" by simp
    with i0 lb have i: "y * ?W + x < length ?blk" by simp
    from n i have "frame ! (y * ?W + x) =
        mapped_data os !
          ((if dual_track then (y * ?W + x) div ?W else ?H - 1 - (y * ?W + x) div ?W)
             * unat (row_pitch os) + (y * ?W + x) mod ?W)"
      by simp
    then show "frame ! (y * ?W + x) =
        mapped_data os ! ((if dual_track then y else ?H - 1 - y) * unat (row_pitch os) + x)"
      by (simp only: row_position[OF x])
  qed
  from l lb have l': "length frame = ?n" by simp
  show ?thesis
    by (intro exI[of _ frame] exI[of _ "update_frame_cache c frame ?n (cache_malloc_ok os)"]
          conjI r l' rows)
qed

theorem rows_flipped_unless_dual_track_witness:
  "(\<exists>frame c'.
      screen_get_frame_dual_track (Some live_capture) None 0 False two_row_surface =
        Inr (0, Some frame, 8, Some c') \<and>
      take 4 frame = [20, 21, 22, 23] \<and> drop 4 frame = [10, 11, 12, 13]) \<and>
   (\<exists>frame c'.
      screen_get_frame_dual_track (Some live_capture) None 0 True two_row_surface =
        Inr (0, Some frame, 8, Some c') \<and>
      take 4 frame = [10, 11, 12, 13] \<and> drop 4 frame = [20, 21, 22, 23])"
proof -
  have pre: "duplication live_capture" "screen_is_capturing live_capture"
    "acquire two_row_surface = Acquired" "query_texture_ok two_row_surface"
    "create_staging_ok two_row_surface" "map_ok two_row_surface"
    "frame_malloc_ok two_row_surface"
    "unat (texture_width two_row_surface) * unat (texture_height two_row_surface) * 4 < 2 ^ 32"
    "unat (texture_height two_row_surface) * unat (row_pitch two_row_surface) < 2 ^ 32"
    "unat (texture_width two_row_surface) * 4 \<le> unat (row_pitch two_row_surface)"
    "unat (texture_height two_row_surface) * unat (row_pitch two_row_surface)
       \<le> length (mapped_data two_row_surface)"
    by (simp_all add: live_capture_def two_row_surface_def)
  have geo: "unat (texture_width two_row_surface) = 1" "unat (texture_height two_row_surface) = 2"
    "unat (row_pitch two_row_surface) = 8"
    "mapped_data two_row_surface = [10, 11, 12, 13, 0, 0, 0, 0, 20, 21, 22, 23, 0, 0, 0, 0]"
    by (simp_all add: two_row_surface_def)
  have bytes: "\<And>frame :: BYTE list. length frame = 8 \<Longrightarrow>
      frame = [frame ! 0, frame ! 1, frame ! 2, frame ! 3, frame ! 4, frame ! 5, frame ! 6, frame ! 7]"
  proof (rule nth_equalityI)
    fix frame :: "BYTE list" and i
    assume l: "length frame = 8" and "i < length frame"
    then have "i = 0 \<or> i = 1 \<or> i = 2 \<or> i = 3 \<or> i = 4 \<or> i = 5 \<or> i = 6 \<or> i = 7"
      by linarith
    then show "frame ! i =
        [frame ! 0, frame ! 1, frame ! 2, frame ! 3, frame ! 4, frame ! 5, frame ! 6, frame ! 7] ! i"
      by auto
  qed simp
  have "\<exists>frame c'.
      screen_get_frame_dual_track (Some live_capture) None 0 dual two_row_surface =
        Inr (0, Some frame, 8, Some c') \<and>
      frame = (if dual then [10, 11, 12, 13, 20, 21, 22, 23] else [20, 21, 22, 23, 10, 11, 12, 13])"
    for dual
  proof -
    from rows_flipped_unless_dual_track[OF pre, of None 0 dual] obtain frame c' where
      r: "screen_get_frame_dual_track (Some live_capture) None 0 dual two_row_surface =
            Inr (0, Some frame, 8, Some c')"
      and l: "length frame = 8"
      and n: "\<forall>y < 2. \<forall>x < 4. frame ! (y * 4 + x) =
                [10, 11, 12, 13, 0, 0, 0, 0, 20, 21, 22, 23, 0, 0, 0, 0 :: BYTE] !
                  ((if dual then y else 2 - 1 - y) * 8 + x)"
      unfolding geo by auto
    have "frame ! 0 = (if dual then 10 else 20)" using n[rule_format, of 0 0] by (cases dual) (simp_all add: eval_nat_numeral)
    moreover have "frame ! 1 = (if dual then 11 else 21)" using n[rule_format, of 0 1] by (cases dual) (simp_all add: eval_nat_numeral)
    moreover have "frame ! 2 = (if dual then 12 else 22)" using n[rule_format, of 0 2] by (cases dual) (simp_all add: eval_nat_numeral)
    moreover have "frame ! 3 = (if dual then 13 else 23)" using n[rule_format, of 0 3] by (cases dual) (simp_all add: eval_nat_numeral)
    moreover have "frame ! 4 = (if dual then 20 else 10)" using n[rule_format, of 1 0] by (cases dual) (simp_all add: eval_nat_numeral)
    moreover have "frame ! 5 = (if dual then 21 else 11)" using n[rule_format, of 1 1] by (cases dual) (simp_all add: eval_nat_numeral)
    moreover have "frame ! 6 = (if dual then 22 else 12)" using n[rule_format, of 1 2] by (cases dual) (simp_all add: eval_nat_numeral)
    moreover have "frame ! 7 = (if dual then 23 else 13)" using n[rule_format, of 1 3] by (cases dual) (simp_all add: eval_nat_numeral)
    ultimately have "frame =
        (if dual then [10, 11, 12, 13, 20, 21, 22, 23] else [20, 21, 22, 23, 10, 11, 12, 13])"
      using bytes[OF l] by simp
    with r show ?thesis by blast
  qed
  from this[of False] this[of True] show ?thesis by auto
qed

section \<open>Properties of the orchestrator\<close>

text \<open>
  Claim C9. A call of \<open>engine_start\<close> with a null engine, with null parameters, or with
  an engine whose \<open>is_running\<close> flag is set returns \<open>-1\<close> and leaves the engine
  structure, the four static contexts, the muxer statics and the statics of the audio
  sources as they were.
\<close>

theorem engine_start_rejects_bad_calls:
  assumes "engine = None \<or> parameters = None \<or> (\<exists>e. engine = Some e \<and> is_running e)"
  shows "engine_start audio_build engine parameters w env = Returned (-1, engine, w)"
  using assms by (auto simp: engine_start_def split: option.splits)

theorem engine_start_rejects_bad_calls_witness:
  "engine_start True None (Some video_only_params) capturing_screen (smooth_run []) =
     Returned (-1, None, capturing_screen) \<and>
   engine_start True (Some fresh_engine) None capturing_screen (smooth_run []) =
     Returned (-1, Some fresh_engine, capturing_screen) \<and>
   engine_start True (Some (fresh_engine\<lparr>is_running := True\<rparr>)) (Some video_only_params)
       capturing_screen (smooth_run []) =
     Returned (-1, Some (fresh_engine\<lparr>is_running := True\<rparr>), capturing_screen)"
  using engine_start_rejects_bad_calls[of None "Some video_only_params" True capturing_screen
          "smooth_run []"]
    engine_start_rejects_bad_calls[of "Some fresh_engine" None True capturing_screen
          "smooth_run []"]
    engine_start_rejects_bad_calls[of "Some (fresh_engine\<lparr>is_running := True\<rparr>)"
          "Some video_only_params" True capturing_screen "smooth_run []"]
  by simp

subsection \<open>Evaluation of the example runs\<close>

lemmas screen_eval =
  screen_get_frame_dual_track_def copy_rows.simps memcpy_bytes_def malloc_block_def
  source_row_def update_frame_cache_def MAX_CACHE_SIZE_def live_capture_def
  two_row_surface_def no_new_frame_def screen_capture_zero_def
  screen_init_def screen_start_capture_def screen_stop_capture_def screen_cleanup_def

lemmas loop_eval =
  capture_iteration_def check_limits_def video_path_def audio_path_def
  MAX_LOOP_ITERATIONS_PER_SECOND_def emergency_check_interval_def iteration_at_def
  first_iteration_def capturing_screen_def module_state_initial_def video_only_params_def
  requested_params_def capture_params_zero_def start_locals_def fresh_engine_def
  capture_engine_zero_def capture_stats_zero_def context_or_def status_def
  encoder_add_video_frame_def encoder_globals_initial_def encoder_context_zero_def
  frame_due_def frame_obtained_def limit_reached_def Let_def

lemmas run_eval =
  engine_start_def engine_prepare_audio_def init_microphone_def init_system_def
  sources_available_def engine_open_def select_encoder_def engine_record_def
  restart_audio_def observe_flags_def engine_start_finish_def smooth_run_def
  encoder_init_def new_sink_writer_def add_stream_def set_input_media_type_def
  release_sink_writer_def include_audio_def video_type_out_def video_type_in_def
  optimized_bitrate_def pack_uint64_def int_div_def
  encoder_set_recording_start_time_def encoder_finalize_def audio_ticks_def
  audio_end_of_stream_def tick_if_def send_stream_tick_def finalize_calls_ok_def
  buffer_prepared_def all_calls_ok_def write_sample_def
  microphone_statics_initial_def system_statics_initial_def audio_context_zero_def
  returned_code_def returned_muxer_def returned_engine_def returned_state_def


subsection \<open>The frame clock\<close>






subsection \<open>What the capture loop leaves of the muxer\<close>

lemma stamp_audio_streams:
  "stamp_audio sw idx n ctx nf hr = (r, sw', n') \<Longrightarrow> streams sw' = streams sw"
  by (auto simp: stamp_audio_def write_sample_def Let_def split: if_splits)

lemma add_video_setup:
  "encoder_add_video_frame g c d n e hr = Inr (r, g') \<Longrightarrow>
   container_setup_of g' = container_setup_of g"
  by (auto simp: encoder_add_video_frame_def container_setup_of_def writer_streams_def
        write_sample_def Let_def split: option.splits if_splits)

lemma add_audio_setup:
  "container_setup_of (snd (encoder_add_audio_frame g c d n e hr)) = container_setup_of g"
  by (auto simp: encoder_add_audio_frame_def container_setup_of_def writer_streams_def
        dest: stamp_audio_streams split: option.splits if_splits prod.splits)

lemma add_system_audio_setup:
  "container_setup_of (snd (encoder_add_system_audio_frame g c d n e hr)) = container_setup_of g"
  by (auto simp: encoder_add_system_audio_frame_def container_setup_of_def writer_streams_def
        dest: stamp_audio_streams split: option.splits if_splits prod.splits)

lemma add_mic_audio_setup:
  "container_setup_of (snd (encoder_add_mic_audio_frame g c d n e hr)) = container_setup_of g"
  by (auto simp: encoder_add_mic_audio_frame_def container_setup_of_def writer_streams_def
        dest: stamp_audio_streams split: option.splits if_splits prod.splits)

lemma pull_system_setup:
  "pull_system dual el it w = Inr (ok, w') \<Longrightarrow>
   container_setup_of (muxer w') = container_setup_of (muxer w) \<and> encoder_ctx w' = encoder_ctx w"
  by (auto simp: pull_system_def Let_def add_audio_setup add_system_audio_setup
        split: sum.splits prod.splits if_splits)

lemma pull_microphone_setup:
  "pull_microphone dual el it w = Inr (ok, w') \<Longrightarrow>
   container_setup_of (muxer w') = container_setup_of (muxer w) \<and> encoder_ctx w' = encoder_ctx w"
  by (auto simp: pull_microphone_def Let_def add_audio_setup add_mic_audio_setup
        split: sum.splits prod.splits if_splits)

lemma audio_path_setup:
  assumes "audio_path el l it w = Inr (ok, w')"
  shows "container_setup_of (muxer w') = container_setup_of (muxer w) \<and>
         encoder_ctx w' = encoder_ctx w"
  using assms
  by (auto simp: audio_path_def split: if_splits sum.splits prod.splits
        dest!: pull_system_setup pull_microphone_setup)

lemma video_path_setup:
  assumes "video_path p st fi it e w s = Inr (e', w', s')"
  shows "container_setup_of (muxer w') = container_setup_of (muxer w) \<and>
         encoder_ctx w' = encoder_ctx w"
  using assms
  by (auto simp: video_path_def Let_def split: if_splits sum.splits prod.splits
        dest!: add_video_setup)

lemma capture_iteration_setup:
  assumes "capture_iteration p st fi l it e w s = Inr (brk, e', w', s')"
  shows "container_setup_of (muxer w') = container_setup_of (muxer w) \<and>
         encoder_ctx w' = encoder_ctx w"
proof -
  obtain b e1 s1 where cl: "check_limits p st (current_time it) e s = (b, e1, s1)"
    by (cases "check_limits p st (current_time it) e s") auto
  show ?thesis
  proof (cases b)
    case True
    with assms cl show ?thesis by (simp add: capture_iteration_def)
  next
    case False
    show ?thesis
    proof (cases "video_path p st fi it e1 w s1")
      case (Inl f)
      with assms cl False show ?thesis by (simp add: capture_iteration_def)
    next
      case (Inr r)
      obtain e2 w2 s2 where r: "r = (e2, w2, s2)" by (cases r)
      note v = video_path_setup[OF Inr[unfolded r]]
      show ?thesis
      proof (cases "audio_available l")
        case na: False
        with assms cl False Inr r have "w' = w2" by (simp add: capture_iteration_def)
        with v show ?thesis by simp
      next
        case True
        show ?thesis
        proof (cases "audio_path (current_time it - st) l it w2")
          case (Inl f)
          with assms cl False Inr r True show ?thesis by (simp add: capture_iteration_def)
        next
          case ap: (Inr q)
          obtain ok w3 where q: "q = (ok, w3)" by (cases q)
          note a = audio_path_setup[OF ap[unfolded q]]
          from assms cl False Inr r True ap q have "w' = w3"
            by (simp add: capture_iteration_def Let_def split: if_splits)
          with a v show ?thesis by simp
        qed
      qed
    qed
  qed
qed

lemma capture_loop_setup:
  "capture_loop p st fi l its e w s = Returned (e', w', s') \<Longrightarrow>
   container_setup_of (muxer w') = container_setup_of (muxer w) \<and> encoder_ctx w' = encoder_ctx w"
proof (induction its arbitrary: e w s)
  case Nil
  then show ?case by simp
next
  case (Cons it its)
  let ?e0 = "observe_flags it e"
  show ?case
  proof (cases "\<not> is_running ?e0 \<or> force_stop ?e0 \<or> p_force_stop p \<or> params_stop it")
    case True
    with Cons.prems have "w' = w" by (simp add: Let_def)
    then show ?thesis by simp
  next
    case False
    show ?thesis
    proof (cases "capture_iteration p st fi l it ?e0 w s")
      case (Inl f)
      with Cons.prems False show ?thesis by (simp add: Let_def)
    next
      case (Inr r)
      obtain brk e1 w1 s1 where r: "r = (brk, e1, w1, s1)" by (cases r)
      note step = capture_iteration_setup[OF Inr[unfolded r]]
      show ?thesis
      proof (cases brk)
        case True
        with Cons.prems False Inr r have "w' = w1" by (simp add: Let_def)
        with step show ?thesis by simp
      next
        case nb: False
        with Cons.prems False Inr r have
          "capture_loop p st fi l its e1 w1 s1 = Returned (e', w', s')"
          by (simp add: Let_def)
        from Cons.IH[OF this] step show ?thesis by simp
      qed
    qed
  qed
qed

lemma encoder_finalize_setup:
  "encoder_finalize g c hr = Inr (r, g', c') \<Longrightarrow>
   container_setup_of g' = container_setup_of g \<and>
   map_option dual_track_mode c' = map_option dual_track_mode c"
proof -
  have tick: "\<And>ok sw i t. streams (tick_if ok sw i t) = streams sw"
    by (simp add: tick_if_def send_stream_tick_def)
  have eos: "\<And>sw n i ok sw'. audio_end_of_stream g sw n i ok = Inr sw' \<Longrightarrow> streams sw' = streams sw"
    by (auto simp: audio_end_of_stream_def tick split: if_splits)
  have at: "\<And>sw sw'. audio_ticks g sw hr = Inr sw' \<Longrightarrow> streams sw' = streams sw"
    by (auto simp: audio_ticks_def Let_def split: if_splits sum.splits dest!: eos)
  assume a: "encoder_finalize g c hr = Inr (r, g', c')"
  show ?thesis
  proof (cases c)
    case None
    with a show ?thesis by (simp add: encoder_finalize_def)
  next
    case (Some ctx)
    show ?thesis
    proof (cases "g_sink_writer g")
      case None
      with a Some show ?thesis by (auto simp: encoder_finalize_def)
    next
      case sw: (Some sw)
      let ?sw1 = "if flush_ok hr then sw\<lparr>flushed := True\<rparr> else sw"
      let ?sw2 = "if 0 < g_video_frame_count g
                  then tick_if (video_tick_ok hr) ?sw1 (g_video_stream_index g)
                         (g_last_video_timestamp g)
                  else ?sw1"
      have s2: "streams ?sw2 = streams sw" by (simp add: tick)
      show ?thesis
      proof (cases "audio_ticks g ?sw2 hr")
        case (Inl f)
        with a Some sw show ?thesis by (simp add: encoder_finalize_def Let_def)
      next
        case (Inr sw3)
        from at[OF Inr] s2 have s3: "streams sw3 = streams sw" by simp
        from a Some sw Inr s3 show ?thesis
          by (cases "finalize_hr hr")
             (auto simp: encoder_finalize_def Let_def container_setup_of_def writer_streams_def)
      qed
    qed
  qed
qed

lemma engine_start_finish_setup:
  assumes "engine_start_finish p st l env e w s = Inr (e', w')"
  shows "container_setup_of (muxer w') = container_setup_of (muxer w) \<and>
         dual_track_mode (encoder_ctx w') = dual_track_mode (encoder_ctx w)"
proof (cases "encoder_finalize (muxer w) (Some (encoder_ctx w)) (finalize_os env)")
  case (Inl f)
  with assms show ?thesis
    by (simp add: engine_start_finish_def Let_def if_distrib[where f = muxer]
          if_distrib[where f = encoder_ctx] cong: if_cong)
next
  case (Inr q)
  obtain r g c where q: "q = (r, g, c)" by (cases q)
  note fin = encoder_finalize_setup[OF Inr[unfolded q]]
  from assms Inr q have w': "muxer w' = g \<and> encoder_ctx w' = context_or (encoder_ctx w) c"
    by (auto simp add: engine_start_finish_def Let_def if_distrib[where f = muxer]
          if_distrib[where f = encoder_ctx] cong: if_cong)
  from fin have "dual_track_mode (context_or (encoder_ctx w) c) = dual_track_mode (encoder_ctx w)"
    by (cases c) (simp_all add: context_or_def)
  with w' fin show ?thesis by simp
qed

lemma restart_audio_muxer:
  "restart_audio p e w l env = (e', w', l') \<Longrightarrow>
   muxer w' = muxer w \<and> encoder_ctx w' = encoder_ctx w"
  by (auto simp: restart_audio_def Let_def split: if_splits prod.splits)

lemma engine_record_setup:
  assumes "engine_record p e w l env = Returned (r, e', w')"
  shows "r = 0 \<and>
         container_setup_of (muxer w') =
           (container_setup_of (muxer w))\<lparr>setup_start_time := start_tick env\<rparr> \<and>
         dual_track_mode (encoder_ctx w') = dual_track_mode (encoder_ctx w)"
proof -
  obtain e1 w1 l1 where ra: "restart_audio p e w l env = (e1, w1, l1)"
    by (cases "restart_audio p e w l env") auto
  note m = restart_audio_muxer[OF ra]
  let ?w2 = "w1\<lparr>muxer := encoder_set_recording_start_time (muxer w1) (start_tick env)\<rparr>"
  let ?e2 = "e1\<lparr>is_running := True,
                 status_messages :=
                   status_messages e1 @
                     [Recording_Started (p_output_filename p) (audio_available l1)]\<rparr>"
  let ?s0 = "\<lparr>next_frame_time = start_tick env, frame_count = 0, failed_frame_attempts = 0,
               consecutive_audio_failures = 0,
               next_emergency_check = start_tick env + emergency_check_interval,
               loop_iterations = 0\<rparr>"
  have w2: "container_setup_of (muxer ?w2) =
              (container_setup_of (muxer w))\<lparr>setup_start_time := start_tick env\<rparr> \<and>
            encoder_ctx ?w2 = encoder_ctx w"
    using m
    by (simp add: container_setup_of_def encoder_set_recording_start_time_def writer_streams_def)
  from assms ra have nz: "p_fps p \<noteq> 0"
    by (auto simp: engine_record_def Let_def)
  show ?thesis
  proof (cases "capture_loop p (start_tick env) (int_div 1000 (p_fps p)) l1 (iterations env)
                  ?e2 ?w2 ?s0")
    case (Trapped f)
    with assms ra nz show ?thesis by (simp add: engine_record_def Let_def)
  next
    case Unfinished
    with assms ra nz show ?thesis by (simp add: engine_record_def Let_def)
  next
    case (Returned q)
    obtain e3 w3 s3 where q: "q = (e3, w3, s3)" by (cases q)
    note lp = capture_loop_setup[OF Returned[unfolded q]]
    show ?thesis
    proof (cases "engine_start_finish p (start_tick env) l1 env e3 w3 s3")
      case (Inl f)
      with assms ra nz Returned q show ?thesis by (simp add: engine_record_def Let_def)
    next
      case (Inr z)
      obtain e4 w4 where z: "z = (e4, w4)" by (cases z)
      note fin = engine_start_finish_setup[OF Inr[unfolded z]]
      from assms ra nz Returned q Inr z have "r = 0 \<and> w' = w4"
        by (simp add: engine_record_def Let_def)
      with fin lp w2 show ?thesis by simp
    qed
  qed
qed

lemma begin_writing_dual_opens:
  "begin_writing_dual g ctx sr fails = (0, g', c') \<Longrightarrow> writer_streams g' \<noteq> None"
  by (auto simp: begin_writing_dual_def writer_streams_def split: option.splits if_splits)

lemma encoder_init_opens:
  "encoder_init g c fn wd ht fps sr ch b fails = (0, g', c') \<Longrightarrow> writer_streams g' \<noteq> None"
  by (auto simp: encoder_init_def writer_streams_def Let_def release_sink_writer_def
        split: option.splits if_splits prod.splits)

lemma encoder_init_dual_track_opens:
  "encoder_init_dual_track g c fn wd ht fps sr ch b fails = (0, g', c') \<Longrightarrow>
   writer_streams g' \<noteq> None"
  by (auto simp: encoder_init_dual_track_def Let_def release_sink_writer_def
        split: option.splits if_splits prod.splits bool.splits dest: begin_writing_dual_opens)

lemma encoder_init_audio_only_dual_track_opens:
  "encoder_init_audio_only_dual_track g c fn sr ch b fails = (0, g', c') \<Longrightarrow>
   writer_streams g' \<noteq> None"
  by (auto simp: encoder_init_audio_only_dual_track_def Let_def release_sink_writer_def
        split: option.splits if_splits prod.splits bool.splits dest: begin_writing_dual_opens)

lemma encoder_init_audio_only_single:
  assumes "encoder_init_audio_only g c fn sr ch b fails = (0, g', c')"
  shows "writer_streams g' = Some [(audio_type_out sr ch, Some (audio_type_in sr ch b))] \<and>
   \<not> g_dual_track_mode g' \<and> (\<exists>ctx. c' = Some ctx \<and> \<not> dual_track_mode ctx)"
proof -
  from assms obtain old name where c: "c = Some old" and fn: "fn = Some name"
    by (cases c; cases fn) (auto simp: encoder_init_audio_only_def)
  have idx: "unat (0 :: 32 word) < Suc 0" by simp
  from assms show ?thesis
    unfolding c fn encoder_init_audio_only_def
    by (clarsimp simp add: Let_def release_sink_writer_def add_stream_def
          set_input_media_type_def new_sink_writer_def encoder_context_zero_def
          writer_streams_def split: if_splits)
qed

lemma select_encoder_result:
  assumes "select_encoder p e w l env = (r, e1, w1)"
  shows "\<exists>sr ch b g c.
     muxer w1 = g \<and> encoder_ctx w1 = context_or (encoder_ctx w) c \<and>
     (if p_audio_only_mode p then
        if use_dual_track l \<and> audio_available l
        then encoder_init_audio_only_dual_track (muxer w) (Some (encoder_ctx w))
               (Some (p_output_filename p)) sr ch b (encoder_fails env) = (r, g, c)
        else encoder_init_audio_only (muxer w) (Some (encoder_ctx w))
               (Some (p_output_filename p)) sr ch b (encoder_fails env) = (r, g, c)
      else
        if use_dual_track l \<and> audio_available l
        then encoder_init_dual_track (muxer w) (Some (encoder_ctx w))
               (Some (p_output_filename p)) (width (screen_ctx w)) (height (screen_ctx w))
               (p_fps p) sr ch b (encoder_fails env) = (r, g, c)
        else encoder_init (muxer w) (Some (encoder_ctx w))
               (Some (p_output_filename p)) (width (screen_ctx w)) (height (screen_ctx w))
               (p_fps p) sr ch b (encoder_fails env) = (r, g, c))"
proof -
  let ?sr = "if audio_enabled (stats e) then audio_sample_rate (stats e) else 0"
  let ?ch = "if audio_enabled (stats e) then audio_channels (stats e) else 0"
  let ?b = "if audio_enabled (stats e) then audio_bits_per_sample (stats e) else 0"
  show ?thesis
  proof (cases "p_audio_only_mode p")
    case ao: True
    show ?thesis
    proof (cases "use_dual_track l \<and> audio_available l")
      case True
      obtain r0 g c where i: "encoder_init_audio_only_dual_track (muxer w) (Some (encoder_ctx w))
               (Some (p_output_filename p)) ?sr ?ch ?b (encoder_fails env) = (r0, g, c)"
        by (rule prod_cases3)
      from assms ao True i have "r = r0 \<and> muxer w1 = g \<and>
          encoder_ctx w1 = context_or (encoder_ctx w) c"
        by (auto simp: select_encoder_def Let_def)
      with ao True i show ?thesis by auto
    next
      case False
      obtain r0 g c where i: "encoder_init_audio_only (muxer w) (Some (encoder_ctx w))
               (Some (p_output_filename p)) ?sr ?ch ?b (encoder_fails env) = (r0, g, c)"
        by (rule prod_cases3)
      from assms ao False i have "r = r0 \<and> muxer w1 = g \<and>
          encoder_ctx w1 = context_or (encoder_ctx w) c"
        by (auto simp: select_encoder_def Let_def)
      with ao False i show ?thesis by auto
    qed
  next
    case ao: False
    show ?thesis
    proof (cases "use_dual_track l \<and> audio_available l")
      case True
      obtain r0 g c where i: "encoder_init_dual_track (muxer w) (Some (encoder_ctx w))
               (Some (p_output_filename p)) (width (screen_ctx w)) (height (screen_ctx w))
               (p_fps p) ?sr ?ch ?b (encoder_fails env) = (r0, g, c)"
        by (rule prod_cases3)
      from assms ao True i have "r = r0 \<and> muxer w1 = g \<and>
          encoder_ctx w1 = context_or (encoder_ctx w) c"
        by (auto simp: select_encoder_def Let_def)
      with ao True i show ?thesis by auto
    next
      case False
      obtain r0 g c where i: "encoder_init (muxer w) (Some (encoder_ctx w))
               (Some (p_output_filename p)) (width (screen_ctx w)) (height (screen_ctx w))
               (p_fps p) ?sr ?ch ?b (encoder_fails env) = (r0, g, c)"
        by (rule prod_cases3)
      from assms ao False i have "r = r0 \<and> muxer w1 = g \<and>
          encoder_ctx w1 = context_or (encoder_ctx w) c"
        by (auto simp: select_encoder_def Let_def)
      with ao False i show ?thesis by auto
    qed
  qed
qed

lemma select_encoder_opens:
  assumes "select_encoder p e w l env = (0, e1, w1)"
  shows "writer_streams (muxer w1) \<noteq> None"
  using select_encoder_result[OF assms]
  by (auto split: if_splits
        dest: encoder_init_opens encoder_init_dual_track_opens
          encoder_init_audio_only_dual_track_opens encoder_init_audio_only_single)


lemma engine_open_completed:
  assumes "engine_open p e w l env = Returned (0, e', w')"
  shows "\<exists>e1 w1. select_encoder p e w l env = (0, e1, w1) \<and>
           container_setup_of (muxer w') =
             (container_setup_of (muxer w1))\<lparr>setup_start_time := start_tick env\<rparr> \<and>
           dual_track_mode (encoder_ctx w') = dual_track_mode (encoder_ctx w1)"
proof -
  obtain er e1 w1 where se: "select_encoder p e w l env = (er, e1, w1)"
    by (rule prod_cases3)
  have er: "er = 0"
  proof (rule ccontr)
    assume "er \<noteq> 0"
    with assms se show False
      by (auto simp: engine_open_def split: prod.splits)
  qed
  show ?thesis
  proof (cases "p_audio_only_mode p")
    case True
    with assms se er have "engine_record p e1 w1 l env = Returned (0, e', w')"
      by (simp add: engine_open_def)
    from engine_record_setup[OF this] se er show ?thesis by simp
  next
    case False
    obtain r c where sc: "screen_start_capture (Some (screen_ctx w1)) = (r, c)"
      by (cases "screen_start_capture (Some (screen_ctx w1))") auto
    let ?w2 = "w1\<lparr>screen_ctx := context_or (screen_ctx w1) c\<rparr>"
    have r: "r = 0"
    proof (rule ccontr)
      assume "r \<noteq> 0"
      with assms se er False sc show False
        by (auto simp: engine_open_def Let_def split: prod.splits)
    qed
    with assms se er False sc have "engine_record p e1 ?w2 l env = Returned (0, e', w')"
      by (simp add: engine_open_def Let_def)
    from engine_record_setup[OF this] se er show ?thesis by simp
  qed
qed

lemma init_microphone_locals:
  "init_microphone e w l env = Inr (e1, w1, l1) \<Longrightarrow> use_dual_track l1 = use_dual_track l"
  by (auto simp: init_microphone_def split: if_splits prod.splits option.splits)

lemma init_system_locals:
  "init_system e w l env = Inr (e1, w1, l1) \<Longrightarrow> use_dual_track l1 = use_dual_track l"
  by (auto simp: init_system_def split: if_splits prod.splits option.splits)

lemma test_audio_locals:
  "test_audio e w l env = Inr (e1, w1, l1) \<Longrightarrow> use_dual_track l1 = use_dual_track l"
  by (auto simp: test_audio_def split: if_splits prod.splits sum.splits)

lemma start_audio_only_locals:
  "start_audio_only e w l env = (b, e1, w1, l1) \<Longrightarrow> use_dual_track l1 = use_dual_track l"
  by (auto simp: start_audio_only_def Let_def split: if_splits prod.splits)

lemma engine_prepare_audio_completed:
  assumes "engine_prepare_audio p e w l env = Returned (0, e', w')"
  shows "\<exists>e0 w0 l0. use_dual_track l0 = use_dual_track l \<and>
           engine_open p e0 w0 l0 env = Returned (0, e', w')"
proof (cases "init_microphone e w l env")
  case (Inl f)
  with assms show ?thesis by (simp add: engine_prepare_audio_def)
next
  case (Inr r1)
  obtain e1 w1 l1 where r1: "r1 = (e1, w1, l1)" by (cases r1)
  note k1 = init_microphone_locals[OF Inr[unfolded r1]]
  show ?thesis
  proof (cases "init_system e1 w1 l1 env")
    case (Inl f)
    with assms Inr r1 show ?thesis by (simp add: engine_prepare_audio_def)
  next
    case isy: (Inr r2)
    obtain e2 w2 l2 where r2: "r2 = (e2, w2, l2)" by (cases r2)
    note k2 = init_system_locals[OF isy[unfolded r2]]
    define l3 where "l3 = l2\<lparr>audio_available := sources_available l2\<rparr>"
    have k3: "use_dual_track l3 = use_dual_track l" using k1 k2 by (simp add: l3_def)
    define e3 where "e3 =
      (if (use_microphone l3 \<or> use_system l3) \<and> \<not> audio_available l3
       then status e2 ''Warning: No audio sources available, continuing with video-only''
       else e2)"
    define e4 where "e4 = e3\<lparr>stats := (stats e3)\<lparr>audio_enabled := audio_available l3\<rparr>\<rparr>"
    have unfold: "engine_prepare_audio p e w l env =
      (if (use_microphone l3 \<or> use_system l3) \<and> \<not> audio_available l3 \<and> p_audio_only_mode p
       then
         (case engine_start_cleanup p
                 (status e2 ''Error: Audio-only mode requires working audio capture'') w2 l3 of
            (e3, w3) \<Rightarrow> Returned (-1, e3, w3))
       else
         if audio_available l3 \<and> \<not> p_audio_only_mode p then
           (case test_audio e4 w2 l3 env of
              Inl f \<Rightarrow> Trapped f
            | Inr (e5, w5, l5) \<Rightarrow> engine_open p e5 w5 l5 env)
         else if audio_available l3 \<and> p_audio_only_mode p then
           (case start_audio_only e4 w2 l3 env of
              (False, e5, w5, l5) \<Rightarrow>
                (case engine_start_cleanup p e5 w5 l5 of
                   (e6, w6) \<Rightarrow> Returned (-1, e6, w6))
            | (True, e5, w5, l5) \<Rightarrow> engine_open p e5 w5 l5 env)
         else engine_open p e4 w2 l3 env)"
      using Inr r1 isy r2
      by (simp add: engine_prepare_audio_def Let_def l3_def e3_def e4_def)
    show ?thesis
    proof (cases "(use_microphone l3 \<or> use_system l3) \<and> \<not> audio_available l3 \<and>
                  p_audio_only_mode p")
      case True
      with assms unfold show ?thesis by (auto split: prod.splits)
    next
      case nc: False
      show ?thesis
      proof (cases "audio_available l3")
        case False
        with assms unfold nc have "engine_open p e4 w2 l3 env = Returned (0, e', w')"
          by (simp split: if_splits)
        with k3 show ?thesis by blast
      next
        case av: True
        show ?thesis
        proof (cases "p_audio_only_mode p")
          case False
          show ?thesis
          proof (cases "test_audio e4 w2 l3 env")
            case (Inl f)
            with assms unfold nc av False show ?thesis by simp
          next
            case ta: (Inr r5)
            obtain e5 w5 l5 where r5: "r5 = (e5, w5, l5)" by (cases r5)
            note k5 = test_audio_locals[OF ta[unfolded r5]]
            from assms unfold nc av False ta r5 have
              "engine_open p e5 w5 l5 env = Returned (0, e', w')" by simp
            with k5 k3 show ?thesis by auto
          qed
        next
          case True
          obtain b e5 w5 l5 where sa: "start_audio_only e4 w2 l3 env = (b, e5, w5, l5)"
            by (cases "start_audio_only e4 w2 l3 env") auto
          note k5 = start_audio_only_locals[OF sa]
          show ?thesis
          proof (cases b)
            case bf: False
            with assms unfold nc av True sa show ?thesis by (auto split: prod.splits)
          next
            case bt: True
            with assms unfold nc av True sa have
              "engine_open p e5 w5 l5 env = Returned (0, e', w')" by simp
            with k5 k3 show ?thesis by auto
          qed
        qed
      qed
    qed
  qed
qed

lemma engine_start_completed:
  assumes "engine_start audio_build engine parameters w env = Returned (0, engine', w')"
  shows "\<exists>e p e0 w0 l0 e'. engine = Some e \<and> parameters = Some p \<and> engine' = Some e' \<and>
           use_dual_track l0 = use_dual_track (start_locals audio_build p) \<and>
           engine_open p e0 w0 l0 env = Returned (0, e', w')"
proof -
  from assms obtain e p where ep: "engine = Some e" "parameters = Some p"
    by (cases engine; cases parameters) (auto simp: engine_start_def)
  from assms ep have nr: "\<not> is_running e" and cb: "callbacks_set e"
    by (auto simp: engine_start_def split: if_splits)
  define e1 where "e1 =
    status (e\<lparr>params := p, force_stop := False, stats := capture_stats_zero\<rparr>)
      ''Initializing capture...''"
  obtain r c where si:
    "(if \<not> p_audio_only_mode p
      then screen_init (Some (screen_ctx w)) (screen_init_os env)
      else (0, Some (screen_ctx w))) = (r, c)"
    by (rule prod.exhaust)
  define w1 where "w1 = w\<lparr>screen_ctx := context_or (screen_ctx w) c\<rparr>"
  have unfold: "engine_start audio_build engine parameters w env =
     (if r \<noteq> 0
      then Returned (-1, Some (status e1 ''Error: Failed to initialize screen capture''), w1)
      else if \<not> audio_build \<and> p_audio_only_mode p
      then Returned (-1, Some (status e1 ''Error: Audio-only mode not supported in MVP build''),
                     w1)
      else
        (case engine_prepare_audio p e1 w1 (start_locals audio_build p) env of
           Trapped f \<Rightarrow> Trapped f
         | Unfinished \<Rightarrow> Unfinished
         | Returned (r, e2, w2) \<Rightarrow> Returned (r, Some e2, w2)))"
    using ep nr cb si by (simp add: engine_start_def Let_def e1_def w1_def)
  from assms unfold obtain e2 where
    "engine_prepare_audio p e1 w1 (start_locals audio_build p) env = Returned (0, e2, w')"
    and "engine' = Some e2"
    by (auto split: if_splits outcome.splits)
  with engine_prepare_audio_completed[OF this(1)] ep show ?thesis by blast
qed

text \<open>
  Claim C8, refuted for the code. Whenever \<open>engine_start\<close> returns 0, which is the return
  at the end of every recording that was started, the sink writer pointer is still set and
  the start time still holds the tick count of the start: the statics of the muxer are not
  in their initial state. Only the \<open>cleanup\<close> label, reached after a failure, calls
  \<open>encoder_cleanup\<close>.
\<close>

theorem muxer_statics_outlive_a_completed_recording:
  assumes "engine_start audio_build engine parameters w env = Returned (0, engine', w')"
  shows "g_sink_writer (muxer w') \<noteq> None \<and>
         g_recording_start_time (muxer w') = start_tick env \<and>
         muxer w' \<noteq> encoder_globals_initial"
proof -
  from engine_start_completed[OF assms] obtain p e0 w0 l0 e' where
    "engine_open p e0 w0 l0 env = Returned (0, e', w')" by blast
  from engine_open_completed[OF this] obtain e1 w1 where
    se: "select_encoder p e0 w0 l0 env = (0, e1, w1)"
    and cs: "container_setup_of (muxer w') =
               (container_setup_of (muxer w1))\<lparr>setup_start_time := start_tick env\<rparr>"
    by blast
  from cs have "setup_streams (container_setup_of (muxer w')) =
                  setup_streams (container_setup_of (muxer w1))"
    and "setup_start_time (container_setup_of (muxer w')) = start_tick env"
    by simp_all
  then have ws: "writer_streams (muxer w') = writer_streams (muxer w1)"
    and st: "g_recording_start_time (muxer w') = start_tick env"
    by (simp_all add: container_setup_of_def)
  from select_encoder_opens[OF se] ws have "writer_streams (muxer w') \<noteq> None" by simp
  then have sw: "g_sink_writer (muxer w') \<noteq> None"
    by (auto simp: writer_streams_def split: option.splits)
  then have "muxer w' \<noteq> encoder_globals_initial"
    by (auto simp: encoder_globals_initial_def)
  with sw st show ?thesis by simp
qed

theorem muxer_statics_outlive_a_completed_recording_witness:
  "\<exists>e' w'. video_only_run = Returned (0, Some e', w') \<and>
      g_sink_writer (muxer w') \<noteq> None \<and> g_recording_start_time (muxer w') = 1000 \<and>
      muxer w' \<noteq> encoder_globals_initial \<and>
      g_video_frame_count (muxer w') = 1 \<and> g_video_width (muxer w') = 1 \<and>
      g_video_height (muxer w') = 2"
proof -
  have "\<exists>e' w'. video_only_run = Returned (0, Some e', w') \<and>
      g_video_frame_count (muxer w') = 1 \<and> g_video_width (muxer w') = 1 \<and>
      g_video_height (muxer w') = 2"
    unfolding video_only_run_def by (simp add: run_eval loop_eval screen_eval)
  then obtain e' w' where r: "video_only_run = Returned (0, Some e', w')"
    and k: "g_video_frame_count (muxer w') = 1" "g_video_width (muxer w') = 1"
      "g_video_height (muxer w') = 2"
    by blast
  have t: "start_tick (smooth_run [iteration_at 1000 two_row_surface False,
                                   iteration_at 1040 no_new_frame True]) = 1000"
    by (simp add: smooth_run_def)
  from muxer_statics_outlive_a_completed_recording[OF r[unfolded video_only_run_def]] t
  have "g_sink_writer (muxer w') \<noteq> None \<and> g_recording_start_time (muxer w') = 1000 \<and>
        muxer w' \<noteq> encoder_globals_initial"
    by simp
  with r k show ?thesis by blast
qed

subsection \<open>Recordings without video\<close>

lemma recording_mode_5_is_audio_only:
  assumes "params_set_recording_mode True (Some q) False True True = Inr (rc, Some p)"
  shows "p_audio_only_mode p \<and> p_audio_sources p = AUDIO_SOURCE_BOTH"
  using assms
  by (auto simp: params_set_recording_mode_def params_validate_and_finalize_def
        params_adjust_filename_extension_def Let_def
        split: sum.splits option.splits if_splits)




end
